theory Spec2Isabelle
  imports Complex_Main
begin

section \<open>Numbers and vectors\<close>

text \<open>
  The simulator computes with JavaScript numbers. Two readings of them are kept apart.

  The model of the simulation loop (attitude control, propellant, docking, clock) in the
  first sections reads every number as a \<^typ>\<open>real\<close> and every operation as exact.
  What is proved over it holds of exact arithmetic; it says nothing of rounding, overflow
  or NaN.

  The later sections work on JavaScript numbers themselves: NaN, the two infinities and
  the finite doubles, every operation rounded to double precision. The configuration
  loaders and the thruster set-up are modelled there, and so are the wheel controller
  and the thruster firing for what rounding and the non-finite numbers do to them.

  \<open>CANNON.Vec3\<close> belongs to the physics library the program imports. The operations the
  program calls on it are written out here as the library computes them: \<open>unit\<close> of a
  vector of length zero is the vector \<open>(1, 0, 0)\<close>.
\<close>

record vec3 =
  vx :: real
  vy :: real
  vz :: real

definition Vec3 :: "real \<Rightarrow> real \<Rightarrow> real \<Rightarrow> vec3" where
  "Vec3 x y z = \<lparr>vx = x, vy = y, vz = z\<rparr>"

definition dot :: "vec3 \<Rightarrow> vec3 \<Rightarrow> real" where
  "dot a b = vx a * vx b + vy a * vy b + vz a * vz b"

definition cross :: "vec3 \<Rightarrow> vec3 \<Rightarrow> vec3" where
  "cross a b = Vec3 (vy a * vz b - vz a * vy b)
                    (vz a * vx b - vx a * vz b)
                    (vx a * vy b - vy a * vx b)"

definition scale :: "vec3 \<Rightarrow> real \<Rightarrow> vec3" where
  "scale a k = Vec3 (k * vx a) (k * vy a) (k * vz a)"

definition vadd :: "vec3 \<Rightarrow> vec3 \<Rightarrow> vec3" where
  "vadd a b = Vec3 (vx a + vx b) (vy a + vy b) (vz a + vz b)"

definition vsub :: "vec3 \<Rightarrow> vec3 \<Rightarrow> vec3" where
  "vsub a b = Vec3 (vx a - vx b) (vy a - vy b) (vz a - vz b)"

definition vlength :: "vec3 \<Rightarrow> real" where
  "vlength a = sqrt (vx a * vx a + vy a * vy a + vz a * vz a)"

definition vunit :: "vec3 \<Rightarrow> vec3" where
  "vunit a =
     (let ninv = vlength a
      in if ninv > 0 then scale a (1 / ninv) else Vec3 1 0 0)"

section \<open>Attitude control (attitudeControl.js)\<close>

record wheel =
  rw_index :: nat
  rw_name :: string
  orientation :: vec3
  rw_position :: vec3
  rw_maxAngularMomentum :: real
  rw_maxTorque :: real
  rw_currentAngularMomentum :: real

record cmg =
  cmg_index :: nat
  cmg_name :: string
  cmg_maxAngularMomentum :: real
  cmg_maxTorque :: real
  cmg_currentAngularMomentum :: vec3

record thruster =
  pos :: vec3
  dir :: vec3
  thrust :: real
  isp :: real
  active :: bool
  index :: nat

datatype control_mode = Thrusters | ReactionWheels | CMGs

text \<open>
  The state of an \<open>AttitudeControlSystem\<close>. The rigid body \<open>satBody\<close> is the physics
  library's; the model records what the controller hands to it: \<open>appliedTorques\<close> are the
  vehicle-local torques passed to \<open>quaternion.vmult\<close> and \<open>applyTorque\<close>,
  \<open>appliedForces\<close> the arguments of \<open>applyLocalForce\<close>, both in call order.
\<close>

record acs =
  mode :: control_mode
  reactionWheels :: "wheel list"
  cmgs :: "cmg list"
  loaded :: bool
  desaturationActive :: bool
  appliedTorques :: "vec3 list"
  appliedForces :: "(vec3 \<times> vec3) list"

definition toggleMode :: "acs \<Rightarrow> acs" where
  "toggleMode s =
     (if \<not> loaded s then s
      else if mode s = Thrusters then s\<lparr>mode := ReactionWheels\<rparr>
      else if mode s = ReactionWheels \<and> length (cmgs s) > 0 then s\<lparr>mode := CMGs\<rparr>
      else s\<lparr>mode := Thrusters\<rparr>)"

text \<open>The time step \<open>dt = 1/60\<close> of both momentum controllers.\<close>

definition dt_ctl :: real where
  "dt_ctl = 1 / 60"

text \<open>\<open>actualTorqueApplied\<close> of one wheel in \<open>applyReactionWheelControl\<close>.\<close>

definition actualTorqueApplied :: "vec3 \<Rightarrow> wheel \<Rightarrow> real" where
  "actualTorqueApplied torque w =
     (let requestedTorqueAlongWheel = dot (orientation w) torque
      in if requestedTorqueAlongWheel > 0 then
           (let momentumCapacity = rw_maxAngularMomentum w - rw_currentAngularMomentum w;
                maxPossibleTorque = momentumCapacity / dt_ctl
            in min requestedTorqueAlongWheel maxPossibleTorque)
         else if requestedTorqueAlongWheel < 0 then
           (let momentumCapacity = rw_currentAngularMomentum w - (- rw_maxAngularMomentum w);
                maxPossibleTorque = momentumCapacity / dt_ctl
            in max requestedTorqueAlongWheel (- maxPossibleTorque))
         else 0)"

definition wheelControl :: "vec3 \<Rightarrow> wheel \<Rightarrow> wheel" where
  "wheelControl torque w =
     w\<lparr>rw_currentAngularMomentum :=
         rw_currentAngularMomentum w + actualTorqueApplied torque w * dt_ctl\<rparr>"

definition reactionTorque :: "vec3 \<Rightarrow> wheel \<Rightarrow> vec3" where
  "reactionTorque torque w = scale (orientation w) (- actualTorqueApplied torque w)"

definition applyReactionWheelControl :: "vec3 \<Rightarrow> acs \<Rightarrow> acs" where
  "applyReactionWheelControl torque s =
     s\<lparr>reactionWheels := map (wheelControl torque) (reactionWheels s),
       appliedTorques := appliedTorques s @ map (reactionTorque torque) (reactionWheels s)\<rparr>"

text \<open>\<open>actualTorque\<close> of one CMG in \<open>applyCMGControl\<close>, after both limits.\<close>

definition actualTorque :: "vec3 \<Rightarrow> cmg \<Rightarrow> vec3" where
  "actualTorque desiredLocalTorque c =
     (let currentMomentumMag = vlength (cmg_currentAngularMomentum c);
          t0 = desiredLocalTorque;
          desiredDeltaMomentum = scale t0 (dt_ctl * (- 1));
          dotProduct = dot (cmg_currentAngularMomentum c) desiredDeltaMomentum;
          t1 = (if dotProduct > 0 \<and> currentMomentumMag \<ge> cmg_maxAngularMomentum c then
                  (let availableMomentum = cmg_maxAngularMomentum c - currentMomentumMag;
                       scaleFactor = availableMomentum / dotProduct
                   in scale t0 scaleFactor)
                else t0);
          actualTorqueMag = vlength t1
      in if actualTorqueMag > cmg_maxTorque c
         then scale t1 (cmg_maxTorque c / actualTorqueMag) else t1)"

definition cmgControl :: "vec3 \<Rightarrow> cmg \<Rightarrow> cmg" where
  "cmgControl torque c =
     (let deltaMomentum = scale (actualTorque torque c) (dt_ctl * (- 1))
      in c\<lparr>cmg_currentAngularMomentum := vadd (cmg_currentAngularMomentum c) deltaMomentum\<rparr>)"

definition applyCMGControl :: "vec3 \<Rightarrow> acs \<Rightarrow> acs" where
  "applyCMGControl torque s =
     (if length (cmgs s) = 0 then s
      else s\<lparr>cmgs := map (cmgControl torque) (cmgs s),
             appliedTorques := appliedTorques s @ map (actualTorque torque) (cmgs s)\<rparr>)"

definition applyControlTorque :: "vec3 \<Rightarrow> acs \<Rightarrow> acs" where
  "applyControlTorque torque s =
     (if mode s = ReactionWheels then applyReactionWheelControl torque s
      else if mode s = CMGs then applyCMGControl torque s
      else s)"

subsection \<open>Desaturation\<close>

definition totalWheelMomentum :: "wheel list \<Rightarrow> vec3" where
  "totalWheelMomentum ws =
     foldl (\<lambda>total w. vadd total (scale (orientation w) (rw_currentAngularMomentum w)))
       (Vec3 0 0 0) ws"

text \<open>The update of one wheel inside the thruster loop of the reaction-wheel branch.\<close>

definition bleedWheel :: "real \<Rightarrow> wheel \<Rightarrow> wheel" where
  "bleedWheel alignment w =
     (let reduction = scale (orientation w) (alignment * (1 / 100));
          newMomentum = rw_currentAngularMomentum w - vlength reduction
      in w\<lparr>rw_currentAngularMomentum :=
             max (- rw_maxAngularMomentum w) (min (rw_maxAngularMomentum w) newMomentum)\<rparr>)"

definition desatWheelsThruster :: "vec3 \<Rightarrow> acs \<Rightarrow> thruster \<Rightarrow> acs" where
  "desatWheelsThruster thrustDirection s t =
     (let torqueDirection = cross (pos t) (dir t);
          alignment = dot torqueDirection thrustDirection
      in if alignment > 1 / 2 then
           s\<lparr>appliedForces := appliedForces s @ [(scale (dir t) (thrust t * (1 / 2)), pos t)],
             reactionWheels := map (bleedWheel alignment) (reactionWheels s)\<rparr>
         else s)"

definition maxMomentum :: "wheel list \<Rightarrow> real" where
  "maxMomentum ws = foldl (\<lambda>m w. max m \<bar>rw_currentAngularMomentum w\<bar>) 0 ws"

definition totalCMGMomentum :: "cmg list \<Rightarrow> vec3" where
  "totalCMGMomentum cs =
     foldl (\<lambda>total c. vadd total (cmg_currentAngularMomentum c)) (Vec3 0 0 0) cs"

definition bleedCMG :: "vec3 \<Rightarrow> cmg \<Rightarrow> cmg" where
  "bleedCMG momentumDir c =
     (let reductionFactor = 2 / 100;
          reduction = scale momentumDir reductionFactor
      in c\<lparr>cmg_currentAngularMomentum := vsub (cmg_currentAngularMomentum c) reduction\<rparr>)"

definition desatCMGsThruster :: "vec3 \<Rightarrow> acs \<Rightarrow> thruster \<Rightarrow> acs" where
  "desatCMGsThruster momentumDir s t =
     (let torqueDirection = cross (pos t) (dir t);
          alignment = dot torqueDirection momentumDir
      in if alignment > 1 / 2 then
           s\<lparr>appliedForces := appliedForces s @ [(scale (dir t) (thrust t * (3 / 10)), pos t)],
             cmgs := map (bleedCMG momentumDir) (cmgs s)\<rparr>
         else s)"

definition desaturateWithThrusters :: "thruster list \<Rightarrow> acs \<Rightarrow> acs" where
  "desaturateWithThrusters thrusters s =
     (if mode s = ReactionWheels then
        (let s1 = s\<lparr>desaturationActive := True\<rparr>;
             totalMomentum = totalWheelMomentum (reactionWheels s1);
             s2 = (if vlength totalMomentum > 1 / 10 then
                     (let thrustDirection = scale (vunit totalMomentum) (- 1)
                      in foldl (desatWheelsThruster thrustDirection) s1 thrusters)
                   else s1)
         in if maxMomentum (reactionWheels s2) < 1 / 2
            then s2\<lparr>desaturationActive := False\<rparr> else s2)
      else if mode s = CMGs then
        (let s1 = s\<lparr>desaturationActive := True\<rparr>;
             totalMomentum = totalCMGMomentum (cmgs s1);
             totalMomentumMag = vlength totalMomentum;
             s2 = (if totalMomentumMag > 10 then
                     (let momentumDir = scale (vunit totalMomentum) (- 1)
                      in foldl (desatCMGsThruster momentumDir) s1 thrusters)
                   else s1)
         in if vlength (totalCMGMomentum (cmgs s2)) < 5
            then s2\<lparr>desaturationActive := False\<rparr> else s2)
      else s)"

section \<open>Propellant (spacecraftManager.js)\<close>

text \<open>
  The module-level fuel variables and the two mass fields of \<open>spacecraftBody\<close> that
  \<open>updateSatelliteMass\<close> writes; \<open>spacecraftBody\<close> is \<open>None\<close> until a model is loaded.
\<close>

record body_mass =
  mass :: real
  invMass :: real

record fuel_sys =
  dryMass :: real
  fuelMass :: real
  maxFuelMass :: real
  spacecraftBody :: "body_mass option"

definition updateSatelliteMass :: "fuel_sys \<Rightarrow> fuel_sys" where
  "updateSatelliteMass f =
     (case spacecraftBody f of
        None \<Rightarrow> f
      | Some b \<Rightarrow>
          (let totalMass = dryMass f + fuelMass f
           in f\<lparr>spacecraftBody :=
                  Some (b\<lparr>mass := totalMass,
                           invMass := (if totalMass > 0 then 1 / totalMass else 0)\<rparr>)\<rparr>))"

definition consumeFuel :: "real \<Rightarrow> fuel_sys \<Rightarrow> fuel_sys" where
  "consumeFuel amount f = updateSatelliteMass (f\<lparr>fuelMass := max 0 (fuelMass f - amount)\<rparr>)"

definition resetFuel :: "fuel_sys \<Rightarrow> fuel_sys" where
  "resetFuel f = updateSatelliteMass (f\<lparr>fuelMass := maxFuelMass f\<rparr>)"

text \<open>
  What one thruster firing touches: the thruster list (for the \<open>active\<close> flags), the
  fuel variables, and the forces handed to \<open>satBody.applyLocalForce\<close>.
\<close>

record propulsion =
  thrusters :: "thruster list"
  fuel :: fuel_sys
  firedForces :: "(vec3 \<times> vec3) list"

definition setActive :: "nat \<Rightarrow> bool \<Rightarrow> propulsion \<Rightarrow> propulsion" where
  "setActive i b p = p\<lparr>thrusters := (thrusters p)[i := (thrusters p ! i)\<lparr>active := b\<rparr>]\<rparr>"

text \<open>
  The body of \<open>indices.forEach(i => ...)\<close> in \<open>animate\<close>; the rotation-key loop and the
  translation-key loop hold the same text. An index with no thruster is skipped
  (\<open>if (!t) return\<close>). Over the reals \<open>!t.thrust\<close> holds for \<open>0\<close> only.
\<close>

definition fireThruster :: "real \<Rightarrow> propulsion \<Rightarrow> nat \<Rightarrow> propulsion" where
  "fireThruster dt p i =
     (if i \<ge> length (thrusters p) then p
      else
        (let t = thrusters p ! i
         in if fuelMass (fuel p) \<le> 0 then setActive i False p
            else if thrust t = 0 \<or> isp t = 0 \<or> isp t \<le> 0 then setActive i False p
            else
              (let forceLocal = scale (dir t) (thrust t);
                   p1 = p\<lparr>firedForces := firedForces p @ [(forceLocal, pos t)]\<rparr>;
                   fuelConsumptionRate = thrust t / (isp t * (981 / 100));
                   fuelConsumed = fuelConsumptionRate * dt;
                   p2 = p1\<lparr>fuel := consumeFuel fuelConsumed (fuel p1)\<rparr>;
                   remainingFuel = fuelMass (fuel p2)
               in if remainingFuel \<le> 0 then setActive i False p2
                  else setActive i True p2)))"

text \<open>
  One pass of \<open>Object.entries(keyToThrusterIndices).forEach\<close>: the keys in insertion
  order, each pressed key of the wanted group firing its indices in list order.
  \<open>translation = True\<close> is the loop over \<open>w s a d q e\<close>, \<open>False\<close> the loop over the
  other keys.
\<close>

definition translationKeys :: "string list" where
  "translationKeys = [''w'', ''s'', ''a'', ''d'', ''q'', ''e'']"

definition fireKey :: "bool \<Rightarrow> (string \<Rightarrow> bool) \<Rightarrow> real \<Rightarrow> propulsion \<Rightarrow> string \<times> nat list \<Rightarrow> propulsion" where
  "fireKey translation keyIsPressed dt p entry =
     (case entry of (key, indices) \<Rightarrow>
        if keyIsPressed key \<and> length indices \<noteq> 0 \<and> ((key \<in> set translationKeys) = translation)
        then foldl (fireThruster dt) p indices else p)"

definition fireKeys :: "bool \<Rightarrow> (string \<Rightarrow> bool) \<Rightarrow> real \<Rightarrow> (string \<times> nat list) list \<Rightarrow> propulsion \<Rightarrow> propulsion" where
  "fireKeys translation keyIsPressed dt keyToThrusterIndices p =
     foldl (fireKey translation keyIsPressed dt) p keyToThrusterIndices"

section \<open>The simulation loop, docking and the clock (spacecraftManager.js)\<close>

text \<open>
  The kinematic state of \<open>satBody\<close> that the program reads and writes. The quaternion is
  compared with the reference orientation by \<open>THREE.Quaternion.angleTo\<close>, which the
  graphics library computes as \<open>2 * acos(|clamp(dot, -1, 1)|)\<close>.
\<close>

record quat =
  qx :: real
  qy :: real
  qz :: real
  qw :: real

record body =
  position :: vec3
  quaternion :: quat
  velocity :: vec3
  angularVelocity :: vec3

definition angleTo :: "quat \<Rightarrow> quat \<Rightarrow> real" where
  "angleTo a b =
     (let d = qx a * qx b + qy a * qy b + qz a * qz b + qw a * qw b
      in 2 * arccos \<bar>max (- 1) (min 1 d)\<bar>)"

definition MAX_ANGULAR_SPEED :: real where "MAX_ANGULAR_SPEED = 1"
definition MAX_XZ_SPEED :: real where "MAX_XZ_SPEED = 1 / 10"
definition MAX_Z_SPEED :: real where "MAX_Z_SPEED = 1"

text \<open>
  The variables of \<open>initSimulation\<close> that the loop, the key handler and the reset share.
  \<open>satBody\<close> and \<open>satMesh\<close> are set before \<open>main\<close> starts the loop, so the model has
  them present throughout. \<open>undockTime\<close> and \<open>pausedStartTime\<close> are \<open>null\<close> or a time stamp
  in milliseconds.
\<close>

record sim =
  satBody :: body
  initialPosition :: vec3
  initialOrientation :: quat
  DOCKING_BOX_SIZE :: real
  DOCKING_ANGLE_THRESHOLD :: real
  attitudeControl :: acs
  propulsionSys :: propulsion
  keyToThrusterIndices :: "(string \<times> nat list) list"
  torquePercentage :: real
  isDocked :: bool
  canDock :: bool
  hasLeftDockingBoxOnce :: bool
  paused :: bool
  undockTime :: "real option"
  pausedStartTime :: "real option"
  accumulatedPausedTime :: real
  lastDockedTime :: real

record dockingStatus =
  inBox :: bool
  inAngle :: bool
  withinSpeedLimits :: bool
  withinAngularSpeedLimit :: bool

definition isInDockingZone :: "sim \<Rightarrow> dockingStatus" where
  "isInDockingZone s =
     (let b = satBody s;
          positionDiff = vsub (position b) (initialPosition s);
          angleDiff = angleTo (quaternion b) (initialOrientation s) * (180 / pi);
          xzSpeed = sqrt ((vx (velocity b))\<^sup>2 + (vz (velocity b))\<^sup>2);
          zSpeed = vz (velocity b);
          angularSpeed = vlength (angularVelocity b) * (180 / pi)
      in \<lparr>inBox = (\<bar>vx positionDiff\<bar> \<le> DOCKING_BOX_SIZE s \<and>
                  \<bar>vy positionDiff\<bar> \<le> DOCKING_BOX_SIZE s \<and>
                  \<bar>vz positionDiff\<bar> \<le> DOCKING_BOX_SIZE s),
          inAngle = (angleDiff \<le> DOCKING_ANGLE_THRESHOLD s),
          withinSpeedLimits = (xzSpeed \<le> MAX_XZ_SPEED \<and> zSpeed \<le> MAX_Z_SPEED),
          withinAngularSpeedLimit = (angularSpeed \<le> MAX_ANGULAR_SPEED)\<rparr>)"

text \<open>
  What one call of \<open>animate\<close> reads from outside: \<open>performance.now()\<close>,
  \<open>clock.getDelta()\<close>, which keys count as pressed (\<open>fineControlMode ? fineControlKeys[k]
  : keys[k]\<close>, after the timed-firing expiry at the top of the frame), and what
  \<open>world.step\<close> of the physics library makes of the body. The clock is read once per
  frame or key event in the model.
\<close>

record frame =
  now :: real
  delta :: real
  keyIsPressed :: "string \<Rightarrow> bool"
  worldStep :: "body \<Rightarrow> body"

definition controlTorque :: "bool \<Rightarrow> (string \<Rightarrow> bool) \<Rightarrow> real \<Rightarrow> vec3" where
  "controlTorque isCMGMode pressed torquePerAxis =
     (let x1 = (if pressed (if isCMGMode then ''k'' else ''i'') then torquePerAxis else 0);
          x2 = (if pressed (if isCMGMode then ''i'' else ''k'') then x1 - torquePerAxis else x1);
          y1 = (if pressed (if isCMGMode then ''j'' else ''l'') then torquePerAxis else 0);
          y2 = (if pressed (if isCMGMode then ''l'' else ''j'') then y1 - torquePerAxis else y1);
          z1 = (if pressed (if isCMGMode then ''o'' else ''u'') then torquePerAxis else 0);
          z2 = (if pressed (if isCMGMode then ''u'' else ''o'') then z1 - torquePerAxis else z1)
      in Vec3 x2 y2 z2)"

definition averageMaxTorque :: "bool \<Rightarrow> acs \<Rightarrow> real" where
  "averageMaxTorque isCMGMode ac =
     (if isCMGMode \<and> length (cmgs ac) > 0 then
        foldl (\<lambda>sum c. sum + cmg_maxTorque c) 0 (cmgs ac) / real (length (cmgs ac))
      else if \<not> isCMGMode \<and> length (reactionWheels ac) > 0 then
        foldl (\<lambda>sum w. sum + rw_maxTorque w) 0 (reactionWheels ac) / real (length (reactionWheels ac))
      else 1 / 2)"

text \<open>The block \<open>if (!paused && satBody) { ... world.step(1/170) }\<close>.\<close>

definition controlPhase :: "frame \<Rightarrow> sim \<Rightarrow> sim" where
  "controlPhase fr s =
     (let ac = attitudeControl s;
          s1 = (if loaded ac \<and> mode ac \<noteq> Thrusters then
                  (let isCMGMode = (mode ac = CMGs);
                       maxTorque = averageMaxTorque isCMGMode ac;
                       torquePerAxis = maxTorque * (torquePercentage s / 100);
                       torque = controlTorque isCMGMode (keyIsPressed fr) torquePerAxis;
                       ac1 = (if vlength torque > 0 then applyControlTorque torque ac else ac);
                       ac2 = (if desaturationActive ac1
                              then desaturateWithThrusters (thrusters (propulsionSys s)) ac1 else ac1)
                   in s\<lparr>attitudeControl := ac2\<rparr>)
                else
                  s\<lparr>propulsionSys := fireKeys False (keyIsPressed fr) (delta fr)
                              (keyToThrusterIndices s) (propulsionSys s)\<rparr>);
          s2 = s1\<lparr>propulsionSys := fireKeys True (keyIsPressed fr) (delta fr)
                         (keyToThrusterIndices s1) (propulsionSys s1)\<rparr>
      in s2\<lparr>satBody := worldStep fr (satBody s2)\<rparr>)"

text \<open>The loop that switches off every active thruster no pressed key refers to.\<close>

definition releaseThrusters :: "frame \<Rightarrow> sim \<Rightarrow> sim" where
  "releaseThrusters fr s =
     (let stillPressed = (\<lambda>t. list_ex (\<lambda>(k, ids). keyIsPressed fr k \<and> index t \<in> set ids)
                                  (keyToThrusterIndices s));
          release = (\<lambda>t. if active t \<and> \<not> stillPressed t then t\<lparr>active := False\<rparr> else t)
      in s\<lparr>propulsionSys := (propulsionSys s)\<lparr>thrusters := map release (thrusters (propulsionSys s))\<rparr>\<rparr>)"

text \<open>The docking logic at the end of \<open>animate\<close>; it runs in every frame, paused or not.\<close>

definition dockingPhase :: "frame \<Rightarrow> sim \<Rightarrow> sim" where
  "dockingPhase fr s =
     (let ds = isInDockingZone s;
          s1 = (if \<not> inBox ds then s\<lparr>hasLeftDockingBoxOnce := True\<rparr> else s);
          s2 = (if \<not> isDocked s1 \<and> canDock s1 \<and> hasLeftDockingBoxOnce s1 \<and> inBox ds \<and>
                   inAngle ds \<and> withinSpeedLimits ds \<and> withinAngularSpeedLimit ds
                then
                  (let currentTime = (case pausedStartTime s1 of
                                        Some t \<Rightarrow> t | None \<Rightarrow> now fr)
                   in s1\<lparr>isDocked := True, paused := True,
                         satBody := (satBody s1)\<lparr>velocity := Vec3 0 0 0,
                                                  angularVelocity := Vec3 0 0 0\<rparr>,
                         lastDockedTime :=
                           currentTime - (case undockTime s1 of Some u \<Rightarrow> u | None \<Rightarrow> 0)
                             - accumulatedPausedTime s1\<rparr>)
                else s1)
      in if \<not> canDock s2 \<and> \<not> inBox ds \<and> hasLeftDockingBoxOnce s2
         then s2\<lparr>canDock := True\<rparr> else s2)"

definition animate :: "frame \<Rightarrow> sim \<Rightarrow> sim" where
  "animate fr s =
     (let s1 = (if \<not> paused s then controlPhase fr s else s);
          s2 = releaseThrusters fr s1
      in dockingPhase fr s2)"

text \<open>
  The key handler for \<open>`\<close>+\<open>p\<close> and \<open>`\<close>+\<open>f\<close> (both branches hold the same text): undock
  when docked and paused, then toggle the pause and keep the pause accounts.
\<close>

definition keyPause :: "real \<Rightarrow> sim \<Rightarrow> sim" where
  "keyPause t s =
     (let s1 = (if isDocked s \<and> paused s
                then s\<lparr>isDocked := False, hasLeftDockingBoxOnce := True, canDock := False,
                       undockTime := Some t, accumulatedPausedTime := 0\<rparr>
                else s);
          s2 = (if paused s1 then
                  (case pausedStartTime s1 of
                     Some p \<Rightarrow> s1\<lparr>accumulatedPausedTime := accumulatedPausedTime s1 + (t - p),
                                   pausedStartTime := None\<rparr>
                   | None \<Rightarrow> s1)
                else s1\<lparr>pausedStartTime := Some t\<rparr>)
      in s2\<lparr>paused := \<not> paused s2\<rparr>)"

definition stopEverything :: "sim \<Rightarrow> sim" where
  "stopEverything s =
     s\<lparr>satBody := (satBody s)\<lparr>velocity := Vec3 0 0 0, angularVelocity := Vec3 0 0 0\<rparr>,
       propulsionSys := (propulsionSys s)
         \<lparr>thrusters := map (\<lambda>t. t\<lparr>active := False\<rparr>) (thrusters (propulsionSys s))\<rparr>\<rparr>"

definition resetSimulation :: "sim \<Rightarrow> sim" where
  "resetSimulation s =
     s\<lparr>satBody := \<lparr>position = initialPosition s, quaternion = initialOrientation s,
                     velocity = Vec3 0 0 0, angularVelocity = Vec3 0 0 0\<rparr>,
       propulsionSys := (propulsionSys s)
         \<lparr>fuel := resetFuel (fuel (propulsionSys s)),
          thrusters := map (\<lambda>t. t\<lparr>active := False\<rparr>) (thrusters (propulsionSys s))\<rparr>,
       attitudeControl := (attitudeControl s)
         \<lparr>mode := Thrusters,
          reactionWheels := map (\<lambda>w. w\<lparr>rw_currentAngularMomentum := 0\<rparr>)
                              (reactionWheels (attitudeControl s)),
          cmgs := map (\<lambda>c. c\<lparr>cmg_currentAngularMomentum := Vec3 0 0 0\<rparr>)
                    (cmgs (attitudeControl s))\<rparr>,
       isDocked := True, paused := True, canDock := False, hasLeftDockingBoxOnce := False,
       undockTime := None, pausedStartTime := None, accumulatedPausedTime := 0\<rparr>"

text \<open>
  \<open>updateClock\<close>: \<open>elapsedMilliseconds\<close> is the number the clock shows, and
  \<open>clockFields\<close> cuts it into the hours, minutes, seconds and milliseconds that are
  printed as \<open>H:MM:SS.mmm\<close>. JavaScript's \<open>%\<close> takes the sign of the dividend.
\<close>

definition js_rem :: "real \<Rightarrow> real \<Rightarrow> real" where
  "js_rem a b = a - b * of_int (if a / b \<ge> 0 then \<lfloor>a / b\<rfloor> else \<lceil>a / b\<rceil>)"

definition clockFields :: "real \<Rightarrow> int \<times> int \<times> int \<times> int" where
  "clockFields ms =
     (let elapsedSeconds = ms / 1000
      in (\<lfloor>elapsedSeconds / 3600\<rfloor>, \<lfloor>js_rem elapsedSeconds 3600 / 60\<rfloor>,
          \<lfloor>js_rem elapsedSeconds 60\<rfloor>, \<lfloor>js_rem ms 1000\<rfloor>))"

definition elapsedMilliseconds :: "real \<Rightarrow> sim \<Rightarrow> real" where
  "elapsedMilliseconds t s =
     (case undockTime s of
        None \<Rightarrow> 0
      | Some u \<Rightarrow>
          if isDocked s then lastDockedTime s
          else
            (let currentTime = (case pausedStartTime s of
                                  Some p \<Rightarrow> if paused s then p else t
                                | None \<Rightarrow> t)
             in currentTime - u - accumulatedPausedTime s))"

definition updateClock :: "real \<Rightarrow> sim \<Rightarrow> int \<times> int \<times> int \<times> int" where
  "updateClock t s = clockFields (elapsedMilliseconds t s)"

text \<open>
  The events that drive the simulation: the key presses the claims are about and the frames
  of the loop. \<open>t\<close> toggles the control mode and \<open>g\<close> starts a desaturation, both only
  once an attitude control system is loaded.
\<close>

datatype event =
    KeyPause real
  | KeyReset
  | KeyStop
  | KeyToggleMode
  | KeyDesaturate
  | Frame frame

fun step :: "event \<Rightarrow> sim \<Rightarrow> sim" where
  "step (KeyPause t) s = keyPause t s"
| "step KeyReset s = resetSimulation s"
| "step KeyStop s = stopEverything s"
| "step KeyToggleMode s =
     (if loaded (attitudeControl s)
      then s\<lparr>attitudeControl := toggleMode (attitudeControl s)\<rparr> else s)"
| "step KeyDesaturate s =
     (if loaded (attitudeControl s)
      then s\<lparr>attitudeControl :=
               desaturateWithThrusters (thrusters (propulsionSys s)) (attitudeControl s)\<rparr>
      else s)"
| "step (Frame fr) s = animate fr s"

definition run :: "event list \<Rightarrow> sim \<Rightarrow> sim" where
  "run es s = foldl (\<lambda>s e. step e s) s es"

section \<open>JavaScript values in the configuration\<close>
section \<open>JavaScript numbers and values\<close>

text \<open>
  A JavaScript number is NaN, an infinity or a finite double; \<open>Fin x\<close> is the finite
  number of value \<open>x\<close>. The sign of zero is not kept: both zeros are \<open>Fin 0\<close>, read as
  \<open>+0\<close> where a number is divided by it.

  A field of parsed JSON is absent (\<open>undefined\<close>), \<open>null\<close>, a boolean, a number, a string
  or some other object. Arrays in the place of a number are left out.
\<close>

datatype jsnum = NaN | Fin real | PosInf | NegInf

datatype jsval = JUndefined | JNull | JBool bool | JNum jsnum | JString string | JObject

subsection \<open>Rounding to double precision\<close>

text \<open>
  The finite doubles are the numbers \<open>m * 2^q\<close> with \<open>|m| < 2^53\<close> and
  \<open>-1074 \<le> q \<le> 971\<close>. An operation returns the double nearest to its exact result, of
  two nearest ones the one with even \<open>m\<close>, and an infinity when that lies at \<open>2^1024\<close> or
  beyond.

  \<open>bitLength n\<close> is the number of binary digits of \<open>n\<close>. \<open>binade x\<close> is the exponent \<open>e\<close>
  with \<open>2^e \<le> |x| < 2^(e+1)\<close>, but not less than \<open>-1022\<close>: the doubles next to \<open>x\<close> are
  then the multiples of \<open>2^(e-52)\<close>.
\<close>

definition pow2 :: "int \<Rightarrow> real" where
  "pow2 e = (if e \<ge> 0 then 2 ^ nat e else 1 / 2 ^ nat (- e))"

function bitLength :: "int \<Rightarrow> int" where
  "bitLength n = (if n \<le> 0 then 0 else bitLength (n div 2) + 1)"
  by pat_completeness auto
termination
  by (relation "measure nat") auto

definition binade :: "real \<Rightarrow> int" where
  "binade x =
     (if 1 \<le> \<bar>x\<bar> then bitLength \<lfloor>\<bar>x\<bar>\<rfloor> - 1
      else max (- 1022) (- bitLength (\<lceil>1 / \<bar>x\<bar>\<rceil> - 1)))"

definition roundEven :: "real \<Rightarrow> int" where
  "roundEven x =
     (let n = \<lfloor>x\<rfloor>; r = x - of_int n
      in if r < 1 / 2 \<or> (r = 1 / 2 \<and> even n) then n else n + 1)"

definition roundDouble :: "real \<Rightarrow> jsnum" where
  "roundDouble x =
     (let ulp = pow2 (binade x - 52);
          y = of_int (roundEven (x / ulp)) * ulp
      in if y \<ge> pow2 1024 then PosInf else if y \<le> - pow2 1024 then NegInf else Fin y)"

text \<open>A decimal literal of the program text is the double nearest to it.\<close>

definition literal :: "real \<Rightarrow> jsnum" where
  "literal x = roundDouble x"

subsection \<open>Arithmetic and comparison\<close>

fun jsNeg :: "jsnum \<Rightarrow> jsnum" where
  "jsNeg (Fin a) = Fin (- a)"
| "jsNeg PosInf = NegInf"
| "jsNeg NegInf = PosInf"
| "jsNeg NaN = NaN"

fun jsAdd :: "jsnum \<Rightarrow> jsnum \<Rightarrow> jsnum" where
  "jsAdd (Fin a) (Fin b) = roundDouble (a + b)"
| "jsAdd NaN b = NaN"
| "jsAdd a NaN = NaN"
| "jsAdd PosInf NegInf = NaN"
| "jsAdd NegInf PosInf = NaN"
| "jsAdd PosInf b = PosInf"
| "jsAdd NegInf b = NegInf"
| "jsAdd a PosInf = PosInf"
| "jsAdd a NegInf = NegInf"

definition jsSub :: "jsnum \<Rightarrow> jsnum \<Rightarrow> jsnum" where
  "jsSub a b = jsAdd a (jsNeg b)"

fun jsMul :: "jsnum \<Rightarrow> jsnum \<Rightarrow> jsnum" where
  "jsMul (Fin a) (Fin b) = roundDouble (a * b)"
| "jsMul NaN b = NaN"
| "jsMul a NaN = NaN"
| "jsMul (Fin a) PosInf = (if a = 0 then NaN else if a > 0 then PosInf else NegInf)"
| "jsMul (Fin a) NegInf = (if a = 0 then NaN else if a > 0 then NegInf else PosInf)"
| "jsMul PosInf (Fin b) = (if b = 0 then NaN else if b > 0 then PosInf else NegInf)"
| "jsMul NegInf (Fin b) = (if b = 0 then NaN else if b > 0 then NegInf else PosInf)"
| "jsMul PosInf PosInf = PosInf"
| "jsMul PosInf NegInf = NegInf"
| "jsMul NegInf PosInf = NegInf"
| "jsMul NegInf NegInf = PosInf"

fun jsDiv :: "jsnum \<Rightarrow> jsnum \<Rightarrow> jsnum" where
  "jsDiv (Fin a) (Fin b) =
     (if b = 0 then (if a = 0 then NaN else if a > 0 then PosInf else NegInf)
      else roundDouble (a / b))"
| "jsDiv NaN b = NaN"
| "jsDiv a NaN = NaN"
| "jsDiv (Fin a) PosInf = Fin 0"
| "jsDiv (Fin a) NegInf = Fin 0"
| "jsDiv PosInf (Fin b) = (if b \<ge> 0 then PosInf else NegInf)"
| "jsDiv NegInf (Fin b) = (if b \<ge> 0 then NegInf else PosInf)"
| "jsDiv PosInf PosInf = NaN"
| "jsDiv PosInf NegInf = NaN"
| "jsDiv NegInf PosInf = NaN"
| "jsDiv NegInf NegInf = NaN"

text \<open>The comparisons \<open><\<close> and \<open><=\<close>: false as soon as an operand is NaN.\<close>

fun jsLt :: "jsnum \<Rightarrow> jsnum \<Rightarrow> bool" where
  "jsLt (Fin a) (Fin b) = (a < b)"
| "jsLt NaN b = False"
| "jsLt a NaN = False"
| "jsLt PosInf b = False"
| "jsLt a NegInf = False"
| "jsLt NegInf b = True"
| "jsLt a PosInf = True"

fun jsLe :: "jsnum \<Rightarrow> jsnum \<Rightarrow> bool" where
  "jsLe (Fin a) (Fin b) = (a \<le> b)"
| "jsLe NaN b = False"
| "jsLe a NaN = False"
| "jsLe NegInf b = True"
| "jsLe a PosInf = True"
| "jsLe a b = False"

definition jsGt :: "jsnum \<Rightarrow> jsnum \<Rightarrow> bool" where
  "jsGt a b = jsLt b a"

definition jsGe :: "jsnum \<Rightarrow> jsnum \<Rightarrow> bool" where
  "jsGe a b = jsLe b a"

text \<open>\<open>Math.min\<close>, \<open>Math.max\<close>, \<open>Math.abs\<close>, \<open>Math.sqrt\<close> and \<open>isNaN\<close> on numbers.\<close>

definition jsMin :: "jsnum \<Rightarrow> jsnum \<Rightarrow> jsnum" where
  "jsMin a b = (if a = NaN \<or> b = NaN then NaN else if jsLt b a then b else a)"

definition jsMax :: "jsnum \<Rightarrow> jsnum \<Rightarrow> jsnum" where
  "jsMax a b = (if a = NaN \<or> b = NaN then NaN else if jsLt a b then b else a)"

fun jsAbs :: "jsnum \<Rightarrow> jsnum" where
  "jsAbs (Fin a) = Fin \<bar>a\<bar>"
| "jsAbs NaN = NaN"
| "jsAbs PosInf = PosInf"
| "jsAbs NegInf = PosInf"

fun jsSqrt :: "jsnum \<Rightarrow> jsnum" where
  "jsSqrt (Fin a) = (if a < 0 then NaN else roundDouble (sqrt a))"
| "jsSqrt NaN = NaN"
| "jsSqrt PosInf = PosInf"
| "jsSqrt NegInf = NaN"

definition isNaN :: "jsnum \<Rightarrow> bool" where
  "isNaN n = (n = NaN)"

text \<open>
  \<open>Math.cos\<close> is left to the engine by the language definition; it is read here as the
  double nearest to the cosine. \<open>Math.PI\<close> is the double nearest to \<open>\<pi>\<close>.
\<close>

fun jsCos :: "jsnum \<Rightarrow> jsnum" where
  "jsCos (Fin a) = roundDouble (cos a)"
| "jsCos n = NaN"

definition Math_PI :: jsnum where
  "Math_PI = Fin (884279719003555 / 281474976710656)"

subsection \<open>Vectors of the physics library\<close>

text \<open>
  A \<open>CANNON.Vec3\<close> holding JavaScript numbers, with \<open>dot\<close>, \<open>cross\<close>, \<open>scale\<close>, \<open>length\<close>
  and \<open>unit\<close> as the library writes them, sums taken from left to right. In \<open>unit\<close> a NaN
  component makes the length NaN, the test \<open>ninv > 0\<close> fails and the answer is
  \<open>(1, 0, 0)\<close>; so does a vector whose squares all round to zero.
\<close>

type_synonym jsvec = "jsnum \<times> jsnum \<times> jsnum"

fun jx :: "jsvec \<Rightarrow> jsnum" where
  "jx (x, y, z) = x"

fun jy :: "jsvec \<Rightarrow> jsnum" where
  "jy (x, y, z) = y"

fun jz :: "jsvec \<Rightarrow> jsnum" where
  "jz (x, y, z) = z"

definition jsDot :: "jsvec \<Rightarrow> jsvec \<Rightarrow> jsnum" where
  "jsDot a b = jsAdd (jsAdd (jsMul (jx a) (jx b)) (jsMul (jy a) (jy b))) (jsMul (jz a) (jz b))"

definition jsCross :: "jsvec \<Rightarrow> jsvec \<Rightarrow> jsvec" where
  "jsCross a b =
     (jsSub (jsMul (jy a) (jz b)) (jsMul (jz a) (jy b)),
      jsSub (jsMul (jz a) (jx b)) (jsMul (jx a) (jz b)),
      jsSub (jsMul (jx a) (jy b)) (jsMul (jy a) (jx b)))"

definition jsScale :: "jsvec \<Rightarrow> jsnum \<Rightarrow> jsvec" where
  "jsScale a k = (jsMul k (jx a), jsMul k (jy a), jsMul k (jz a))"

definition jsLength :: "jsvec \<Rightarrow> jsnum" where
  "jsLength a =
     jsSqrt (jsAdd (jsAdd (jsMul (jx a) (jx a)) (jsMul (jy a) (jy a))) (jsMul (jz a) (jz a)))"

definition jsUnit :: "jsvec \<Rightarrow> jsvec" where
  "jsUnit a =
     (let ninv = jsLength a
      in if jsGt ninv (Fin 0) then
           (let ninv' = jsDiv (Fin 1) ninv
            in (jsMul (jx a) ninv', jsMul (jy a) ninv', jsMul (jz a) ninv'))
         else (Fin 1, Fin 0, Fin 0))"

subsection \<open>Strings and coercions\<close>

definition isStrWhiteSpace :: "char \<Rightarrow> bool" where
  "isStrWhiteSpace c = (c \<in> set [CHR '' '', CHR 0x09, CHR 0x0A, CHR 0x0B, CHR 0x0C, CHR 0x0D])"

definition isDigit :: "char \<Rightarrow> bool" where
  "isDigit c = (c \<in> set ''0123456789'')"

definition digitsVal :: "string \<Rightarrow> nat" where
  "digitsVal ds = foldl (\<lambda>n c. 10 * n + (of_char c - 48)) 0 ds"

definition pow10 :: "int \<Rightarrow> real" where
  "pow10 e = (if e \<ge> 0 then 10 ^ nat e else 1 / 10 ^ nat (- e))"

fun parseSign :: "string \<Rightarrow> int \<times> string" where
  "parseSign [] = (1, [])"
| "parseSign (c # cs) =
     (if c = CHR ''+'' then (1, cs) else if c = CHR ''-'' then (- 1, cs) else (1, c # cs))"

definition parseExponent :: "string \<Rightarrow> int" where
  "parseExponent r =
     (case r of
        [] \<Rightarrow> 0
      | c # cs \<Rightarrow>
          if c = CHR ''e'' \<or> c = CHR ''E'' then
            (case parseSign cs of (sg, r') \<Rightarrow>
               (let ds = takeWhile isDigit r'
                in if ds = [] then 0 else sg * int (digitsVal ds)))
          else 0)"

text \<open>
  \<open>parseFloat\<close> on a string: skip leading white space, then read the longest prefix that
  is a decimal literal (sign, digits, fraction, exponent, or \<open>Infinity\<close>); no such prefix
  gives NaN. The value read is rounded like every other number, so a literal too large
  for a double reads as an infinity.
\<close>

definition parseFloatString :: "string \<Rightarrow> jsnum" where
  "parseFloatString s =
     (case parseSign (dropWhile isStrWhiteSpace s) of (sg, u) \<Rightarrow>
        if take 8 u = ''Infinity'' then (if sg > 0 then PosInf else NegInf)
        else
          (let ip = takeWhile isDigit u;
               r1 = dropWhile isDigit u;
               hasDot = (r1 \<noteq> [] \<and> hd r1 = CHR ''.'');
               fp = (if hasDot then takeWhile isDigit (tl r1) else []);
               r2 = (if hasDot then dropWhile isDigit (tl r1) else r1)
           in if ip = [] \<and> fp = [] then NaN
              else roundDouble (real_of_int sg
                          * (real (digitsVal ip) + real (digitsVal fp) / 10 ^ length fp)
                          * pow10 (parseExponent r2))))"

text \<open>
  \<open>parseFloat\<close> turns its argument into a string first: \<open>undefined\<close>, \<open>null\<close>, \<open>true\<close>,
  \<open>false\<close> and \<open>[object Object]\<close> have no numeric prefix; a number comes back as it is.
  The result is always a number.
\<close>

fun parseFloat :: "jsval \<Rightarrow> jsval" where
  "parseFloat (JNum n) = JNum n"
| "parseFloat (JString s) = JNum (parseFloatString s)"
| "parseFloat JUndefined = JNum NaN"
| "parseFloat JNull = JNum NaN"
| "parseFloat (JBool b) = JNum NaN"
| "parseFloat JObject = JNum NaN"

text \<open>The operators \<open>??\<close> and \<open>||\<close>.\<close>

definition nullish :: "jsval \<Rightarrow> jsval \<Rightarrow> jsval" where
  "nullish a b = (if a = JUndefined \<or> a = JNull then b else a)"

fun truthy :: "jsval \<Rightarrow> bool" where
  "truthy JUndefined = False"
| "truthy JNull = False"
| "truthy (JBool b) = b"
| "truthy (JNum n) = (n \<noteq> NaN \<and> n \<noteq> Fin 0)"
| "truthy (JString s) = (s \<noteq> [])"
| "truthy JObject = True"

definition orElse :: "jsval \<Rightarrow> jsval \<Rightarrow> jsval" where
  "orElse a b = (if truthy a then a else b)"

text \<open>
  The number an arithmetic operator sees in its operand. The program only does arithmetic
  on numbers; the conversion of a string is not modelled and reads NaN.
\<close>

fun toNumber :: "jsval \<Rightarrow> jsnum" where
  "toNumber (JNum n) = n"
| "toNumber JUndefined = NaN"
| "toNumber JNull = Fin 0"
| "toNumber (JBool b) = Fin (if b then 1 else 0)"
| "toNumber (JString s) = NaN"
| "toNumber JObject = NaN"

text \<open>\<open>c || 0\<close> for a coordinate \<open>c\<close> of the centre of mass.\<close>

definition orZero :: "jsnum \<Rightarrow> jsnum" where
  "orZero c = toNumber (orElse (JNum c) (JNum (Fin 0)))"

section \<open>Loading reaction wheels and CMGs (attitudeControl.js)\<close>

text \<open>
  One entry of \<open>data.wheels\<close>. \<open>wc_orientation\<close> and \<open>wc_position\<close> are \<open>None\<close> when the
  entry has no such object (\<open>orientation?.x\<close> is then \<open>undefined\<close>).
\<close>

record wheel_cfg =
  wc_name :: jsval
  wc_orientation :: "(jsval \<times> jsval \<times> jsval) option"
  wc_position :: "(jsval \<times> jsval \<times> jsval) option"
  wc_maxAngularMomentum :: jsval
  wc_maxTorque :: jsval

text \<open>The wheel object the loader builds, with the values JavaScript stores in it.\<close>

record wheel_js =
  jw_index :: nat
  jw_name :: jsval
  jw_orientation :: jsvec
  jw_position :: jsvec
  jw_maxAngularMomentum :: jsval
  jw_maxTorque :: jsval
  jw_currentAngularMomentum :: jsnum

function showNat :: "nat \<Rightarrow> string" where
  "showNat n =
     (if n < 10 then [char_of (48 + n)] else showNat (n div 10) @ [char_of (48 + n mod 10)])"
  by pat_completeness auto
termination
  by (relation "measure id") auto

fun optX :: "(jsval \<times> jsval \<times> jsval) option \<Rightarrow> jsval" where
  "optX None = JUndefined"
| "optX (Some (x, y, z)) = x"

fun optY :: "(jsval \<times> jsval \<times> jsval) option \<Rightarrow> jsval" where
  "optY None = JUndefined"
| "optY (Some (x, y, z)) = y"

fun optZ :: "(jsval \<times> jsval \<times> jsval) option \<Rightarrow> jsval" where
  "optZ None = JUndefined"
| "optZ (Some (x, y, z)) = z"

text \<open>The three arguments of \<open>new CANNON.Vec3(...)\<close> for \<open>rawOrientation\<close>.\<close>

definition rawOrientation :: "wheel_cfg \<Rightarrow> jsval \<times> jsval \<times> jsval" where
  "rawOrientation wheelConfig =
     (nullish (parseFloat (optX (wc_orientation wheelConfig))) (JNum (Fin 0)),
      nullish (parseFloat (optY (wc_orientation wheelConfig))) (JNum (Fin 0)),
      nullish (parseFloat (optZ (wc_orientation wheelConfig))) (JNum (Fin 1)))"

definition makeWheel :: "jsvec \<Rightarrow> nat \<Rightarrow> wheel_cfg \<Rightarrow> wheel_js" where
  "makeWheel centerOfMassOffset idx wheelConfig =
     (let normalizedOrientation =
            (case rawOrientation wheelConfig of (x, y, z) \<Rightarrow>
               jsUnit (toNumber x, toNumber y, toNumber z))
      in \<lparr>jw_index = idx,
          jw_name = orElse (wc_name wheelConfig) (JString (''RW'' @ showNat idx)),
          jw_orientation = normalizedOrientation,
          jw_position =
            (jsSub (toNumber (parseFloat (nullish (optX (wc_position wheelConfig)) (JNum (Fin 0)))))
               (orZero (jx centerOfMassOffset)),
             jsSub (toNumber (parseFloat (nullish (optY (wc_position wheelConfig)) (JNum (Fin 0)))))
               (orZero (jy centerOfMassOffset)),
             jsSub (toNumber (parseFloat (nullish (optZ (wc_position wheelConfig)) (JNum (Fin 0)))))
               (orZero (jz centerOfMassOffset))),
          jw_maxAngularMomentum =
            nullish (parseFloat (wc_maxAngularMomentum wheelConfig)) (JNum (Fin 10)),
          jw_maxTorque = nullish (parseFloat (wc_maxTorque wheelConfig)) (JNum (Fin (1 / 2))),
          jw_currentAngularMomentum = Fin 0\<rparr>)"

text \<open>\<open>data.wheels.forEach\<close>: every entry is pushed onto \<open>this.reactionWheels\<close>.\<close>

definition processReactionWheelsConfig ::
    "jsvec \<Rightarrow> wheel_cfg list \<Rightarrow> wheel_js list \<Rightarrow> wheel_js list" where
  "processReactionWheelsConfig centerOfMassOffset wheels reactionWheels0 =
     reactionWheels0 @
       map (\<lambda>(i, wheelConfig). makeWheel centerOfMassOffset i wheelConfig)
         (zip [0 ..< length wheels] wheels)"

record cmg_cfg =
  cc_name :: jsval
  cc_maxAngularMomentum :: jsval
  cc_maxTorque :: jsval

record cmg_js =
  jc_index :: nat
  jc_name :: jsval
  jc_maxAngularMomentum :: jsval
  jc_maxTorque :: jsval
  jc_currentAngularMomentum :: jsvec

definition makeCMG :: "nat \<Rightarrow> cmg_cfg \<Rightarrow> cmg_js" where
  "makeCMG idx cmgConfig =
     \<lparr>jc_index = idx,
      jc_name = orElse (cc_name cmgConfig) (JString (''CMG'' @ showNat idx)),
      jc_maxAngularMomentum =
        nullish (parseFloat (cc_maxAngularMomentum cmgConfig)) (JNum (Fin 200)),
      jc_maxTorque = nullish (parseFloat (cc_maxTorque cmgConfig)) (JNum (Fin 5)),
      jc_currentAngularMomentum = (Fin 0, Fin 0, Fin 0)\<rparr>"

text \<open>
  \<open>data\<close> is either \<open>{cmgs: [...]}\<close> or \<open>{cmg: {cmgs: [...]}}\<close>; each of the two arrays
  is \<open>None\<close> when absent. An array, even an empty one, is truthy, so \<open>data.cmgs\<close> wins
  whenever it is there.
\<close>

record cmg_data =
  data_cmgs :: "cmg_cfg list option"
  data_cmg_cmgs :: "cmg_cfg list option"

definition processCMGsConfig :: "cmg_data \<Rightarrow> cmg_js list \<Rightarrow> cmg_js list" where
  "processCMGsConfig data cmgs0 =
     (let cmgsArray = (case data_cmgs data of Some a \<Rightarrow> Some a | None \<Rightarrow> data_cmg_cmgs data)
      in case cmgsArray of
           None \<Rightarrow> cmgs0
         | Some a \<Rightarrow>
             if length a = 0 then cmgs0
             else cmgs0 @ map (\<lambda>(i, cmgConfig). makeCMG i cmgConfig)
                            (zip [0 ..< length a] a))"

section \<open>Reaction-wheel control on JavaScript numbers (attitudeControl.js)\<close>

text \<open>
  \<open>applyReactionWheelControl\<close> once more, now on the wheels as the loader builds them and
  with every operation rounded. The torque handed to the rigid body does not come back
  into the wheels and is left out. \<open>dt = 1/60\<close> is itself a rounded quotient.
\<close>

definition dt_js :: jsnum where
  "dt_js = jsDiv (Fin 1) (Fin 60)"

definition actualTorqueApplied_js :: "jsvec \<Rightarrow> wheel_js \<Rightarrow> jsnum" where
  "actualTorqueApplied_js torque w =
     (let requestedTorqueAlongWheel = jsDot (jw_orientation w) torque
      in if jsGt requestedTorqueAlongWheel (Fin 0) then
           (let momentumCapacity =
                  jsSub (toNumber (jw_maxAngularMomentum w)) (jw_currentAngularMomentum w);
                maxPossibleTorque = jsDiv momentumCapacity dt_js
            in jsMin requestedTorqueAlongWheel maxPossibleTorque)
         else if jsLt requestedTorqueAlongWheel (Fin 0) then
           (let momentumCapacity =
                  jsSub (jw_currentAngularMomentum w) (jsNeg (toNumber (jw_maxAngularMomentum w)));
                maxPossibleTorque = jsDiv momentumCapacity dt_js
            in jsMax requestedTorqueAlongWheel (jsNeg maxPossibleTorque))
         else Fin 0)"

definition wheelControl_js :: "jsvec \<Rightarrow> wheel_js \<Rightarrow> wheel_js" where
  "wheelControl_js torque w =
     (let deltaMomentum = jsMul (actualTorqueApplied_js torque w) dt_js
      in w\<lparr>jw_currentAngularMomentum := jsAdd (jw_currentAngularMomentum w) deltaMomentum\<rparr>)"

definition applyReactionWheelControl_js :: "jsvec \<Rightarrow> wheel_js list \<Rightarrow> wheel_js list" where
  "applyReactionWheelControl_js torque reactionWheels0 =
     map (wheelControl_js torque) reactionWheels0"

section \<open>Thruster set-up and key binding (thrusterSetup.js)\<close>

definition TRANSLATION_ANGLE_DEGREES :: jsnum where
  "TRANSLATION_ANGLE_DEGREES = jsSub (Fin 90) (Fin 25)"

definition TRANSLATION_TOLERANCE :: jsnum where
  "TRANSLATION_TOLERANCE = jsCos (jsDiv (jsMul TRANSLATION_ANGLE_DEGREES Math_PI) (Fin 180))"

text \<open>
  One entry of \<open>config.thrusters\<close>. \<open>position\<close> and \<open>direction\<close> are taken to be arrays of
  three numbers. \<open>tc_keybind\<close> is \<open>None\<close> when \<open>t.keybind\<close> is not an array; its labels are
  ASCII strings.
\<close>

record thruster_cfg =
  tc_name :: jsval
  tc_position :: jsvec
  tc_direction :: jsvec
  tc_thrust :: jsval
  tc_isp :: jsval
  tc_autoBind :: jsval
  tc_keybind :: "string list option"

text \<open>The thruster object the set-up returns.\<close>

record thruster_js =
  tj_pos :: jsvec
  tj_dir :: jsvec
  tj_thrust :: jsnum
  tj_isp :: jsnum
  tj_active :: bool
  tj_index :: nat

datatype js_error = TypeError

text \<open>
  \<open>keyToThrusterIndices\<close>: an object whose own keys, in insertion order, each hold an
  array of thruster indices.
\<close>

type_synonym keymap = "(string \<times> nat list) list"

definition hasKey :: "keymap \<Rightarrow> string \<Rightarrow> bool" where
  "hasKey m k = (k \<in> set (map fst m))"

fun pushIndex :: "string \<Rightarrow> nat \<Rightarrow> keymap \<Rightarrow> keymap" where
  "pushIndex k i [] = []"
| "pushIndex k i ((k', ids) # m) =
     (if k' = k then (k', ids @ [i]) # m else (k', ids) # pushIndex k i m)"

text \<open>
  \<open>keyToThrusterIndices[key].push(i)\<close> for each key in turn. A key the object does not
  have reads \<open>undefined\<close>, and calling \<open>push\<close> on it throws; what was pushed before stays.
\<close>

fun bindKeys :: "string list \<Rightarrow> nat \<Rightarrow> keymap \<Rightarrow> js_error option \<times> keymap" where
  "bindKeys [] i m = (None, m)"
| "bindKeys (k # ks) i m =
     (if hasKey m k then bindKeys ks i (pushIndex k i m) else (Some TypeError, m))"

text \<open>
  The keys the auto-binding pushes a thruster onto, in the order of the pushes. \<open>tpos\<close>
  and \<open>tdir\<close> are \<open>pos\<close> and \<open>dir\<close> of the source; the deadband is the literal \<open>0.025\<close>.
\<close>

definition autoBindKeys :: "jsvec \<Rightarrow> jsvec \<Rightarrow> string list" where
  "autoBindKeys tpos tdir =
     (let torque = jsCross tpos tdir
      in (if jsGt (jsAbs (jsDot tdir (Fin 0, Fin 0, Fin 1))) TRANSLATION_TOLERANCE
          then [if jsGt (jz tdir) (Fin 0) then ''w'' else ''s''] else []) @
         (if jsGt (jsAbs (jsDot tdir (Fin 1, Fin 0, Fin 0))) TRANSLATION_TOLERANCE
          then [if jsGt (jx tdir) (Fin 0) then ''a'' else ''d''] else []) @
         (if jsGt (jsAbs (jsDot tdir (Fin 0, Fin 1, Fin 0))) TRANSLATION_TOLERANCE
          then [if jsGt (jy tdir) (Fin 0) then ''e'' else ''q''] else []) @
         (if jsGt (jsAbs (jx torque)) (literal (25 / 1000))
          then [if jsGt (jx torque) (Fin 0) then ''k'' else ''i''] else []) @
         (if jsGt (jsAbs (jy torque)) (literal (25 / 1000))
          then [if jsGt (jy torque) (Fin 0) then ''j'' else ''l''] else []) @
         (if jsGt (jsAbs (jz torque)) (literal (25 / 1000))
          then [if jsGt (jz torque) (Fin 0) then ''o'' else ''u''] else []))"

definition toLowerChar :: "char \<Rightarrow> char" where
  "toLowerChar c =
     (let n = (of_char c :: nat) in if 65 \<le> n \<and> n \<le> 90 then char_of (n + 32) else c)"

definition trim :: "string \<Rightarrow> string" where
  "trim s = rev (dropWhile isStrWhiteSpace (rev (dropWhile isStrWhiteSpace s)))"

definition normalizeKey :: "string \<Rightarrow> string" where
  "normalizeKey key = trim (map toLowerChar key)"

text \<open>
  The custom key bindings. \<open>keyToThrusterIndices[normalizedKey]\<close> is truthy for an own key
  (an array), and also for the two lower-case names every object inherits,
  \<open>constructor\<close> and \<open>__proto__\<close>; these have no \<open>push\<close>, so the call throws.
\<close>

fun bindCustom :: "string list \<Rightarrow> nat \<Rightarrow> keymap \<Rightarrow> js_error option \<times> keymap" where
  "bindCustom [] i m = (None, m)"
| "bindCustom (key # keys) i m =
     (let normalizedKey = normalizeKey key
      in if normalizedKey \<noteq> [] \<and> hasKey m normalizedKey
         then bindCustom keys i (pushIndex normalizedKey i m)
         else if normalizedKey = ''constructor'' \<or> normalizedKey = ''__proto__''
         then (Some TypeError, m)
         else bindCustom keys i m)"

text \<open>
  The sanitization of \<open>thrust\<close> and \<open>isp\<close>: NaN or a value \<open>\<le> 0\<close> becomes the default.
  An infinite value is neither and stays.
\<close>

definition sanitize :: "real \<Rightarrow> jsval \<Rightarrow> jsnum" where
  "sanitize dflt v =
     (let n = toNumber (parseFloat v) in if isNaN n \<or> jsLe n (Fin 0) then Fin dflt else n)"

definition thrusterPos :: "jsvec \<Rightarrow> thruster_cfg \<Rightarrow> jsvec" where
  "thrusterPos centerOfMass t =
     (jsSub (jx (tc_position t)) (orZero (jx centerOfMass)),
      jsSub (jy (tc_position t)) (orZero (jy centerOfMass)),
      jsSub (jz (tc_position t)) (orZero (jz centerOfMass)))"

definition thrusterDir :: "thruster_cfg \<Rightarrow> jsvec" where
  "thrusterDir t = jsUnit (tc_direction t)"

definition makeThruster :: "jsvec \<Rightarrow> nat \<Rightarrow> thruster_cfg \<Rightarrow> thruster_js" where
  "makeThruster centerOfMass i t =
     \<lparr>tj_pos = thrusterPos centerOfMass t, tj_dir = thrusterDir t,
      tj_thrust = sanitize 50 (tc_thrust t), tj_isp = sanitize 300 (tc_isp t),
      tj_active = False, tj_index = i\<rparr>"

text \<open>The key binding of the \<open>i\<close>-th thruster: automatic unless \<open>autoBind\<close> is \<open>false\<close>.\<close>

definition bindThruster :: "jsvec \<Rightarrow> nat \<Rightarrow> thruster_cfg \<Rightarrow> keymap \<Rightarrow> js_error option \<times> keymap" where
  "bindThruster centerOfMass i t m =
     (let autoBind = (tc_autoBind t \<noteq> JBool False);
          customKeybinds = (case tc_keybind t of Some ks \<Rightarrow> ks | None \<Rightarrow> [])
      in if autoBind
         then bindKeys (autoBindKeys (thrusterPos centerOfMass t) (thrusterDir t)) i m
         else bindCustom customKeybinds i m)"

text \<open>
  \<open>config.thrusters.map((t, i) => ...)\<close> from index \<open>i\<close> on. The result pairs what the
  function returns (or the exception it throws) with the map as the calls left it.
\<close>

fun processFrom ::
    "jsvec \<Rightarrow> nat \<Rightarrow> thruster_cfg list \<Rightarrow> keymap \<Rightarrow> (js_error + thruster_js list) \<times> keymap" where
  "processFrom centerOfMass i [] m = (Inr [], m)"
| "processFrom centerOfMass i (t # ts) m =
     (case bindThruster centerOfMass i t m of
        (Some e, m') \<Rightarrow> (Inl e, m')
      | (None, m') \<Rightarrow>
          (case processFrom centerOfMass (Suc i) ts m' of
             (Inl e, m'') \<Rightarrow> (Inl e, m'')
           | (Inr rest, m'') \<Rightarrow> (Inr (makeThruster centerOfMass i t # rest), m'')))"

definition processThrusterConfig ::
    "jsvec \<Rightarrow> thruster_cfg list \<Rightarrow> keymap \<Rightarrow> (js_error + thruster_js list) \<times> keymap" where
  "processThrusterConfig centerOfMass config m = processFrom centerOfMass 0 config m"

text \<open>\<open>initializeThrustersWithConfig\<close> catches the exception and returns no thrusters.\<close>

definition initializeThrustersWithConfig ::
    "jsvec \<Rightarrow> thruster_cfg list \<Rightarrow> keymap \<Rightarrow> thruster_js list \<times> keymap" where
  "initializeThrustersWithConfig centerOfMass config m =
     (case processThrusterConfig centerOfMass config m of
        (Inl e, m') \<Rightarrow> ([], m')
      | (Inr ts, m') \<Rightarrow> (ts, m'))"

text \<open>The map \<open>initSimulation\<close> starts with: the twelve channels, all empty.\<close>

definition emptyChannels :: keymap where
  "emptyChannels =
     [(''w'', []), (''s'', []), (''a'', []), (''d'', []), (''q'', []), (''e'', []),
      (''i'', []), (''k'', []), (''j'', []), (''l'', []), (''u'', []), (''o'', [])]"

section \<open>Thruster firing on JavaScript numbers (spacecraftManager.js)\<close>

text \<open>
  The fuel variables and one firing once more, now on the thrusters as the set-up returns
  them and with every operation rounded. \<open>9.81\<close> is a literal of the program text.
\<close>

record fuel_js =
  jf_dryMass :: jsnum
  jf_fuelMass :: jsnum
  jf_maxFuelMass :: jsnum
  jf_spacecraftBody :: "(jsnum \<times> jsnum) option"

definition updateSatelliteMass_js :: "fuel_js \<Rightarrow> fuel_js" where
  "updateSatelliteMass_js f =
     (case jf_spacecraftBody f of
        None \<Rightarrow> f
      | Some b \<Rightarrow>
          (let totalMass = jsAdd (jf_dryMass f) (jf_fuelMass f)
           in f\<lparr>jf_spacecraftBody :=
                  Some (totalMass,
                        if jsGt totalMass (Fin 0) then jsDiv (Fin 1) totalMass else Fin 0)\<rparr>))"

definition consumeFuel_js :: "jsnum \<Rightarrow> fuel_js \<Rightarrow> fuel_js" where
  "consumeFuel_js amount f =
     updateSatelliteMass_js (f\<lparr>jf_fuelMass := jsMax (Fin 0) (jsSub (jf_fuelMass f) amount)\<rparr>)"

record propulsion_js =
  pj_thrusters :: "thruster_js list"
  pj_fuel :: fuel_js
  pj_firedForces :: "(jsvec \<times> jsvec) list"

definition setActive_js :: "nat \<Rightarrow> bool \<Rightarrow> propulsion_js \<Rightarrow> propulsion_js" where
  "setActive_js i b p =
     p\<lparr>pj_thrusters := (pj_thrusters p)[i := (pj_thrusters p ! i)\<lparr>tj_active := b\<rparr>]\<rparr>"

text \<open>
  The body of \<open>indices.forEach(i => ...)\<close> in \<open>animate\<close>. \<open>!t.thrust\<close> holds of zero and
  of NaN.
\<close>

definition fireThruster_js :: "jsnum \<Rightarrow> propulsion_js \<Rightarrow> nat \<Rightarrow> propulsion_js" where
  "fireThruster_js dt p i =
     (if i \<ge> length (pj_thrusters p) then p
      else
        (let t = pj_thrusters p ! i
         in if jsLe (jf_fuelMass (pj_fuel p)) (Fin 0) then setActive_js i False p
            else if \<not> truthy (JNum (tj_thrust t)) \<or> \<not> truthy (JNum (tj_isp t)) \<or>
                    jsLe (tj_isp t) (Fin 0) \<or> isNaN (tj_thrust t) \<or> isNaN (tj_isp t)
            then setActive_js i False p
            else
              (let forceLocal = jsScale (tj_dir t) (tj_thrust t);
                   p1 = p\<lparr>pj_firedForces := pj_firedForces p @ [(forceLocal, tj_pos t)]\<rparr>;
                   fuelConsumptionRate = jsDiv (tj_thrust t) (jsMul (tj_isp t) (literal (981 / 100)));
                   fuelConsumed = jsMul fuelConsumptionRate dt;
                   p2 = p1\<lparr>pj_fuel := consumeFuel_js fuelConsumed (pj_fuel p1)\<rparr>;
                   remainingFuel = jf_fuelMass (pj_fuel p2)
               in if jsLe remainingFuel (Fin 0) then setActive_js i False p2
                  else setActive_js i True p2)))"
section \<open>Properties and example inputs\<close>

text \<open>Every wheel holds a momentum within its own limit.\<close>

definition wheelsBounded :: "wheel list \<Rightarrow> bool" where
  "wheelsBounded ws =
     list_all (\<lambda>w. \<bar>rw_currentAngularMomentum w\<bar> \<le> rw_maxAngularMomentum w) ws"

text \<open>Thrusters of positive thrust and \<open>isp\<close>; in this reading of the numbers both are finite.\<close>

definition sanitized :: "thruster list \<Rightarrow> bool" where
  "sanitized ts = list_all (\<lambda>t. thrust t > 0 \<and> isp t > 0) ts"

text \<open>A sequence of firings, each with its own time step and thruster index.\<close>

definition fireSeq :: "propulsion \<Rightarrow> (real \<times> nat) list \<Rightarrow> propulsion" where
  "fireSeq p ops = foldl (\<lambda>p (dt, i). fireThruster dt p i) p ops"

text \<open>
  The invariant carried through every firing loop: the thrusters stay sanitized, the fuel
  is not above where it started, and it is not negative if it did not start negative.
\<close>

definition burnt :: "propulsion \<Rightarrow> propulsion \<Rightarrow> bool" where
  "burnt p q =
     (sanitized (thrusters q) \<and> fuelMass (fuel q) \<le> fuelMass (fuel p) \<and>
      (0 \<le> fuelMass (fuel p) \<longrightarrow> 0 \<le> fuelMass (fuel q)))"

definition wheel0 :: wheel where
  "wheel0 = \<lparr>rw_index = 0, rw_name = ''RW0'', orientation = Vec3 0 0 1, rw_position = Vec3 0 0 0,
     rw_maxAngularMomentum = 10, rw_maxTorque = 1 / 2, rw_currentAngularMomentum = 0\<rparr>"

definition acs0 :: acs where
  "acs0 = \<lparr>mode = ReactionWheels, reactionWheels = [wheel0], cmgs = [], loaded = True,
     desaturationActive = False, appliedTorques = [], appliedForces = []\<rparr>"

definition thruster0 :: thruster where
  "thruster0 = \<lparr>pos = Vec3 1 0 0, dir = Vec3 0 1 0, thrust = 50, isp = 300, active = False,
     index = 0\<rparr>"

definition fuel0 :: fuel_sys where
  "fuel0 = \<lparr>dryMass = 5, fuelMass = 5, maxFuelMass = 5,
     spacecraftBody = Some \<lparr>mass = 10, invMass = 1 / 10\<rparr>\<rparr>"

definition propulsion0 :: propulsion where
  "propulsion0 = \<lparr>thrusters = [thruster0], fuel = fuel0, firedForces = []\<rparr>"

text \<open>
  The simulation as \<open>initSimulation\<close> leaves it with its default reference pose, one
  thruster bound to \<open>w\<close>, and the wheel and thruster above: docked and paused.
\<close>

definition body0 :: body where
  "body0 = \<lparr>position = Vec3 0 (- 3) (11 / 2),
     quaternion = \<lparr>qx = - (sqrt 2 / 2), qy = 0, qz = 0, qw = sqrt 2 / 2\<rparr>,
     velocity = Vec3 0 0 0, angularVelocity = Vec3 0 0 0\<rparr>"

definition sim0 :: sim where
  "sim0 = \<lparr>satBody = body0, initialPosition = Vec3 0 (- 3) (11 / 2),
     initialOrientation = \<lparr>qx = - (sqrt 2 / 2), qy = 0, qz = 0, qw = sqrt 2 / 2\<rparr>,
     DOCKING_BOX_SIZE = 1 / 10, DOCKING_ANGLE_THRESHOLD = 3,
     attitudeControl = acs0\<lparr>mode := Thrusters\<rparr>, propulsionSys = propulsion0,
     keyToThrusterIndices =
       [(''w'', [0]), (''s'', []), (''a'', []), (''d'', []), (''q'', []), (''e'', []),
        (''i'', []), (''k'', []), (''j'', []), (''l'', []), (''u'', []), (''o'', [])],
     torquePercentage = 50, isDocked = True, canDock = False, hasLeftDockingBoxOnce = False,
     paused = True, undockTime = None, pausedStartTime = None, accumulatedPausedTime = 0,
     lastDockedTime = 0\<rparr>"

text \<open>A frame at time \<open>t\<close> with \<open>w\<close> held down in which the physics step leaves body \<open>b\<close>.\<close>

definition frameTo :: "real \<Rightarrow> body \<Rightarrow> frame" where
  "frameTo t b = \<lparr>now = t, delta = 1 / 60, keyIsPressed = (\<lambda>k. k = ''w''),
     worldStep = (\<lambda>_. b)\<rparr>"

text \<open>The same with no key held down.\<close>

definition coast :: "real \<Rightarrow> body \<Rightarrow> frame" where
  "coast t b = \<lparr>now = t, delta = 1 / 60, keyIsPressed = (\<lambda>k. False), worldStep = (\<lambda>_. b)\<rparr>"

text \<open>A CMG whose torque limit moves more momentum in one step than the CMG may hold.\<close>

definition cmgSmall :: cmg where
  "cmgSmall = \<lparr>cmg_index = 0, cmg_name = ''CMG0'', cmg_maxAngularMomentum = 1,
     cmg_maxTorque = 120, cmg_currentAngularMomentum = Vec3 0 0 0\<rparr>"

text \<open>A CMG with the limits the loader names as defaults, holding exactly its limit.\<close>

definition cmgSaturated :: cmg where
  "cmgSaturated = \<lparr>cmg_index = 0, cmg_name = ''CMG0'', cmg_maxAngularMomentum = 200,
     cmg_maxTorque = 5, cmg_currentAngularMomentum = Vec3 200 0 0\<rparr>"

definition acsCMG :: "cmg \<Rightarrow> acs" where
  "acsCMG c = \<lparr>mode = CMGs, reactionWheels = [], cmgs = [c], loaded = True,
     desaturationActive = False, appliedTorques = [], appliedForces = []\<rparr>"

text \<open>
  The wheel bank after one request of \<open>-300\<close> along the wheel axis: the wheel holds
  \<open>-5\<close>. \<open>thruster0\<close> has the torque direction \<open>(0, 0, 1)\<close>, which opposes that momentum.
\<close>

definition acsNegative :: acs where
  "acsNegative = applyControlTorque (Vec3 0 0 (- 300)) acs0"

text \<open>The state the docking logic of a frame looks at, and the four criteria together.\<close>

definition beforeDocking :: "frame \<Rightarrow> sim \<Rightarrow> sim" where
  "beforeDocking fr s = releaseThrusters fr (if \<not> paused s then controlPhase fr s else s)"

definition allCriteria :: "dockingStatus \<Rightarrow> bool" where
  "allCriteria ds =
     (inBox ds \<and> inAngle ds \<and> withinSpeedLimits ds \<and> withinAngularSpeedLimit ds)"

text \<open>The frame \<open>fr\<close> docks the vehicle from state \<open>s\<close>.\<close>

definition docks :: "frame \<Rightarrow> sim \<Rightarrow> bool" where
  "docks fr s =
     (\<not> isDocked s \<and> canDock s \<and> hasLeftDockingBoxOnce s \<and>
      allCriteria (isInDockingZone (beforeDocking fr s)))"

text \<open>
  Along a run from \<open>s\<close>: every frame finds the vehicle inside the docking box; and the
  vehicle is undocked before and after every event.
\<close>

fun staysInBox :: "event list \<Rightarrow> sim \<Rightarrow> bool" where
  "staysInBox [] s = True"
| "staysInBox (e # es) s =
     ((case e of Frame fr \<Rightarrow> inBox (isInDockingZone (beforeDocking fr s)) | _ \<Rightarrow> True) \<and>
      staysInBox es (step e s))"

fun undockedThroughout :: "event list \<Rightarrow> sim \<Rightarrow> bool" where
  "undockedThroughout [] s = (\<not> isDocked s)"
| "undockedThroughout (e # es) s = (\<not> isDocked s \<and> undockedThroughout es (step e s))"

text \<open>
  Bodies for the examples: one metre beyond the reference position along \<open>z\<close>, and at the
  reference pose but drifting sideways at 0.2 m/s.
\<close>

definition bodyOut :: body where
  "bodyOut = body0\<lparr>position := Vec3 0 (- 3) (13 / 2)\<rparr>"

definition bodyFast :: body where
  "bodyFast = body0\<lparr>velocity := Vec3 (1 / 5) 0 0\<rparr>"

text \<open>
  Undock at time 0, leave the box, come back too fast to dock, pause at 120008 ms, stop the
  vehicle with the space bar (the next frame docks it, still paused), and undock again at
  124008 ms. Times are in milliseconds; frames in which nothing changes are left out.
\<close>

definition pausedDockTrace :: "event list" where
  "pausedDockTrace =
     [KeyPause 0, Frame (coast 60000 bodyOut), Frame (coast 120000 bodyFast), KeyPause 120008,
      KeyStop, Frame (coast 120016 bodyFast), KeyPause 124008]"

text \<open>After an undocking: a frame outside the box, then a frame back in it, too fast to dock.\<close>

definition roundTrip :: "event list" where
  "roundTrip = [Frame (coast 60000 bodyOut), Frame (coast 120000 bodyFast)]"

text \<open>Two states have the same docking reference and thresholds.\<close>

definition sameReference :: "sim \<Rightarrow> sim \<Rightarrow> bool" where
  "sameReference s s' =
     (initialPosition s = initialPosition s' \<and> initialOrientation s = initialOrientation s' \<and>
      DOCKING_BOX_SIZE s = DOCKING_BOX_SIZE s' \<and>
      DOCKING_ANGLE_THRESHOLD s = DOCKING_ANGLE_THRESHOLD s')"


text \<open>The centre of mass at the origin of the model.\<close>

definition noOffset :: jsvec where
  "noOffset = (Fin 0, Fin 0, Fin 0)"


text \<open>
  A thruster entry whose direction is not of length one: \<open>(0.1875, 0, 0.25)\<close> has length
  \<open>0.3125\<close>, and both components lie below the tolerance before they are normalised.
\<close>

definition tcfgSkew :: thruster_cfg where
  "tcfgSkew = \<lparr>tc_name = JString ''T1'', tc_position = (Fin 1, Fin 0, Fin 0),
     tc_direction = (Fin (3 / 16), Fin 0, Fin (1 / 4)),
     tc_thrust = JNum (Fin 50), tc_isp = JNum (Fin 300), tc_autoBind = JUndefined,
     tc_keybind = None\<rparr>"

text \<open>
  A thruster entry on the edge of the deadband: at \<open>(0.125, 0.0625, 0)\<close> with direction
  \<open>(4, 3, 0)\<close> the exact torque about \<open>z\<close> is \<open>0.125 * 0.6 - 0.0625 * 0.8 = 0.025\<close>.
\<close>

definition tcfgEdge :: thruster_cfg where
  "tcfgEdge = \<lparr>tc_name = JString ''T2'', tc_position = (Fin (1 / 8), Fin (1 / 16), Fin 0),
     tc_direction = (Fin 4, Fin 3, Fin 0),
     tc_thrust = JNum (Fin 50), tc_isp = JNum (Fin 300), tc_autoBind = JUndefined,
     tc_keybind = None\<rparr>"

text \<open>
  A thruster entry with infinite \<open>thrust\<close> and \<open>isp\<close>, the one written as the string
  \<open>Infinity\<close>, the other as a number too large for a double (\<open>1e999\<close> in the JSON text);
  and the propellant state of a fresh simulation holding the thruster built from it.
\<close>

definition tcfgInf :: thruster_cfg where
  "tcfgInf = \<lparr>tc_name = JString ''T3'', tc_position = (Fin 1, Fin 0, Fin 0),
     tc_direction = (Fin 0, Fin 0, Fin 1),
     tc_thrust = JString ''Infinity'', tc_isp = JNum PosInf, tc_autoBind = JUndefined,
     tc_keybind = None\<rparr>"

definition propulsionInf :: propulsion_js where
  "propulsionInf =
     \<lparr>pj_thrusters = [makeThruster noOffset 0 tcfgInf],
      pj_fuel = \<lparr>jf_dryMass = Fin 5, jf_fuelMass = Fin 5, jf_maxFuelMass = Fin 5,
                 jf_spacecraftBody = Some (Fin 10, Fin (1 / 10))\<rparr>,
      pj_firedForces = []\<rparr>"

text \<open>
  A wheel entry with the limit 10 about the \<open>z\<close> axis, and the wheel the loader builds
  from it.
\<close>

definition wcfgTen :: wheel_cfg where
  "wcfgTen = \<lparr>wc_name = JString ''RW'',
     wc_orientation = Some (JNum (Fin 0), JNum (Fin 0), JNum (Fin 1)), wc_position = None,
     wc_maxAngularMomentum = JNum (Fin 10), wc_maxTorque = JNum (Fin (1 / 2))\<rparr>"

definition wheelTen :: wheel_js where
  "wheelTen = makeWheel noOffset 0 wcfgTen"

text \<open>The twelve channel keys.\<close>

definition channelKeys :: "string list" where
  "channelKeys = map fst emptyChannels"





text \<open>
  A string with a numeric prefix: after leading white space and an optional sign it starts
  with \<open>Infinity\<close>, with a digit, or with a dot and a digit. A value is non-numeric when it
  is absent, \<open>null\<close>, a boolean, an object, NaN, or a string with no numeric prefix.
\<close>

definition numericPrefix :: "string \<Rightarrow> bool" where
  "numericPrefix s =
     (case parseSign (dropWhile isStrWhiteSpace s) of (sg, u) \<Rightarrow>
        take 8 u = ''Infinity'' \<or> (u \<noteq> [] \<and> isDigit (hd u)) \<or>
        (u \<noteq> [] \<and> hd u = CHR ''.'' \<and> tl u \<noteq> [] \<and> isDigit (hd (tl u))))"

fun nonNumeric :: "jsval \<Rightarrow> bool" where
  "nonNumeric (JNum n) = (n = NaN)"
| "nonNumeric (JString s) = (\<not> numericPrefix s)"
| "nonNumeric v = True"

text \<open>A wheel entry and a CMG entry with no usable number in them.\<close>

definition wcfgEmpty :: wheel_cfg where
  "wcfgEmpty = \<lparr>wc_name = JUndefined, wc_orientation = None, wc_position = None,
     wc_maxAngularMomentum = JUndefined, wc_maxTorque = JString ''abc''\<rparr>"

definition ccfgEmpty :: cmg_cfg where
  "ccfgEmpty = \<lparr>cc_name = JUndefined, cc_maxAngularMomentum = JNull,
     cc_maxTorque = JString '' n/a''\<rparr>"

text \<open>A wheel entry whose orientation lacks only its \<open>z\<close> component.\<close>

definition wcfgNoZ :: wheel_cfg where
  "wcfgNoZ = \<lparr>wc_name = JUndefined,
     wc_orientation = Some (JNum (Fin 0), JNum (Fin 1), JUndefined), wc_position = None,
     wc_maxAngularMomentum = JNum (Fin 10), wc_maxTorque = JNum (Fin (1 / 2))\<rparr>"

text \<open>A thruster whose torque direction is \<open>(0, 0, -1)\<close>.\<close>

definition thruster1 :: thruster where
  "thruster1 = \<lparr>pos = Vec3 1 0 0, dir = Vec3 0 (- 1) 0, thrust = 50, isp = 300, active = False,
     index = 1\<rparr>"

text \<open>The wheel bank with the wheel at \<open>+5\<close>.\<close>

definition acsPositive :: acs where
  "acsPositive = applyControlTorque (Vec3 0 0 300) acs0"

section \<open>Vector facts\<close>

lemma vec3_sel [simp]: "vx (Vec3 x y z) = x" "vy (Vec3 x y z) = y" "vz (Vec3 x y z) = z"
  by (simp_all add: Vec3_def)

lemma vlength_x [simp]: "vlength (Vec3 a 0 0) = \<bar>a\<bar>"
  by (simp add: vlength_def)

lemma vlength_y [simp]: "vlength (Vec3 0 a 0) = \<bar>a\<bar>"
  by (simp add: vlength_def)

lemma vlength_z [simp]: "vlength (Vec3 0 0 a) = \<bar>a\<bar>"
  by (simp add: vlength_def)

lemma scale_Vec3 [simp]: "scale (Vec3 x y z) k = Vec3 (k * x) (k * y) (k * z)"
  by (simp add: scale_def)

lemma vadd_Vec3 [simp]: "vadd (Vec3 a b c) (Vec3 x y z) = Vec3 (a + x) (b + y) (c + z)"
  by (simp add: vadd_def)

lemma vsub_Vec3 [simp]: "vsub (Vec3 a b c) (Vec3 x y z) = Vec3 (a - x) (b - y) (c - z)"
  by (simp add: vsub_def)

lemma dot_Vec3 [simp]: "dot (Vec3 a b c) (Vec3 x y z) = a * x + b * y + c * z"
  by (simp add: dot_def)

lemma cross_Vec3 [simp]:
  "cross (Vec3 a b c) (Vec3 x y z) = Vec3 (b * z - c * y) (c * x - a * z) (a * y - b * x)"
  by (simp add: cross_def)

lemma Vec3_eq_iff [simp]: "Vec3 a b c = Vec3 x y z \<longleftrightarrow> a = x \<and> b = y \<and> c = z"
  by (simp add: Vec3_def)

section \<open>Evaluating JavaScript arithmetic\<close>

declare bitLength.simps [simp del]

lemma bitLength_0 [simp]: "bitLength 0 = 0"
  by (simp add: bitLength.simps)

lemma bitLength_1 [simp]: "bitLength 1 = 1"
  by (simp add: bitLength.simps)

lemma bitLength_neg [simp]: "bitLength (- numeral k) = 0"
  by (simp add: bitLength.simps)

lemma bitLength_numeral [simp]: "bitLength (numeral k) = bitLength (numeral k div 2) + 1"
  by (subst bitLength.simps) simp

lemmas round_eval = roundDouble_def binade_def roundEven_def pow2_def Let_def

lemmas js_eval = jsDot_def jsCross_def jsScale_def jsLength_def jsUnit_def jsSub_def jsGt_def
  jsGe_def jsMin_def jsMax_def isNaN_def literal_def orZero_def orElse_def nullish_def

lemma roundDouble_not_NaN [simp]: "roundDouble x \<noteq> NaN"
  by (simp add: roundDouble_def Let_def)

lemma roundDouble_small [simp]:
  "roundDouble 0 = Fin 0" "roundDouble 1 = Fin 1" "roundDouble 2 = Fin 2"
  "roundDouble (1 / 2) = Fin (1 / 2)" "roundDouble 4 = Fin 4" "roundDouble 65 = Fin 65"
  by (simp_all add: round_eval)

text \<open>Square roots that come out even.\<close>

lemma sqrt_squares [simp]: "sqrt 25 = 5" "sqrt (25 / 256) = 5 / 16"
proof -
  have "sqrt (5 * 5) = \<bar>5 :: real\<bar>" by (rule real_sqrt_abs2)
  then show "sqrt 25 = 5" by simp
  have "sqrt (5 / 16 * (5 / 16)) = \<bar>5 / 16 :: real\<bar>" by (rule real_sqrt_abs2)
  then show "sqrt (25 / 256) = 5 / 16" by simp
qed

text \<open>The time step of the controllers, \<open>0.016666666666666666\<close>.\<close>

lemma dt_js_eq: "dt_js = Fin (4803839602528529 / 288230376151711744)"
  by (simp add: dt_js_def round_eval)

text \<open>The literals \<open>0.025\<close> and \<open>9.81\<close>.\<close>

lemma literal_deadband: "literal (25 / 1000) = Fin (3602879701896397 / 144115188075855872)"
  by (simp add: literal_def round_eval)

lemma literal_g: "literal (981 / 100) = Fin (5522539043063071 / 562949953421312)"
  by (simp add: literal_def round_eval)

text \<open>
  A value within half a unit of an integer rounds to it, and the cosine is within
  \<open>|x|^n / n!\<close> of its Taylor polynomial of degree below \<open>n\<close>.
\<close>

lemma roundEven_near:
  assumes "\<bar>x - of_int m\<bar> < 1 / 2"
  shows "roundEven x = m"
proof -
  have "\<lfloor>x\<rfloor> = m \<or> \<lfloor>x\<rfloor> = m - 1" using assms by linarith
  then show ?thesis
  proof
    assume f: "\<lfloor>x\<rfloor> = m"
    have "x - of_int m < 1 / 2" using assms by linarith
    then show ?thesis unfolding roundEven_def Let_def f by simp
  next
    assume f: "\<lfloor>x\<rfloor> = m - 1"
    have "\<not> x - of_int (m - 1) < 1 / 2" "x - of_int (m - 1) \<noteq> 1 / 2" using assms by auto
    then show ?thesis unfolding roundEven_def Let_def f by simp
  qed
qed

lemma cos_taylor: "\<bar>cos x - (\<Sum>m<n. cos_coeff m * x ^ m)\<bar> \<le> \<bar>x\<bar> ^ n / fact n"
proof -
  obtain t where
    "cos x = (\<Sum>m<n. cos_coeff m * x ^ m) + cos (t + 1 / 2 * real n * pi) / fact n * x ^ n"
    using Maclaurin_cos_expansion [of x n] by blast
  then have "\<bar>cos x - (\<Sum>m<n. cos_coeff m * x ^ m)\<bar>
      = \<bar>cos (t + 1 / 2 * real n * pi)\<bar> * (\<bar>x\<bar> ^ n / fact n)"
    by (simp add: abs_mult power_abs)
  also have "\<dots> \<le> 1 * (\<bar>x\<bar> ^ n / fact n)"
    by (rule mult_right_mono) simp_all
  finally show ?thesis by simp
qed

lemma sum_below_20:
  "(\<Sum>m<(20::nat). f m) = f 0 + f 1 + f 2 + f 3 + f 4 + f 5 + f 6 + f 7 + f 8 + f 9 + f 10 +
     f 11 + f 12 + f 13 + f 14 + f 15 + f 16 + f 17 + f 18 + (f 19 :: real)"
  by (simp add: numeral_eq_Suc)

lemma cos_angle:
  "\<bar>cos (2554585854899159 / 2251799813685248 :: real) * 18014398509481984
     - 7613213784381523\<bar> < 1 / 2"
proof -
  let ?x = "2554585854899159 / 2251799813685248 :: real"
  define p where "p = (\<Sum>m<20. cos_coeff m * ?x ^ m)"
  define e where "e = \<bar>?x\<bar> ^ 20 / fact 20"
  have 1: "\<bar>cos ?x - p\<bar> \<le> e"
    unfolding p_def e_def by (rule cos_taylor)
  have 2: "\<bar>p * 18014398509481984 - 7613213784381523\<bar> + e * 18014398509481984 < 1 / 2"
    unfolding p_def e_def sum_below_20 by (simp add: cos_coeff_def fact_numeral power_divide)
  from 1 2 show ?thesis by linarith
qed

text \<open>
  The tolerance of the auto-binding: \<open>65 * Math.PI / 180\<close> is \<open>1.1344640137963142\<close> and
  its cosine rounds to \<open>0.42261826174069944\<close>.
\<close>

lemma angle_eq:
  "jsDiv (jsMul TRANSLATION_ANGLE_DEGREES Math_PI) (Fin 180)
     = Fin (2554585854899159 / 2251799813685248)"
  by (simp add: TRANSLATION_ANGLE_DEGREES_def Math_PI_def jsSub_def round_eval)

lemma tolerance_eq: "TRANSLATION_TOLERANCE = Fin (7613213784381523 / 18014398509481984)"
proof -
  define c where "c = cos (2554585854899159 / 2251799813685248 :: real)"
  have n: "\<bar>c * 18014398509481984 - 7613213784381523\<bar> < 1 / 2"
    unfolding c_def by (rule cos_angle)
  then have b: "2 / 5 < c" "c < 1 / 2" by linarith+
  then have "2 < 1 / c" "1 / c \<le> 3" by (simp_all add: field_simps)
  then have "\<lceil>1 / c\<rceil> = 3" by linarith
  then have e: "binade c = - 2"
    using b by (simp add: binade_def)
  have "\<bar>c / pow2 (- 2 - 52) - of_int 7613213784381523\<bar> < 1 / 2"
    using n by (simp add: pow2_def)
  then have r: "roundEven (c / pow2 (- 2 - 52)) = 7613213784381523"
    by (rule roundEven_near)
  have "roundDouble c = Fin (7613213784381523 / 18014398509481984)"
    unfolding roundDouble_def Let_def e r by (simp add: pow2_def)
  then show ?thesis
    by (simp add: TRANSLATION_TOLERANCE_def angle_eq c_def)
qed
section \<open>Reaction wheels in exact arithmetic\<close>

lemma wheelControl_fields [simp]:
  "orientation (wheelControl t w) = orientation w"
  "rw_maxAngularMomentum (wheelControl t w) = rw_maxAngularMomentum w"
  by (simp_all add: wheelControl_def)

lemma wheelControl_pos:
  "dot (orientation w) t > 0 \<Longrightarrow>
   rw_currentAngularMomentum (wheelControl t w) =
     min (rw_currentAngularMomentum w + dot (orientation w) t / 60) (rw_maxAngularMomentum w)"
  by (simp add: wheelControl_def actualTorqueApplied_def dt_ctl_def Let_def min_def field_simps)

lemma wheelControl_neg:
  "dot (orientation w) t < 0 \<Longrightarrow>
   rw_currentAngularMomentum (wheelControl t w) =
     max (rw_currentAngularMomentum w + dot (orientation w) t / 60) (- rw_maxAngularMomentum w)"
  by (simp add: wheelControl_def actualTorqueApplied_def dt_ctl_def Let_def max_def field_simps)

lemma wheelControl_zero:
  "dot (orientation w) t = 0 \<Longrightarrow>
   rw_currentAngularMomentum (wheelControl t w) = rw_currentAngularMomentum w"
  by (simp add: wheelControl_def actualTorqueApplied_def dt_ctl_def Let_def)

lemma wheelControl_bounded:
  assumes "\<bar>rw_currentAngularMomentum w\<bar> \<le> rw_maxAngularMomentum w"
  shows "\<bar>rw_currentAngularMomentum (wheelControl t w)\<bar> \<le> rw_maxAngularMomentum w"
proof -
  consider "dot (orientation w) t > 0" | "dot (orientation w) t < 0" | "dot (orientation w) t = 0"
    by linarith
  then show ?thesis
  proof cases
    case 1
    with assms show ?thesis by (simp add: wheelControl_pos min_def) linarith
  next
    case 2
    with assms show ?thesis by (simp add: wheelControl_neg max_def) linarith
  next
    case 3
    with assms show ?thesis by (simp add: wheelControl_zero)
  qed
qed

lemma bleedWheel_bounded:
  "\<bar>rw_currentAngularMomentum w\<bar> \<le> rw_maxAngularMomentum w \<Longrightarrow>
   \<bar>rw_currentAngularMomentum (bleedWheel a w)\<bar> \<le> rw_maxAngularMomentum (bleedWheel a w)"
  by (simp add: bleedWheel_def Let_def max_def min_def) linarith

lemma wheelsBounded_map:
  "(\<And>w. \<bar>rw_currentAngularMomentum w\<bar> \<le> rw_maxAngularMomentum w \<Longrightarrow>
        \<bar>rw_currentAngularMomentum (f w)\<bar> \<le> rw_maxAngularMomentum (f w)) \<Longrightarrow>
   wheelsBounded ws \<Longrightarrow> wheelsBounded (map f ws)"
  by (simp add: wheelsBounded_def list_all_iff)

lemma desatWheelsThruster_bounded:
  "wheelsBounded (reactionWheels s) \<Longrightarrow>
   wheelsBounded (reactionWheels (desatWheelsThruster d s t))"
  by (simp add: desatWheelsThruster_def Let_def wheelsBounded_map bleedWheel_bounded)

lemma desatWheels_fold_bounded:
  "wheelsBounded (reactionWheels s) \<Longrightarrow>
   wheelsBounded (reactionWheels (foldl (desatWheelsThruster d) s ts))"
  by (induction ts arbitrary: s) (simp_all add: desatWheelsThruster_bounded)

lemma desatCMGsThruster_wheels [simp]:
  "reactionWheels (desatCMGsThruster d s t) = reactionWheels s"
  by (simp add: desatCMGsThruster_def Let_def)

lemma desatCMGs_fold_wheels [simp]:
  "reactionWheels (foldl (desatCMGsThruster d) s ts) = reactionWheels s"
  by (induction ts arbitrary: s) simp_all

lemma desaturate_bounded:
  "wheelsBounded (reactionWheels s) \<Longrightarrow>
   wheelsBounded (reactionWheels (desaturateWithThrusters ts s))"
  by (simp add: desaturateWithThrusters_def Let_def desatWheels_fold_bounded)

lemma applyControlTorque_bounded:
  "wheelsBounded (reactionWheels s) \<Longrightarrow>
   wheelsBounded (reactionWheels (applyControlTorque t s))"
  by (simp add: applyControlTorque_def applyReactionWheelControl_def applyCMGControl_def
      wheelsBounded_map wheelControl_bounded)

lemma applyControlTorque_mode [simp]: "mode (applyControlTorque t s) = mode s"
  by (simp add: applyControlTorque_def applyReactionWheelControl_def applyCMGControl_def)

lemma funpow_mode [simp]: "mode ((applyControlTorque t ^^ n) s) = mode s"
  by (induction n) simp_all

lemma funpow_wheels:
  "mode s = ReactionWheels \<Longrightarrow>
   reactionWheels ((applyControlTorque t ^^ n) s) = map (wheelControl t ^^ n) (reactionWheels s)"
proof (induction n)
  case 0
  then show ?case by simp
next
  case (Suc n)
  have "reactionWheels (applyControlTorque t s') = map (wheelControl t) (reactionWheels s')"
    if "mode s' = ReactionWheels" for s'
    using that by (simp add: applyControlTorque_def applyReactionWheelControl_def)
  with Suc show ?case by simp
qed

lemma funpow_wheel_fields [simp]:
  "orientation ((wheelControl t ^^ n) w) = orientation w"
  "rw_maxAngularMomentum ((wheelControl t ^^ n) w) = rw_maxAngularMomentum w"
  by (induction n) simp_all

text \<open>
  Under a request with a positive component along the axis the momentum climbs by
  \<open>1/60\<close> of that component per call until the limit cuts it off.
\<close>

lemma funpow_wheel_pos:
  assumes "dot (orientation w) t > 0" "rw_currentAngularMomentum w \<le> rw_maxAngularMomentum w"
  shows "rw_currentAngularMomentum ((wheelControl t ^^ n) w) =
     min (rw_currentAngularMomentum w + real n * (dot (orientation w) t / 60))
       (rw_maxAngularMomentum w)"
proof (induction n)
  case 0
  with assms show ?case by simp
next
  case (Suc n)
  have "dot (orientation ((wheelControl t ^^ n) w)) t > 0" using assms by simp
  from wheelControl_pos [OF this] Suc assms show ?case
    by (simp add: min_def field_simps)
qed

lemma funpow_wheel_reaches:
  assumes "dot (orientation w) t > 0" "rw_currentAngularMomentum w \<le> rw_maxAngularMomentum w"
  shows "\<exists>N. \<forall>n\<ge>N.
           rw_currentAngularMomentum ((wheelControl t ^^ n) w) = rw_maxAngularMomentum w"
proof -
  let ?r = "dot (orientation w) t / 60"
  have r: "0 < ?r" using assms by simp
  obtain N where N: "rw_maxAngularMomentum w - rw_currentAngularMomentum w < real N * ?r"
    using ex_less_of_nat_mult [OF r] by blast
  have "rw_currentAngularMomentum ((wheelControl t ^^ n) w) = rw_maxAngularMomentum w"
    if "N \<le> n" for n
  proof -
    have "real N * ?r \<le> real n * ?r"
      using that r by (simp add: mult_right_mono)
    with N have "rw_maxAngularMomentum w \<le> rw_currentAngularMomentum w + real n * ?r"
      by linarith
    then show ?thesis
      by (simp add: funpow_wheel_pos [OF assms] min_def)
  qed
  then show ?thesis by blast
qed

text \<open>The same bound through every event of the simulation.\<close>

lemma toggleMode_wheels [simp]: "reactionWheels (toggleMode a) = reactionWheels a"
  by (simp add: toggleMode_def)

lemma controlPhase_bounded:
  assumes "wheelsBounded (reactionWheels (attitudeControl s))"
  shows "wheelsBounded (reactionWheels (attitudeControl (controlPhase fr s)))"
proof -
  have 1: "wheelsBounded (reactionWheels (if c then applyControlTorque t a else a))"
    if "wheelsBounded (reactionWheels a)" for c t a
    using that by (simp add: applyControlTorque_bounded)
  have 2: "wheelsBounded (reactionWheels (if c then desaturateWithThrusters ts a else a))"
    if "wheelsBounded (reactionWheels a)" for c ts a
    using that by (simp add: desaturate_bounded)
  show ?thesis
    unfolding controlPhase_def Let_def using assms by (simp add: 1 2)
qed

lemma animate_bounded:
  assumes "wheelsBounded (reactionWheels (attitudeControl s))"
  shows "wheelsBounded (reactionWheels (attitudeControl (animate fr s)))"
proof -
  have r: "attitudeControl (releaseThrusters fr s') = attitudeControl s'" for s'
    by (simp add: releaseThrusters_def Let_def)
  have d: "attitudeControl (dockingPhase fr s') = attitudeControl s'" for s'
    by (simp add: dockingPhase_def Let_def)
  show ?thesis
    using assms controlPhase_bounded [OF assms, of fr]
    by (simp add: animate_def Let_def r d)
qed

lemma step_bounded:
  assumes "wheelsBounded (reactionWheels (attitudeControl s))"
  shows "wheelsBounded (reactionWheels (attitudeControl (step e s)))"
proof (cases e)
  case (KeyPause t)
  then show ?thesis using assms by (simp add: keyPause_def Let_def split: option.splits)
next
  case KeyReset
  have "wheelsBounded (map (\<lambda>w. w\<lparr>rw_currentAngularMomentum := 0\<rparr>)
          (reactionWheels (attitudeControl s)))"
    using assms by (rule wheelsBounded_map [rotated]) simp
  with KeyReset show ?thesis by (simp add: resetSimulation_def)
next
  case KeyStop
  then show ?thesis using assms by (simp add: stopEverything_def)
next
  case KeyToggleMode
  then show ?thesis using assms by simp
next
  case KeyDesaturate
  then show ?thesis using assms by (simp add: desaturate_bounded)
next
  case (Frame fr)
  then show ?thesis using assms by (simp add: animate_bounded)
qed

text \<open>
  In exact arithmetic control and desaturation, and with them every event of the
  simulation, keep every wheel's momentum within its limit. For a wheel with limit 10,
  repeating one request whose component along the wheel axis is positive never takes the
  momentum beyond 10, never lowers it, and the momentum reaches 10 after finitely many
  calls and stays there. The headroom clamp of the controller is right as a formula; what
  the doubles make of it is the subject of the next section.
\<close>

lemma exact_momentum_saturation:
  "(wheelsBounded (reactionWheels s) \<longrightarrow>
      wheelsBounded (reactionWheels (applyControlTorque torque s)) \<and>
      wheelsBounded (reactionWheels (desaturateWithThrusters ts s))) \<and>
   (wheelsBounded (reactionWheels (attitudeControl sm)) \<longrightarrow>
      wheelsBounded (reactionWheels (attitudeControl (step e sm)))) \<and>
   (mode s = ReactionWheels \<and> i < length (reactionWheels s) \<and>
    rw_maxAngularMomentum (reactionWheels s ! i) = 10 \<and>
    \<bar>rw_currentAngularMomentum (reactionWheels s ! i)\<bar> \<le> 10 \<and>
    dot (orientation (reactionWheels s ! i)) torque > 0 \<longrightarrow>
      (\<forall>n. rw_currentAngularMomentum
             (reactionWheels ((applyControlTorque torque ^^ n) s) ! i) \<le> 10) \<and>
      (\<forall>n. rw_currentAngularMomentum (reactionWheels ((applyControlTorque torque ^^ n) s) ! i)
           \<le> rw_currentAngularMomentum
                (reactionWheels ((applyControlTorque torque ^^ Suc n) s) ! i)) \<and>
      (\<lambda>n. rw_currentAngularMomentum (reactionWheels ((applyControlTorque torque ^^ n) s) ! i))
         \<longlonglongrightarrow> 10)"
proof (intro conjI impI)
  assume "wheelsBounded (reactionWheels s)"
  then show "wheelsBounded (reactionWheels (applyControlTorque torque s))"
    by (rule applyControlTorque_bounded)
next
  assume "wheelsBounded (reactionWheels s)"
  then show "wheelsBounded (reactionWheels (desaturateWithThrusters ts s))"
    by (rule desaturate_bounded)
next
  assume "wheelsBounded (reactionWheels (attitudeControl sm))"
  then show "wheelsBounded (reactionWheels (attitudeControl (step e sm)))"
    by (rule step_bounded)
next
  assume a: "mode s = ReactionWheels \<and> i < length (reactionWheels s) \<and>
    rw_maxAngularMomentum (reactionWheels s ! i) = 10 \<and>
    \<bar>rw_currentAngularMomentum (reactionWheels s ! i)\<bar> \<le> 10 \<and>
    dot (orientation (reactionWheels s ! i)) torque > 0"
  define w where "w = reactionWheels s ! i"
  have nth: "reactionWheels ((applyControlTorque torque ^^ n) s) ! i = (wheelControl torque ^^ n) w"
    for n
    using a by (simp add: funpow_wheels w_def)
  have pos: "dot (orientation w) torque > 0"
    and le: "rw_currentAngularMomentum w \<le> rw_maxAngularMomentum w"
    and mx: "rw_maxAngularMomentum w = 10"
    using a by (auto simp: w_def)
  show "\<forall>n. rw_currentAngularMomentum
             (reactionWheels ((applyControlTorque torque ^^ n) s) ! i) \<le> 10"
    by (simp add: nth funpow_wheel_pos [OF pos le] mx)
  show "\<forall>n. rw_currentAngularMomentum (reactionWheels ((applyControlTorque torque ^^ n) s) ! i)
           \<le> rw_currentAngularMomentum
                (reactionWheels ((applyControlTorque torque ^^ Suc n) s) ! i)"
    unfolding nth funpow_wheel_pos [OF pos le] mx using pos
    by (auto simp: min_def field_simps)
  obtain N where
    "\<forall>n\<ge>N. rw_currentAngularMomentum ((wheelControl torque ^^ n) w) = rw_maxAngularMomentum w"
    using funpow_wheel_reaches [OF pos le] by blast
  then have "eventually (\<lambda>n. rw_currentAngularMomentum ((wheelControl torque ^^ n) w) = 10)
               sequentially"
    unfolding eventually_sequentially mx by blast
  then have "(\<lambda>n. rw_currentAngularMomentum ((wheelControl torque ^^ n) w)) \<longlonglongrightarrow> 10"
    by (rule tendsto_eventually)
  then show
    "(\<lambda>n. rw_currentAngularMomentum (reactionWheels ((applyControlTorque torque ^^ n) s) ! i))
         \<longlonglongrightarrow> 10"
    by (simp add: nth)
qed

lemma exact_momentum_saturation_example:
  "wheelsBounded (reactionWheels acs0) \<and>
   wheelsBounded (reactionWheels (attitudeControl sim0)) \<and>
   wheelsBounded (reactionWheels (attitudeControl (step KeyReset sim0))) \<and>
   wheelsBounded (reactionWheels (applyControlTorque (Vec3 0 0 900) acs0)) \<and>
   rw_currentAngularMomentum (hd (reactionWheels (applyControlTorque (Vec3 0 0 900) acs0))) = 10 \<and>
   (\<lambda>n. rw_currentAngularMomentum
          (reactionWheels ((applyControlTorque (Vec3 0 0 900) ^^ n) acs0) ! 0))
         \<longlonglongrightarrow> 10"
proof -
  have b: "wheelsBounded (reactionWheels acs0)"
    by (simp add: wheelsBounded_def acs0_def wheel0_def)
  have h: "mode acs0 = ReactionWheels \<and> 0 < length (reactionWheels acs0) \<and>
    rw_maxAngularMomentum (reactionWheels acs0 ! 0) = 10 \<and>
    \<bar>rw_currentAngularMomentum (reactionWheels acs0 ! 0)\<bar> \<le> 10 \<and>
    dot (orientation (reactionWheels acs0 ! 0)) (Vec3 0 0 900) > 0"
    by (simp add: acs0_def wheel0_def dot_def Vec3_def)
  have v: "rw_currentAngularMomentum
             (hd (reactionWheels (applyControlTorque (Vec3 0 0 900) acs0))) = 10"
    by (simp add: acs0_def wheel0_def applyControlTorque_def applyReactionWheelControl_def
        wheelControl_def actualTorqueApplied_def dt_ctl_def dot_def Vec3_def Let_def)
  have b': "wheelsBounded (reactionWheels (attitudeControl sim0))"
    by (simp add: wheelsBounded_def sim0_def acs0_def wheel0_def)
  from exact_momentum_saturation [of acs0 "Vec3 0 0 900" "[]" sim0 KeyReset 0] b b' h v
  show ?thesis by blast
qed

section \<open>Reaction wheels in double precision\<close>

lemma jsMul_NaN_right [simp]: "jsMul a NaN = NaN"
  by (cases a) simp_all

lemma jsAdd_NaN_right [simp]: "jsAdd a NaN = NaN"
  by (cases a) simp_all

lemma jsLt_NaN_right [simp]: "jsLt a NaN = False"
  by (cases a) simp_all

lemma jsLe_NaN_right [simp]: "jsLe a NaN = False"
  by (cases a) simp_all

lemma jsDiv_NaN_right [simp]: "jsDiv a NaN = NaN"
  by (cases a) simp_all

text \<open>The wheel the loader builds from \<open>wcfgTen\<close>: axis \<open>z\<close>, limit 10, at rest.\<close>

lemma wheelTen_eq:
  "wheelTen = \<lparr>jw_index = 0, jw_name = JString ''RW'', jw_orientation = (Fin 0, Fin 0, Fin 1),
     jw_position = (Fin 0, Fin 0, Fin 0), jw_maxAngularMomentum = JNum (Fin 10),
     jw_maxTorque = JNum (Fin (1 / 2)), jw_currentAngularMomentum = Fin 0\<rparr>"
  by (simp add: wheelTen_def makeWheel_def wcfgTen_def noOffset_def rawOrientation_def js_eval
      round_eval)

text \<open>
  A request of 14 fits and adds \<open>14 * dt = 0.23333333333333334\<close>. A request of 900 is cut
  to the headroom: the capacity is \<open>9.766666666666667\<close>, the torque \<open>capacity / dt\<close> is
  \<open>586.0000000000001\<close>, and \<open>torque * dt\<close> is \<open>9.76666666666667\<close>, more than the capacity.
\<close>

lemma wheelTen_first:
  "wheelControl_js (Fin 0, Fin 0, Fin 14) wheelTen =
     wheelTen\<lparr>jw_currentAngularMomentum := Fin (4203359652212463 / 18014398509481984)\<rparr>"
  by (simp add: wheelTen_eq wheelControl_js_def actualTorqueApplied_js_def dt_js_eq js_eval
      round_eval)

lemma wheelTen_second:
  "wheelControl_js (Fin 0, Fin 0, Fin 900)
     (wheelTen\<lparr>jw_currentAngularMomentum := Fin (4203359652212463 / 18014398509481984)\<rparr>) =
   wheelTen\<lparr>jw_currentAngularMomentum := Fin (5629499534213121 / 562949953421312)\<rparr>"
  by (simp add: wheelTen_eq wheelControl_js_def actualTorqueApplied_js_def dt_js_eq js_eval
      round_eval)

text \<open>A wheel built from an entry with no limit in it holds the limit NaN.\<close>

lemma wheelEmpty_fields:
  "jw_orientation (makeWheel noOffset 0 wcfgEmpty) = (Fin 1, Fin 0, Fin 0)"
  "jw_maxAngularMomentum (makeWheel noOffset 0 wcfgEmpty) = JNum NaN"
  "jw_currentAngularMomentum (makeWheel noOffset 0 wcfgEmpty) = Fin 0"
  by (simp_all add: makeWheel_def wcfgEmpty_def rawOrientation_def js_eval)

lemma wheelEmpty_request:
  "jw_currentAngularMomentum
     (wheelControl_js (Fin 14, Fin 0, Fin 0) (makeWheel noOffset 0 wcfgEmpty)) = NaN"
  by (simp add: wheelControl_js_def actualTorqueApplied_js_def wheelEmpty_fields dt_js_eq
      js_eval round_eval)

text \<open>
  Claim C3 fails on the code. The wheel with limit 10, at rest, is asked for a torque of
  14 and then of 900 along its axis: it ends at \<open>10.000000000000002\<close>, above its limit.
  The controller cuts the request to \<open>capacity / dt\<close> and then adds the product of that
  with \<open>dt\<close>, which in doubles need not be the capacity again, and nothing clamps the
  sum, as the desaturation does. A wheel loaded without a limit holds the limit NaN, and
  its momentum is NaN after the first request.
\<close>

theorem wheel_momentum_overshoots_limit:
  "jw_maxAngularMomentum wheelTen = JNum (Fin 10) \<and>
   jw_currentAngularMomentum wheelTen = Fin 0 \<and>
   map jw_currentAngularMomentum
     (applyReactionWheelControl_js (Fin 0, Fin 0, Fin 900)
        (applyReactionWheelControl_js (Fin 0, Fin 0, Fin 14) [wheelTen]))
     = [Fin (5629499534213121 / 562949953421312)] \<and>
   (10 :: real) < 5629499534213121 / 562949953421312 \<and>
   jsGt (Fin (5629499534213121 / 562949953421312)) (toNumber (jw_maxAngularMomentum wheelTen)) \<and>
   jw_maxAngularMomentum (makeWheel noOffset 0 wcfgEmpty) = JNum NaN \<and>
   map jw_currentAngularMomentum
     (applyReactionWheelControl_js (Fin 14, Fin 0, Fin 0) [makeWheel noOffset 0 wcfgEmpty])
     = [NaN]"
proof -
  have a: "jw_maxAngularMomentum wheelTen = JNum (Fin 10)"
    "jw_currentAngularMomentum wheelTen = Fin 0"
    by (simp_all add: wheelTen_eq)
  have b: "map jw_currentAngularMomentum
     (applyReactionWheelControl_js (Fin 0, Fin 0, Fin 900)
        (applyReactionWheelControl_js (Fin 0, Fin 0, Fin 14) [wheelTen]))
     = [Fin (5629499534213121 / 562949953421312)]"
    by (simp add: applyReactionWheelControl_js_def wheelTen_first wheelTen_second)
  have c: "(10 :: real) < 5629499534213121 / 562949953421312" by simp
  then have d: "jsGt (Fin (5629499534213121 / 562949953421312))
      (toNumber (jw_maxAngularMomentum wheelTen))"
    by (simp add: a jsGt_def)
  have e: "jw_maxAngularMomentum (makeWheel noOffset 0 wcfgEmpty) = JNum NaN"
    by (simp add: wheelEmpty_fields)
  have f: "map jw_currentAngularMomentum
     (applyReactionWheelControl_js (Fin 14, Fin 0, Fin 0) [makeWheel noOffset 0 wcfgEmpty])
     = [NaN]"
    by (simp add: applyReactionWheelControl_js_def wheelEmpty_request)
  from a b c d e f show ?thesis by (intro conjI) assumption+
qed
section \<open>Propellant in exact arithmetic\<close>

lemma consumeFuel_fuelMass [simp]: "fuelMass (consumeFuel a f) = max 0 (fuelMass f - a)"
  by (simp add: consumeFuel_def updateSatelliteMass_def Let_def split: option.splits)

lemma setActive_fuel [simp]: "fuel (setActive i b p) = fuel p"
  by (simp add: setActive_def)

lemma setActive_firedForces [simp]: "firedForces (setActive i b p) = firedForces p"
  by (simp add: setActive_def)

lemma setActive_length [simp]: "length (thrusters (setActive i b p)) = length (thrusters p)"
  by (simp add: setActive_def)

lemma setActive_nth:
  "thrusters (setActive i b p) ! j =
     (if i = j \<and> i < length (thrusters p) then (thrusters p ! j)\<lparr>active := b\<rparr>
      else thrusters p ! j)"
proof (cases "i < length (thrusters p)")
  case True
  then show ?thesis by (simp add: setActive_def nth_list_update)
next
  case False
  then show ?thesis by (simp add: setActive_def not_less list_update_beyond)
qed

lemma setActive_thrust [simp]:
  "thrust (thrusters (setActive i b p) ! j) = thrust (thrusters p ! j)"
  by (simp add: setActive_nth)

lemma setActive_isp [simp]: "isp (thrusters (setActive i b p) ! j) = isp (thrusters p ! j)"
  by (simp add: setActive_nth)

lemma setActive_sanitized [simp]:
  "sanitized (thrusters (setActive i b p)) = sanitized (thrusters p)"
  by (simp add: sanitized_def list_all_length)

lemma fireThruster_fuel_eq:
  "fuel (fireThruster dt p i) =
     (if i < length (thrusters p) \<and> 0 < fuelMass (fuel p) \<and>
         \<not> (thrust (thrusters p ! i) = 0 \<or> isp (thrusters p ! i) = 0 \<or>
            isp (thrusters p ! i) \<le> 0)
      then consumeFuel (thrust (thrusters p ! i) / (isp (thrusters p ! i) * (981 / 100)) * dt)
             (fuel p)
      else fuel p)"
  unfolding fireThruster_def Let_def by simp

lemma fireThruster_sanitized:
  "sanitized (thrusters p) \<Longrightarrow> sanitized (thrusters (fireThruster dt p i))"
  unfolding fireThruster_def Let_def by simp

lemma fireThruster_rejected:
  assumes "i < length (thrusters p)" "fuelMass (fuel p) \<le> 0"
  shows "fireThruster dt p i = setActive i False p"
  using assms unfolding fireThruster_def Let_def by simp

lemma fireThruster_fuel:
  assumes "sanitized (thrusters p)" "0 \<le> dt"
  shows "fuelMass (fuel (fireThruster dt p i)) \<le> fuelMass (fuel p) \<and>
         (0 \<le> fuelMass (fuel p) \<longrightarrow> 0 \<le> fuelMass (fuel (fireThruster dt p i)))"
proof (cases "i < length (thrusters p)")
  case False
  then show ?thesis by (simp add: fireThruster_fuel_eq)
next
  case True
  with assms(1) have "thrust (thrusters p ! i) > 0" "isp (thrusters p ! i) > 0"
    by (simp_all add: sanitized_def list_all_length)
  then have "0 \<le> thrust (thrusters p ! i) / (isp (thrusters p ! i) * (981 / 100)) * dt"
    using assms(2) by simp
  then show ?thesis
    by (simp add: fireThruster_fuel_eq max_def)
qed

lemma burnt_refl: "sanitized (thrusters p) \<Longrightarrow> burnt p p"
  by (simp add: burnt_def)

lemma burnt_step: "burnt p q \<Longrightarrow> 0 \<le> dt \<Longrightarrow> burnt p (fireThruster dt q i)"
  using fireThruster_fuel [of q dt i] fireThruster_sanitized [of q dt i]
  by (auto simp: burnt_def)

lemma burnt_indices: "burnt p q \<Longrightarrow> 0 \<le> dt \<Longrightarrow> burnt p (foldl (fireThruster dt) q ids)"
  by (induction ids arbitrary: q) (simp_all add: burnt_step)

lemma burnt_fireKey: "burnt p q \<Longrightarrow> 0 \<le> dt \<Longrightarrow> burnt p (fireKey tr pressed dt q e)"
  by (cases e) (simp add: fireKey_def burnt_indices)

lemma burnt_fireKeys: "burnt p q \<Longrightarrow> 0 \<le> dt \<Longrightarrow> burnt p (fireKeys tr pressed dt m q)"
  unfolding fireKeys_def by (induction m arbitrary: q) (simp_all add: burnt_fireKey)

lemma burnt_fireSeq:
  "burnt p q \<Longrightarrow> list_all (\<lambda>(dt, i). 0 \<le> dt) ops \<Longrightarrow> burnt p (fireSeq q ops)"
  unfolding fireSeq_def
  by (induction ops arbitrary: q) (auto simp: burnt_step)

lemma releaseThrusters_fuel [simp]:
  "fuel (propulsionSys (releaseThrusters fr s)) = fuel (propulsionSys s)"
  by (simp add: releaseThrusters_def Let_def)

lemma sanitized_map:
  "(\<And>t. thrust (f t) = thrust t \<and> isp (f t) = isp t) \<Longrightarrow> sanitized (map f ts) = sanitized ts"
  by (simp add: sanitized_def list_all_length)

lemma releaseThrusters_sanitized [simp]:
  "sanitized (thrusters (propulsionSys (releaseThrusters fr s))) =
   sanitized (thrusters (propulsionSys s))"
  unfolding releaseThrusters_def Let_def by (simp add: sanitized_map)

lemma dockingPhase_propulsion [simp]:
  "propulsionSys (dockingPhase fr s) = propulsionSys s"
  by (simp add: dockingPhase_def Let_def)

lemma controlPhase_burnt:
  assumes "sanitized (thrusters (propulsionSys s))" "0 \<le> delta fr"
  shows "burnt (propulsionSys s) (propulsionSys (controlPhase fr s))"
proof -
  let ?p = "propulsionSys s"
  have b0: "burnt ?p ?p" using assms(1) by (rule burnt_refl)
  have b1: "burnt ?p (fireKeys False (keyIsPressed fr) (delta fr) (keyToThrusterIndices s) ?p)"
    using b0 assms(2) by (rule burnt_fireKeys)
  have b2: "burnt ?p (fireKeys True (keyIsPressed fr) (delta fr) m q)" if "burnt ?p q" for m q
    using that assms(2) by (rule burnt_fireKeys)
  show ?thesis
    unfolding controlPhase_def Let_def
    by (simp add: b2 b1 b0)
qed

text \<open>
  In exact arithmetic, with thrusters of positive thrust and \<open>isp\<close> and time steps that
  are not negative, no sequence of firings raises \<open>fuelMass\<close> or makes it negative, and
  one more firing never raises it again; the same holds for a pass over the pressed keys
  and for a whole frame of \<open>animate\<close>. A firing with fuel left debits
  \<open>thrust / (isp * 9.81) * dt\<close>, cut off at zero; a firing with no fuel left changes
  neither the fuel nor the forces and leaves the thruster inactive. Infinite thrust and
  \<open>isp\<close>, which the set-up lets through, are outside this reading and are taken up in the
  next section.
\<close>

lemma exact_fuel_monotonicity:
  assumes "sanitized (thrusters p)" and "list_all (\<lambda>(dt, i). 0 \<le> dt) ops" and "0 \<le> dt"
    and "sanitized (thrusters (propulsionSys s))" and "0 \<le> delta fr"
  shows "fuelMass (fuel (fireSeq p ops)) \<le> fuelMass (fuel p) \<and>
     (0 \<le> fuelMass (fuel p) \<longrightarrow> 0 \<le> fuelMass (fuel (fireSeq p ops))) \<and>
     fuelMass (fuel (fireSeq p (ops @ [(dt, i)]))) \<le> fuelMass (fuel (fireSeq p ops)) \<and>
     fuelMass (fuel (fireKeys tr pressed dt m p)) \<le> fuelMass (fuel p) \<and>
     (0 \<le> fuelMass (fuel p) \<longrightarrow> 0 \<le> fuelMass (fuel (fireKeys tr pressed dt m p))) \<and>
     fuelMass (fuel (propulsionSys (animate fr s))) \<le> fuelMass (fuel (propulsionSys s)) \<and>
     (0 \<le> fuelMass (fuel (propulsionSys s)) \<longrightarrow>
        0 \<le> fuelMass (fuel (propulsionSys (animate fr s)))) \<and>
     (i < length (thrusters p) \<and> 0 < fuelMass (fuel p) \<longrightarrow>
        fuelMass (fuel (fireThruster dt p i)) =
          max 0 (fuelMass (fuel p)
                   - thrust (thrusters p ! i) / (isp (thrusters p ! i) * (981 / 100)) * dt)) \<and>
     (i < length (thrusters p) \<and> fuelMass (fuel p) \<le> 0 \<longrightarrow>
        fuel (fireThruster dt p i) = fuel p \<and>
        firedForces (fireThruster dt p i) = firedForces p \<and>
        \<not> active (thrusters (fireThruster dt p i) ! i))"
proof -
  have seq: "burnt p (fireSeq p ops)"
    using burnt_refl [OF assms(1)] assms(2) by (rule burnt_fireSeq)
  then have san: "sanitized (thrusters (fireSeq p ops))" by (simp add: burnt_def)
  have more: "fuelMass (fuel (fireSeq p (ops @ [(dt, i)]))) \<le> fuelMass (fuel (fireSeq p ops))"
    using fireThruster_fuel [OF san assms(3), of i] by (simp add: fireSeq_def)
  have keys: "burnt p (fireKeys tr pressed dt m p)"
    using burnt_refl [OF assms(1)] assms(3) by (rule burnt_fireKeys)
  have frame: "burnt (propulsionSys s) (propulsionSys (animate fr s))"
  proof (cases "paused s")
    case True
    then show ?thesis
      using assms(4) by (simp add: animate_def Let_def burnt_def)
  next
    case False
    then show ?thesis
      using controlPhase_burnt [OF assms(4,5)] by (simp add: animate_def Let_def burnt_def)
  qed
  have debit: "fuelMass (fuel (fireThruster dt p i)) =
          max 0 (fuelMass (fuel p)
                   - thrust (thrusters p ! i) / (isp (thrusters p ! i) * (981 / 100)) * dt)"
    if "i < length (thrusters p)" "0 < fuelMass (fuel p)"
  proof -
    from that(1) assms(1) have "thrust (thrusters p ! i) > 0" "isp (thrusters p ! i) > 0"
      by (simp_all add: sanitized_def list_all_length)
    with that show ?thesis by (simp add: fireThruster_fuel_eq)
  qed
  have reject: "fuel (fireThruster dt p i) = fuel p \<and>
        firedForces (fireThruster dt p i) = firedForces p \<and>
        \<not> active (thrusters (fireThruster dt p i) ! i)"
    if "i < length (thrusters p)" "fuelMass (fuel p) \<le> 0"
    using that by (simp add: fireThruster_rejected setActive_nth)
  from seq more keys frame debit reject show ?thesis
    by (simp add: burnt_def)
qed

lemma exact_fuel_monotonicity_example:
  "sanitized (thrusters propulsion0) \<and> list_all (\<lambda>(dt, i). 0 \<le> dt) [(1 / 60 :: real, 0 :: nat)] \<and>
   sanitized (thrusters (propulsionSys (keyPause 0 sim0))) \<and>
   0 \<le> delta (frameTo 16 body0) \<and>
   fuelMass (fuel (fireThruster (1 / 60) propulsion0 0)) = 5 - 5 / 17658 \<and>
   fuelMass (fuel (fireSeq propulsion0 [(1 / 60, 0)])) \<le> fuelMass (fuel propulsion0) \<and>
   0 \<le> fuelMass (fuel (fireSeq propulsion0 [(1 / 60, 0)])) \<and>
   fuelMass (fuel (propulsionSys (animate (frameTo 16 body0) (keyPause 0 sim0))))
     \<le> fuelMass (fuel (propulsionSys (keyPause 0 sim0)))"
proof -
  have h1: "sanitized (thrusters propulsion0)"
    by (simp add: sanitized_def propulsion0_def thruster0_def)
  have h2: "list_all (\<lambda>(dt, i). 0 \<le> dt) [(1 / 60 :: real, 0 :: nat)]" by simp
  have h3: "(0 :: real) \<le> 1 / 60" by simp
  have h4: "sanitized (thrusters (propulsionSys (keyPause 0 sim0)))"
    by (simp add: keyPause_def sim0_def Let_def sanitized_def propulsion0_def thruster0_def)
  have h5: "0 \<le> delta (frameTo 16 body0)" by (simp add: frameTo_def)
  have f0: "fuelMass (fuel propulsion0) = 5" "length (thrusters propulsion0) = 1"
    "thrust (thrusters propulsion0 ! 0) = 50" "isp (thrusters propulsion0 ! 0) = 300"
    by (simp_all add: propulsion0_def fuel0_def thruster0_def)
  note inst = exact_fuel_monotonicity [OF h1 h2 h3 h4 h5, of 0]
  from inst have "fuelMass (fuel (fireThruster (1 / 60) propulsion0 0)) = 5 - 5 / 17658"
    by (simp add: f0)
  with inst h1 h2 h4 h5 f0 show ?thesis by simp
qed
section \<open>Propellant on JavaScript numbers\<close>

text \<open>
  The set-up keeps an infinite \<open>thrust\<close> and an infinite \<open>isp\<close>: neither is NaN and
  neither is \<open>\<le> 0\<close>.
\<close>

lemma thrusterInf_eq:
  "makeThruster noOffset 0 tcfgInf =
     \<lparr>tj_pos = (Fin 1, Fin 0, Fin 0), tj_dir = (Fin 0, Fin 0, Fin 1), tj_thrust = PosInf,
      tj_isp = PosInf, tj_active = False, tj_index = 0\<rparr>"
  by (simp add: makeThruster_def tcfgInf_def noOffset_def thrusterPos_def thrusterDir_def
      sanitize_def parseFloatString_def isStrWhiteSpace_def js_eval round_eval)

lemma fire_infinite:
  "fireThruster_js dt
     \<lparr>pj_thrusters = [\<lparr>tj_pos = q, tj_dir = d, tj_thrust = PosInf, tj_isp = PosInf,
                        tj_active = b, tj_index = 0\<rparr>],
      pj_fuel = \<lparr>jf_dryMass = Fin 5, jf_fuelMass = m, jf_maxFuelMass = Fin 5,
                 jf_spacecraftBody = Some v\<rparr>,
      pj_firedForces = fs\<rparr> 0 =
     \<lparr>pj_thrusters = [\<lparr>tj_pos = q, tj_dir = d, tj_thrust = PosInf, tj_isp = PosInf,
                        tj_active = True, tj_index = 0\<rparr>],
      pj_fuel = \<lparr>jf_dryMass = Fin 5, jf_fuelMass = NaN, jf_maxFuelMass = Fin 5,
                 jf_spacecraftBody = Some (NaN, Fin 0)\<rparr>,
      pj_firedForces = fs @ [(jsScale d PosInf, q)]\<rparr>"
  if "\<not> jsLe m (Fin 0)"
  using that
  by (simp add: fireThruster_js_def setActive_js_def consumeFuel_js_def
      updateSatelliteMass_js_def literal_g jsSub_def jsMax_def jsGt_def isNaN_def Let_def)

text \<open>
  Claim C2 fails on the code. A thruster entry with infinite \<open>thrust\<close> and \<open>isp\<close> passes
  the sanitization of the set-up and the test before each firing. Its consumption rate
  \<open>thrust / (isp * 9.81)\<close> is NaN, \<open>Math.max(0, fuelMass - NaN)\<close> is NaN, and the fuel is
  NaN from the first firing on: not below what it was, not at or above zero. \<open>NaN <= 0\<close>
  is false, so the firing is not rejected, the thruster is reported active, and the next
  firing goes through as well.
\<close>

theorem fuel_becomes_NaN_for_infinite_thrust:
  "tj_thrust (makeThruster noOffset 0 tcfgInf) = PosInf \<and>
   tj_isp (makeThruster noOffset 0 tcfgInf) = PosInf \<and>
   jf_fuelMass (pj_fuel propulsionInf) = Fin 5 \<and>
   jf_fuelMass (pj_fuel (fireThruster_js (Fin (1 / 64)) propulsionInf 0)) = NaN \<and>
   \<not> jsLe (jf_fuelMass (pj_fuel (fireThruster_js (Fin (1 / 64)) propulsionInf 0)))
          (jf_fuelMass (pj_fuel propulsionInf)) \<and>
   \<not> jsGe (jf_fuelMass (pj_fuel (fireThruster_js (Fin (1 / 64)) propulsionInf 0))) (Fin 0) \<and>
   tj_active (pj_thrusters (fireThruster_js (Fin (1 / 64)) propulsionInf 0) ! 0) \<and>
   length (pj_firedForces
     (fireThruster_js (Fin (1 / 64)) (fireThruster_js (Fin (1 / 64)) propulsionInf 0) 0)) = 2 \<and>
   tj_active (pj_thrusters
     (fireThruster_js (Fin (1 / 64)) (fireThruster_js (Fin (1 / 64)) propulsionInf 0) 0) ! 0)"
proof -
  have t: "tj_thrust (makeThruster noOffset 0 tcfgInf) = PosInf"
    "tj_isp (makeThruster noOffset 0 tcfgInf) = PosInf"
    by (simp_all add: thrusterInf_eq)
  have p: "propulsionInf =
     \<lparr>pj_thrusters = [\<lparr>tj_pos = (Fin 1, Fin 0, Fin 0), tj_dir = (Fin 0, Fin 0, Fin 1),
                        tj_thrust = PosInf, tj_isp = PosInf, tj_active = False, tj_index = 0\<rparr>],
      pj_fuel = \<lparr>jf_dryMass = Fin 5, jf_fuelMass = Fin 5, jf_maxFuelMass = Fin 5,
                 jf_spacecraftBody = Some (Fin 10, Fin (1 / 10))\<rparr>,
      pj_firedForces = []\<rparr>"
    by (simp add: propulsionInf_def thrusterInf_eq)
  have one: "fireThruster_js (Fin (1 / 64)) propulsionInf 0 =
     \<lparr>pj_thrusters = [\<lparr>tj_pos = (Fin 1, Fin 0, Fin 0), tj_dir = (Fin 0, Fin 0, Fin 1),
                        tj_thrust = PosInf, tj_isp = PosInf, tj_active = True, tj_index = 0\<rparr>],
      pj_fuel = \<lparr>jf_dryMass = Fin 5, jf_fuelMass = NaN, jf_maxFuelMass = Fin 5,
                 jf_spacecraftBody = Some (NaN, Fin 0)\<rparr>,
      pj_firedForces = [] @ [(jsScale (Fin 0, Fin 0, Fin 1) PosInf, (Fin 1, Fin 0, Fin 0))]\<rparr>"
    unfolding p by (rule fire_infinite) simp
  have two: "fireThruster_js (Fin (1 / 64)) (fireThruster_js (Fin (1 / 64)) propulsionInf 0) 0 =
     \<lparr>pj_thrusters = [\<lparr>tj_pos = (Fin 1, Fin 0, Fin 0), tj_dir = (Fin 0, Fin 0, Fin 1),
                        tj_thrust = PosInf, tj_isp = PosInf, tj_active = True, tj_index = 0\<rparr>],
      pj_fuel = \<lparr>jf_dryMass = Fin 5, jf_fuelMass = NaN, jf_maxFuelMass = Fin 5,
                 jf_spacecraftBody = Some (NaN, Fin 0)\<rparr>,
      pj_firedForces = ([] @ [(jsScale (Fin 0, Fin 0, Fin 1) PosInf, (Fin 1, Fin 0, Fin 0))])
                         @ [(jsScale (Fin 0, Fin 0, Fin 1) PosInf, (Fin 1, Fin 0, Fin 0))]\<rparr>"
    unfolding one by (rule fire_infinite) simp
  have f0: "jf_fuelMass (pj_fuel propulsionInf) = Fin 5" by (simp add: p)
  show ?thesis
    unfolding two unfolding one f0 using t by (simp add: jsGe_def)
qed

text \<open>
  The test before a firing, \<open>!t.thrust || !t.isp || t.isp <= 0 || isNaN(t.thrust) ||
  isNaN(t.isp)\<close>, at this input: no part of it holds, and there is fuel, so the firing is
  carried out.
\<close>

theorem fuel_becomes_NaN_for_infinite_thrust_witness:
  "truthy (JNum (tj_thrust (pj_thrusters propulsionInf ! 0))) \<and>
   truthy (JNum (tj_isp (pj_thrusters propulsionInf ! 0))) \<and>
   \<not> jsLe (tj_isp (pj_thrusters propulsionInf ! 0)) (Fin 0) \<and>
   \<not> isNaN (tj_thrust (pj_thrusters propulsionInf ! 0)) \<and>
   \<not> isNaN (tj_isp (pj_thrusters propulsionInf ! 0)) \<and>
   \<not> jsLe (jf_fuelMass (pj_fuel propulsionInf)) (Fin 0) \<and>
   jf_fuelMass (pj_fuel (fireThruster_js (Fin (1 / 64)) propulsionInf 0)) = NaN \<and>
   tj_active (pj_thrusters (fireThruster_js (Fin (1 / 64)) propulsionInf 0) ! 0)"
  using fuel_becomes_NaN_for_infinite_thrust
  by (simp add: propulsionInf_def isNaN_def)
section \<open>CMG momentum against its limit\<close>

lemma cmgSmall_step:
  "cmgControl (Vec3 (- 120) 0 0) cmgSmall = cmgSmall\<lparr>cmg_currentAngularMomentum := Vec3 2 0 0\<rparr>"
  by (simp add: cmgControl_def actualTorque_def cmgSmall_def dt_ctl_def Let_def)

lemma cmgSaturated_step:
  "cmgControl (Vec3 0 (- 5) 0) cmgSaturated =
     cmgSaturated\<lparr>cmg_currentAngularMomentum := Vec3 200 (1 / 12) 0\<rparr>"
  by (simp add: cmgControl_def actualTorque_def cmgSaturated_def dt_ctl_def Let_def)

lemma vlength_over_200: "200 < vlength (Vec3 200 (1 / 12) 0)"
proof -
  have "(200 :: real)\<^sup>2 < 200 * 200 + 1 / 12 * (1 / 12) + 0 * 0"
    by (simp add: power2_eq_square)
  then have "200 < sqrt (200 * 200 + 1 / 12 * (1 / 12) + 0 * 0)"
    by (rule real_less_rsqrt)
  then show ?thesis by (simp add: vlength_def)
qed

text \<open>
  Claim C1 fails on the code. In CMGS mode one call of \<open>applyControlTorque\<close> takes a CMG
  with limit 1 and torque limit 120 from momentum zero to \<open>(2, 0, 0)\<close>; and a CMG with
  the limits 200 and 5 that holds exactly \<open>(200, 0, 0)\<close> goes to \<open>(200, 1/12, 0)\<close> under a
  torque across its momentum. In both the stored magnitude is beyond
  \<open>maxAngularMomentum\<close>: the scaling only runs once the magnitude has reached the limit and
  the dot product is positive.
\<close>

theorem cmg_momentum_exceeds_limit:
  "cmg_currentAngularMomentum
     (hd (cmgs (applyControlTorque (Vec3 (- 120) 0 0) (acsCMG cmgSmall)))) = Vec3 2 0 0 \<and>
   cmg_maxAngularMomentum
     (hd (cmgs (applyControlTorque (Vec3 (- 120) 0 0) (acsCMG cmgSmall)))) <
   vlength (cmg_currentAngularMomentum
     (hd (cmgs (applyControlTorque (Vec3 (- 120) 0 0) (acsCMG cmgSmall))))) \<and>
   vlength (cmg_currentAngularMomentum cmgSaturated) = cmg_maxAngularMomentum cmgSaturated \<and>
   cmg_currentAngularMomentum
     (hd (cmgs (applyControlTorque (Vec3 0 (- 5) 0) (acsCMG cmgSaturated)))) =
       Vec3 200 (1 / 12) 0 \<and>
   cmg_maxAngularMomentum
     (hd (cmgs (applyControlTorque (Vec3 0 (- 5) 0) (acsCMG cmgSaturated)))) <
   vlength (cmg_currentAngularMomentum
     (hd (cmgs (applyControlTorque (Vec3 0 (- 5) 0) (acsCMG cmgSaturated)))))"
proof -
  have a: "cmgs (applyControlTorque t (acsCMG c)) = [cmgControl t c]" for t c
    by (simp add: applyControlTorque_def applyCMGControl_def acsCMG_def)
  have b: "vlength (cmg_currentAngularMomentum cmgSaturated) = cmg_maxAngularMomentum cmgSaturated"
    by (simp add: cmgSaturated_def)
  show ?thesis
    unfolding a list.sel cmgSmall_step cmgSaturated_step
    using vlength_over_200 b by (simp add: cmgSmall_def cmgSaturated_def)
qed

text \<open>
  The saturated CMG of the example is reached from rest: 2400 requests of the full torque
  along \<open>-x\<close> raise the momentum by \<open>1/12\<close> each, up to exactly 200.
\<close>

lemma cmg_ramp:
  "n \<le> 2400 \<Longrightarrow>
   (cmgControl (Vec3 (- 5) 0 0) ^^ n) (cmgSaturated\<lparr>cmg_currentAngularMomentum := Vec3 0 0 0\<rparr>) =
     cmgSaturated\<lparr>cmg_currentAngularMomentum := Vec3 (real n / 12) 0 0\<rparr>"
proof (induction n)
  case 0
  then show ?case by simp
next
  case (Suc n)
  then have n: "real n < 2400" and ih:
    "(cmgControl (Vec3 (- 5) 0 0) ^^ n) (cmgSaturated\<lparr>cmg_currentAngularMomentum := Vec3 0 0 0\<rparr>) =
     cmgSaturated\<lparr>cmg_currentAngularMomentum := Vec3 (real n / 12) 0 0\<rparr>"
    by simp_all
  have "cmgControl (Vec3 (- 5) 0 0) (cmgSaturated\<lparr>cmg_currentAngularMomentum := Vec3 (real n / 12) 0 0\<rparr>)
      = cmgSaturated\<lparr>cmg_currentAngularMomentum := Vec3 (real (Suc n) / 12) 0 0\<rparr>"
    using n by (simp add: cmgControl_def actualTorque_def cmgSaturated_def dt_ctl_def Let_def
        field_simps)
  with ih show ?case by simp
qed

lemma cmgSaturated_reached:
  "(cmgControl (Vec3 (- 5) 0 0) ^^ 2400) (cmgSaturated\<lparr>cmg_currentAngularMomentum := Vec3 0 0 0\<rparr>)
     = cmgSaturated"
  using cmg_ramp [of 2400] by (simp add: cmgSaturated_def)

section \<open>Desaturation of a wheel with negative momentum\<close>

lemma acsNegative_eq:
  "acsNegative = acs0\<lparr>reactionWheels := [wheel0\<lparr>rw_currentAngularMomentum := - 5\<rparr>],
     appliedTorques := [Vec3 0 0 300]\<rparr>"
  by (simp add: acsNegative_def acs0_def wheel0_def applyControlTorque_def
      applyReactionWheelControl_def wheelControl_def reactionTorque_def
      actualTorqueApplied_def dt_ctl_def Let_def)

text \<open>
  One desaturation step on the single wheel at a momentum \<open>c\<close> between \<open>-10\<close> and \<open>-5\<close>,
  with desaturation already or not yet active: the thruster fires and the wheel moves to
  \<open>max (-10) (c - 1/100)\<close>.
\<close>

lemma desaturate_negative_step:
  assumes "- 10 \<le> c" "c \<le> - 5"
  shows "desaturateWithThrusters [thruster0]
           (acs0\<lparr>reactionWheels := [wheel0\<lparr>rw_currentAngularMomentum := c\<rparr>],
                 appliedTorques := tq, appliedForces := fs, desaturationActive := d\<rparr>) =
         acs0\<lparr>reactionWheels := [wheel0\<lparr>rw_currentAngularMomentum := max (- 10) (c - 1 / 100)\<rparr>],
               appliedTorques := tq,
               appliedForces := fs @ [(Vec3 0 25 0, Vec3 1 0 0)], desaturationActive := True\<rparr>"
proof -
  have tot: "totalWheelMomentum [wheel0\<lparr>rw_currentAngularMomentum := c\<rparr>] = Vec3 0 0 c"
    by (simp add: totalWheelMomentum_def wheel0_def)
  have len: "vlength (Vec3 0 0 c) = - c" using assms by simp
  have unit: "scale (vunit (Vec3 0 0 c)) (- 1) = Vec3 0 0 1"
    using assms by (simp add: vunit_def len Let_def)
  have bleed: "bleedWheel 1 (wheel0\<lparr>rw_currentAngularMomentum := c\<rparr>) =
      wheel0\<lparr>rw_currentAngularMomentum := max (- 10) (c - 1 / 100)\<rparr>"
    using assms by (simp add: bleedWheel_def wheel0_def Let_def min_def)
  have mx: "\<not> maxMomentum [wheel0\<lparr>rw_currentAngularMomentum := max (- 10) (c - 1 / 100)\<rparr>] < 1 / 2"
    using assms by (simp add: maxMomentum_def max_def)
  show ?thesis
    using assms mx
    by (simp add: desaturateWithThrusters_def acs0_def Let_def tot len unit
        desatWheelsThruster_def thruster0_def bleed)
qed

lemma desaturate_negative_funpow:
  "(desaturateWithThrusters [thruster0] ^^ Suc n) acsNegative =
     acs0\<lparr>reactionWheels :=
             [wheel0\<lparr>rw_currentAngularMomentum := max (- 10) (- 5 - real (Suc n) / 100)\<rparr>],
           appliedTorques := [Vec3 0 0 300],
           appliedForces := replicate (Suc n) (Vec3 0 25 0, Vec3 1 0 0),
           desaturationActive := True\<rparr>"
proof (induction n)
  case 0
  have "desaturateWithThrusters [thruster0]
           (acs0\<lparr>reactionWheels := [wheel0\<lparr>rw_currentAngularMomentum := - 5\<rparr>],
                 appliedTorques := [Vec3 0 0 300], appliedForces := [],
                 desaturationActive := False\<rparr>) =
         acs0\<lparr>reactionWheels := [wheel0\<lparr>rw_currentAngularMomentum := max (- 10) (- 5 - 1 / 100)\<rparr>],
               appliedTorques := [Vec3 0 0 300],
               appliedForces := [] @ [(Vec3 0 25 0, Vec3 1 0 0)], desaturationActive := True\<rparr>"
    by (rule desaturate_negative_step) simp_all
  then show ?case by (simp add: acsNegative_eq acs0_def)
next
  case (Suc n)
  let ?c = "max (- 10) (- 5 - real (Suc n) / 100)"
  have c: "- 10 \<le> ?c" "?c \<le> - 5" by (simp_all add: max_def)
  have next_c: "max (- 10) (?c - 1 / 100) = max (- 10) (- 5 - real (Suc (Suc n)) / 100)"
    by (simp add: max_def field_simps)
  have "(desaturateWithThrusters [thruster0] ^^ Suc (Suc n)) acsNegative =
        desaturateWithThrusters [thruster0]
          ((desaturateWithThrusters [thruster0] ^^ Suc n) acsNegative)"
    by simp
  also have "\<dots> = acs0\<lparr>reactionWheels := [wheel0\<lparr>rw_currentAngularMomentum := max (- 10) (?c - 1 / 100)\<rparr>],
               appliedTorques := [Vec3 0 0 300],
               appliedForces := replicate (Suc n) (Vec3 0 25 0, Vec3 1 0 0) @ [(Vec3 0 25 0, Vec3 1 0 0)],
               desaturationActive := True\<rparr>"
    unfolding Suc.IH by (rule desaturate_negative_step [OF c])
  finally show ?case
    unfolding next_c by (simp add: replicate_append_same)
qed

text \<open>
  Claim C7 fails on the code. A single wheel (axis \<open>z\<close>, limit 10) holds \<open>-5\<close> after one
  control request, which is above the deactivation threshold in magnitude, and
  \<open>thruster0\<close> is aligned (alignment 1) with the direction opposing the bank's momentum.
  Every desaturation step then subtracts \<open>1/100\<close> again: after \<open>n + 1\<close> steps the wheel
  holds \<open>max (-10) (-5 - (n + 1)/100)\<close>, the peak magnitude never falls below 5 and
  \<open>desaturationActive\<close> stays set.
\<close>

theorem desaturation_diverges_for_negative_momentum:
  "rw_currentAngularMomentum (hd (reactionWheels acsNegative)) = - 5 \<and>
   mode acsNegative = ReactionWheels \<and>
   dot (cross (pos thruster0) (dir thruster0))
     (scale (vunit (totalWheelMomentum (reactionWheels acsNegative))) (- 1)) = 1 \<and>
   (\<forall>n. rw_currentAngularMomentum
          (hd (reactionWheels ((desaturateWithThrusters [thruster0] ^^ Suc n) acsNegative))) =
            max (- 10) (- 5 - real (Suc n) / 100) \<and>
        maxMomentum (reactionWheels ((desaturateWithThrusters [thruster0] ^^ n) acsNegative)) \<ge> 5 \<and>
        maxMomentum (reactionWheels ((desaturateWithThrusters [thruster0] ^^ n) acsNegative))
          \<le> maxMomentum
               (reactionWheels ((desaturateWithThrusters [thruster0] ^^ Suc n) acsNegative)) \<and>
        desaturationActive ((desaturateWithThrusters [thruster0] ^^ Suc n) acsNegative))"
proof -
  have start: "rw_currentAngularMomentum (hd (reactionWheels acsNegative)) = - 5"
    "mode acsNegative = ReactionWheels"
    by (simp_all add: acsNegative_eq acs0_def)
  have align: "dot (cross (pos thruster0) (dir thruster0))
     (scale (vunit (totalWheelMomentum (reactionWheels acsNegative))) (- 1)) = 1"
    by (simp add: acsNegative_eq acs0_def wheel0_def totalWheelMomentum_def thruster0_def
        vunit_def Let_def)
  have mm0: "maxMomentum (reactionWheels acsNegative) = 5"
    by (simp add: acsNegative_eq acs0_def maxMomentum_def)
  have mm: "maxMomentum (reactionWheels ((desaturateWithThrusters [thruster0] ^^ Suc n) acsNegative))
      = min 10 (5 + real (Suc n) / 100)" for n
    unfolding desaturate_negative_funpow
    by (simp add: acs0_def maxMomentum_def max_def min_def)
  have ge: "maxMomentum (reactionWheels ((desaturateWithThrusters [thruster0] ^^ n) acsNegative)) \<ge> 5"
    for n
  proof (cases n)
    case 0
    then show ?thesis by (simp add: mm0)
  next
    case (Suc k)
    then show ?thesis unfolding Suc mm by (simp add: min_def)
  qed
  have mono: "maxMomentum (reactionWheels ((desaturateWithThrusters [thruster0] ^^ n) acsNegative))
          \<le> maxMomentum
               (reactionWheels ((desaturateWithThrusters [thruster0] ^^ Suc n) acsNegative))"
    for n
  proof (cases n)
    case 0
    then show ?thesis using mm [of 0] by (simp add: mm0 min_def)
  next
    case (Suc k)
    then show ?thesis unfolding Suc mm by (simp add: min_def field_simps)
  qed
  have cur: "rw_currentAngularMomentum
          (hd (reactionWheels ((desaturateWithThrusters [thruster0] ^^ Suc n) acsNegative))) =
            max (- 10) (- 5 - real (Suc n) / 100)" for n
    unfolding desaturate_negative_funpow by (simp add: acs0_def)
  have act: "desaturationActive ((desaturateWithThrusters [thruster0] ^^ Suc n) acsNegative)" for n
    unfolding desaturate_negative_funpow by (simp add: acs0_def)
  from start align ge mono cur act show ?thesis by blast
qed

text \<open>
  For comparison, the wheel at \<open>+5\<close> with a thruster opposing it: every step takes
  \<open>1/100\<close> off, and the 451st step brings the wheel to 0.49 and ends the desaturation.
\<close>

lemma acsPositive_eq:
  "acsPositive = acs0\<lparr>reactionWheels := [wheel0\<lparr>rw_currentAngularMomentum := 5\<rparr>],
     appliedTorques := [Vec3 0 0 (- 300)]\<rparr>"
  by (simp add: acsPositive_def acs0_def wheel0_def applyControlTorque_def
      applyReactionWheelControl_def wheelControl_def reactionTorque_def
      actualTorqueApplied_def dt_ctl_def Let_def)

lemma desaturate_positive_step:
  assumes "1 / 10 < c" "c \<le> 10"
  shows "desaturateWithThrusters [thruster1]
           (acs0\<lparr>reactionWheels := [wheel0\<lparr>rw_currentAngularMomentum := c\<rparr>],
                 appliedTorques := tq, appliedForces := fs, desaturationActive := d\<rparr>) =
         acs0\<lparr>reactionWheels := [wheel0\<lparr>rw_currentAngularMomentum := c - 1 / 100\<rparr>],
               appliedTorques := tq,
               appliedForces := fs @ [(Vec3 0 (- 25) 0, Vec3 1 0 0)],
               desaturationActive := (\<not> c - 1 / 100 < 1 / 2)\<rparr>"
proof -
  have tot: "totalWheelMomentum [wheel0\<lparr>rw_currentAngularMomentum := c\<rparr>] = Vec3 0 0 c"
    by (simp add: totalWheelMomentum_def wheel0_def)
  have len: "vlength (Vec3 0 0 c) = c" using assms by simp
  have unit: "scale (vunit (Vec3 0 0 c)) (- 1) = Vec3 0 0 (- 1)"
    using assms by (simp add: vunit_def len Let_def)
  have bleed: "bleedWheel 1 (wheel0\<lparr>rw_currentAngularMomentum := c\<rparr>) =
      wheel0\<lparr>rw_currentAngularMomentum := c - 1 / 100\<rparr>"
    using assms by (simp add: bleedWheel_def wheel0_def Let_def min_def max_def)
  have mx: "maxMomentum [wheel0\<lparr>rw_currentAngularMomentum := c - 1 / 100\<rparr>] = c - 1 / 100"
    using assms by (simp add: maxMomentum_def max_def)
  show ?thesis
    using assms
    by (simp add: desaturateWithThrusters_def acs0_def Let_def tot len unit
        desatWheelsThruster_def thruster1_def bleed mx)
qed

lemma desaturate_positive_funpow:
  "n \<le> 450 \<Longrightarrow>
   (desaturateWithThrusters [thruster1] ^^ Suc n) acsPositive =
     acs0\<lparr>reactionWheels := [wheel0\<lparr>rw_currentAngularMomentum := 5 - real (Suc n) / 100\<rparr>],
           appliedTorques := [Vec3 0 0 (- 300)],
           appliedForces := replicate (Suc n) (Vec3 0 (- 25) 0, Vec3 1 0 0),
           desaturationActive := (n < 450)\<rparr>"
proof (induction n)
  case 0
  have "desaturateWithThrusters [thruster1]
           (acs0\<lparr>reactionWheels := [wheel0\<lparr>rw_currentAngularMomentum := 5\<rparr>],
                 appliedTorques := [Vec3 0 0 (- 300)], appliedForces := [],
                 desaturationActive := False\<rparr>) =
         acs0\<lparr>reactionWheels := [wheel0\<lparr>rw_currentAngularMomentum := 5 - 1 / 100\<rparr>],
               appliedTorques := [Vec3 0 0 (- 300)],
               appliedForces := [] @ [(Vec3 0 (- 25) 0, Vec3 1 0 0)],
               desaturationActive := (\<not> (5 :: real) - 1 / 100 < 1 / 2)\<rparr>"
    by (rule desaturate_positive_step) simp_all
  then show ?case by (simp add: acsPositive_eq acs0_def)
next
  case (Suc n)
  let ?c = "5 - real (Suc n) / 100"
  from Suc.prems have n: "real n \<le> 449" by simp
  then have c: "1 / 10 < ?c" "?c \<le> 10" by (simp_all add: field_simps)
  have next_c: "?c - 1 / 100 = 5 - real (Suc (Suc n)) / 100"
    by (simp add: field_simps)
  have act: "(\<not> 5 - real (Suc (Suc n)) / 100 < 1 / 2) = (Suc n < 450)"
    using n by (auto simp: field_simps)
  from Suc have ih: "(desaturateWithThrusters [thruster1] ^^ Suc n) acsPositive =
     acs0\<lparr>reactionWheels := [wheel0\<lparr>rw_currentAngularMomentum := ?c\<rparr>],
           appliedTorques := [Vec3 0 0 (- 300)],
           appliedForces := replicate (Suc n) (Vec3 0 (- 25) 0, Vec3 1 0 0),
           desaturationActive := (n < 450)\<rparr>"
    by simp
  have "(desaturateWithThrusters [thruster1] ^^ Suc (Suc n)) acsPositive =
        desaturateWithThrusters [thruster1]
          ((desaturateWithThrusters [thruster1] ^^ Suc n) acsPositive)"
    by simp
  also have "\<dots> = acs0\<lparr>reactionWheels := [wheel0\<lparr>rw_currentAngularMomentum := ?c - 1 / 100\<rparr>],
               appliedTorques := [Vec3 0 0 (- 300)],
               appliedForces := replicate (Suc n) (Vec3 0 (- 25) 0, Vec3 1 0 0)
                                  @ [(Vec3 0 (- 25) 0, Vec3 1 0 0)],
               desaturationActive := (\<not> ?c - 1 / 100 < 1 / 2)\<rparr>"
    unfolding ih by (rule desaturate_positive_step [OF c])
  finally have "(desaturateWithThrusters [thruster1] ^^ Suc (Suc n)) acsPositive =
      acs0\<lparr>reactionWheels := [wheel0\<lparr>rw_currentAngularMomentum := 5 - real (Suc (Suc n)) / 100\<rparr>],
               appliedTorques := [Vec3 0 0 (- 300)],
               appliedForces := replicate (Suc n) (Vec3 0 (- 25) 0, Vec3 1 0 0)
                                  @ [(Vec3 0 (- 25) 0, Vec3 1 0 0)],
               desaturationActive := (Suc n < 450)\<rparr>"
    unfolding next_c act .
  also have "replicate (Suc n) (Vec3 0 (- 25) 0, Vec3 1 0 0) @ [(Vec3 0 (- 25) 0, Vec3 1 0 0)] =
      replicate (Suc (Suc n)) (Vec3 0 (- 25) 0, Vec3 1 0 0)"
    by (simp add: replicate_append_same)
  finally show ?case .
qed

lemma desaturation_ends_for_positive_momentum:
  "rw_currentAngularMomentum
     (hd (reactionWheels ((desaturateWithThrusters [thruster1] ^^ 451) acsPositive))) = 49 / 100 \<and>
   \<not> desaturationActive ((desaturateWithThrusters [thruster1] ^^ 451) acsPositive)"
proof -
  have "(451 :: nat) = Suc 450" by simp
  then show ?thesis
    using desaturate_positive_funpow [of 450] by (simp add: acs0_def)
qed

section \<open>The docking state machine\<close>

lemma animate_beforeDocking: "animate fr s = dockingPhase fr (beforeDocking fr s)"
  by (simp add: animate_def beforeDocking_def Let_def)

lemma controlPhase_flags [simp]:
  "isDocked (controlPhase fr s) = isDocked s"
  "canDock (controlPhase fr s) = canDock s"
  "hasLeftDockingBoxOnce (controlPhase fr s) = hasLeftDockingBoxOnce s"
  "paused (controlPhase fr s) = paused s"
  "undockTime (controlPhase fr s) = undockTime s"
  "pausedStartTime (controlPhase fr s) = pausedStartTime s"
  "accumulatedPausedTime (controlPhase fr s) = accumulatedPausedTime s"
  "lastDockedTime (controlPhase fr s) = lastDockedTime s"
  by (simp_all add: controlPhase_def Let_def)

lemma releaseThrusters_flags [simp]:
  "isDocked (releaseThrusters fr s) = isDocked s"
  "canDock (releaseThrusters fr s) = canDock s"
  "hasLeftDockingBoxOnce (releaseThrusters fr s) = hasLeftDockingBoxOnce s"
  "paused (releaseThrusters fr s) = paused s"
  "undockTime (releaseThrusters fr s) = undockTime s"
  "pausedStartTime (releaseThrusters fr s) = pausedStartTime s"
  "accumulatedPausedTime (releaseThrusters fr s) = accumulatedPausedTime s"
  "lastDockedTime (releaseThrusters fr s) = lastDockedTime s"
  "satBody (releaseThrusters fr s) = satBody s"
  by (simp_all add: releaseThrusters_def Let_def)

lemma beforeDocking_flags [simp]:
  "isDocked (beforeDocking fr s) = isDocked s"
  "canDock (beforeDocking fr s) = canDock s"
  "hasLeftDockingBoxOnce (beforeDocking fr s) = hasLeftDockingBoxOnce s"
  "paused (beforeDocking fr s) = paused s"
  "undockTime (beforeDocking fr s) = undockTime s"
  "pausedStartTime (beforeDocking fr s) = pausedStartTime s"
  "accumulatedPausedTime (beforeDocking fr s) = accumulatedPausedTime s"
  "lastDockedTime (beforeDocking fr s) = lastDockedTime s"
  by (simp_all add: beforeDocking_def)

text \<open>What a frame does to the three docking flags.\<close>

lemma animate_hasLeft:
  "hasLeftDockingBoxOnce (animate fr s) =
     (hasLeftDockingBoxOnce s \<or> \<not> inBox (isInDockingZone (beforeDocking fr s)))"
  by (auto simp: animate_beforeDocking dockingPhase_def Let_def)

lemma animate_isDocked:
  "isDocked (animate fr s) =
     (isDocked s \<or>
      (canDock s \<and> hasLeftDockingBoxOnce s \<and> allCriteria (isInDockingZone (beforeDocking fr s))))"
  by (auto simp: animate_beforeDocking dockingPhase_def Let_def allCriteria_def)

lemma animate_canDock:
  "canDock (animate fr s) = (canDock s \<or> \<not> inBox (isInDockingZone (beforeDocking fr s)))"
  by (auto simp: animate_beforeDocking dockingPhase_def Let_def)

lemma animate_docks_velocity:
  assumes "\<not> isDocked s" "isDocked (animate fr s)"
  shows "velocity (satBody (animate fr s)) = Vec3 0 0 0 \<and>
         angularVelocity (satBody (animate fr s)) = Vec3 0 0 0 \<and> paused (animate fr s)"
  using assms by (auto simp: animate_beforeDocking dockingPhase_def Let_def split: if_splits)

lemma keyPause_flags:
  "isDocked (keyPause t s) = (isDocked s \<and> \<not> paused s)"
  "hasLeftDockingBoxOnce (keyPause t s) = (hasLeftDockingBoxOnce s \<or> (isDocked s \<and> paused s))"
  "canDock (keyPause t s) = (canDock s \<and> \<not> (isDocked s \<and> paused s))"
  "paused (keyPause t s) = (\<not> paused s)"
  by (auto simp: keyPause_def Let_def split: option.splits)

lemma stopEverything_flags [simp]:
  "isDocked (stopEverything s) = isDocked s"
  "hasLeftDockingBoxOnce (stopEverything s) = hasLeftDockingBoxOnce s"
  "canDock (stopEverything s) = canDock s"
  "paused (stopEverything s) = paused s"
  by (simp_all add: stopEverything_def)

lemma resetSimulation_flags [simp]:
  "isDocked (resetSimulation s)"
  "\<not> hasLeftDockingBoxOnce (resetSimulation s)"
  "\<not> canDock (resetSimulation s)"
  "paused (resetSimulation s)"
  by (simp_all add: resetSimulation_def)

lemma run_Nil [simp]: "run [] s = s"
  by (simp add: run_def)

lemma run_Cons [simp]: "run (e # es) s = run es (step e s)"
  by (simp add: run_def)

lemma run_append [simp]: "run (es @ es') s = run es' (run es s)"
  by (simp add: run_def)

text \<open>The body and the reference the docking test of a frame reads.\<close>

lemma controlPhase_body: "satBody (controlPhase fr s) = worldStep fr (satBody s)"
  by (simp add: controlPhase_def Let_def)

lemma beforeDocking_body:
  "satBody (beforeDocking fr s) = (if paused s then satBody s else worldStep fr (satBody s))"
  by (simp add: beforeDocking_def controlPhase_body)

lemma sameReference_refl [simp]: "sameReference s s"
  by (simp add: sameReference_def)

lemma sameReference_trans: "sameReference s s' \<Longrightarrow> sameReference s' s'' \<Longrightarrow> sameReference s s''"
  by (simp add: sameReference_def)

lemma controlPhase_reference [simp]: "sameReference (controlPhase fr s) s' = sameReference s s'"
  by (simp add: sameReference_def controlPhase_def Let_def)

lemma releaseThrusters_reference [simp]:
  "sameReference (releaseThrusters fr s) s' = sameReference s s'"
  by (simp add: sameReference_def releaseThrusters_def Let_def)

lemma beforeDocking_reference [simp]: "sameReference (beforeDocking fr s) s' = sameReference s s'"
  by (simp add: beforeDocking_def)

lemma dockingPhase_reference [simp]: "sameReference (dockingPhase fr s) s' = sameReference s s'"
  by (simp add: sameReference_def dockingPhase_def Let_def)

lemma step_reference [simp]: "sameReference (step e s) s' = sameReference s s'"
proof (cases e)
  case (KeyPause t)
  then show ?thesis by (simp add: sameReference_def keyPause_def Let_def split: option.splits)
next
  case KeyReset
  then show ?thesis by (simp add: sameReference_def resetSimulation_def)
next
  case KeyStop
  then show ?thesis by (simp add: sameReference_def stopEverything_def)
next
  case KeyToggleMode
  then show ?thesis by (simp add: sameReference_def)
next
  case KeyDesaturate
  then show ?thesis by (simp add: sameReference_def)
next
  case (Frame fr)
  then show ?thesis by (simp add: animate_beforeDocking)
qed

lemma keyPause_reference [simp]: "sameReference (keyPause t s) s' = sameReference s s'"
  using step_reference [of "KeyPause t" s s'] by simp

lemma stopEverything_reference [simp]: "sameReference (stopEverything s) s' = sameReference s s'"
  using step_reference [of KeyStop s s'] by simp

lemma animate_reference [simp]: "sameReference (animate fr s) s' = sameReference s s'"
  using step_reference [of "Frame fr" s s'] by simp

lemma isInDockingZone_cong:
  "sameReference s s' \<Longrightarrow> satBody s = satBody s' \<Longrightarrow> isInDockingZone s = isInDockingZone s'"
  by (simp add: sameReference_def isInDockingZone_def)

text \<open>
  The docking test at the default reference, for a body at the reference attitude and at
  rest in rotation, displaced by \<open>dz\<close> along \<open>z\<close> and moving at \<open>a\<close> along \<open>x\<close>.
\<close>

lemma angleTo_default:
  "angleTo \<lparr>qx = - (sqrt 2 / 2), qy = 0, qz = 0, qw = sqrt 2 / 2\<rparr>
           \<lparr>qx = - (sqrt 2 / 2), qy = 0, qz = 0, qw = sqrt 2 / 2\<rparr> = 0"
proof -
  have "sqrt 2 / 2 * (sqrt 2 / 2) = (1 / 2 :: real)"
    by (simp add: field_simps)
  then show ?thesis by (simp add: angleTo_def Let_def)
qed

lemma zone_eval:
  assumes "sameReference s sim0"
    and "satBody s = body0\<lparr>position := Vec3 0 (- 3) (11 / 2 + dz), velocity := Vec3 a 0 0\<rparr>"
  shows "inBox (isInDockingZone s) = (\<bar>dz\<bar> \<le> 1 / 10)"
    and "inAngle (isInDockingZone s)"
    and "withinSpeedLimits (isInDockingZone s) = (\<bar>a\<bar> \<le> 1 / 10)"
    and "withinAngularSpeedLimit (isInDockingZone s)"
proof -
  let ?s = "sim0\<lparr>satBody := body0\<lparr>position := Vec3 0 (- 3) (11 / 2 + dz), velocity := Vec3 a 0 0\<rparr>\<rparr>"
  have eq: "isInDockingZone s = isInDockingZone ?s"
    using assms by (intro isInDockingZone_cong) (simp_all add: sameReference_def)
  show "inBox (isInDockingZone s) = (\<bar>dz\<bar> \<le> 1 / 10)"
    unfolding eq by (simp add: isInDockingZone_def sim0_def body0_def Let_def)
  show "inAngle (isInDockingZone s)"
    unfolding eq by (simp add: isInDockingZone_def sim0_def body0_def Let_def angleTo_default)
  show "withinSpeedLimits (isInDockingZone s) = (\<bar>a\<bar> \<le> 1 / 10)"
    unfolding eq
    by (simp add: isInDockingZone_def sim0_def body0_def Let_def MAX_XZ_SPEED_def MAX_Z_SPEED_def)
  show "withinAngularSpeedLimit (isInDockingZone s)"
    unfolding eq
    by (simp add: isInDockingZone_def sim0_def body0_def Let_def MAX_ANGULAR_SPEED_def)
qed

lemma zone_body0:
  assumes "sameReference s sim0" "satBody s = body0"
  shows "allCriteria (isInDockingZone s)"
proof -
  have "satBody s = body0\<lparr>position := Vec3 0 (- 3) (11 / 2 + 0), velocity := Vec3 0 0 0\<rparr>"
    using assms(2) by (simp add: body0_def)
  from zone_eval [OF assms(1) this] show ?thesis by (simp add: allCriteria_def)
qed

lemma zone_bodyOut:
  assumes "sameReference s sim0" "satBody s = bodyOut"
  shows "\<not> inBox (isInDockingZone s)"
proof -
  have "satBody s = body0\<lparr>position := Vec3 0 (- 3) (11 / 2 + 1), velocity := Vec3 0 0 0\<rparr>"
    using assms(2) by (simp add: body0_def bodyOut_def)
  from zone_eval(1) [OF assms(1) this] show ?thesis by simp
qed

lemma zone_bodyFast:
  assumes "sameReference s sim0" "satBody s = bodyFast"
  shows "inBox (isInDockingZone s) \<and> \<not> allCriteria (isInDockingZone s)"
proof -
  have "satBody s = body0\<lparr>position := Vec3 0 (- 3) (11 / 2 + 0), velocity := Vec3 (1 / 5) 0 0\<rparr>"
    using assms(2) by (simp add: body0_def bodyFast_def)
  from zone_eval(1,3) [OF assms(1) this] show ?thesis by (simp add: allCriteria_def)
qed

text \<open>What the key handler, the space bar and a frame do to the clock fields and the body.\<close>

lemma keyPause_clock:
  "undockTime (keyPause t s) = (if isDocked s \<and> paused s then Some t else undockTime s)"
  "pausedStartTime (keyPause t s) = (if paused s then None else Some t)"
  "accumulatedPausedTime (keyPause t s) =
     (if paused s
      then (case pausedStartTime s of
              Some p \<Rightarrow> (if isDocked s then 0 else accumulatedPausedTime s) + (t - p)
            | None \<Rightarrow> (if isDocked s then 0 else accumulatedPausedTime s))
      else accumulatedPausedTime s)"
  "lastDockedTime (keyPause t s) = lastDockedTime s"
  "satBody (keyPause t s) = satBody s"
  by (auto simp: keyPause_def Let_def split: option.splits)

lemma stopEverything_clock [simp]:
  "undockTime (stopEverything s) = undockTime s"
  "pausedStartTime (stopEverything s) = pausedStartTime s"
  "accumulatedPausedTime (stopEverything s) = accumulatedPausedTime s"
  "lastDockedTime (stopEverything s) = lastDockedTime s"
  "satBody (stopEverything s) =
     (satBody s)\<lparr>velocity := Vec3 0 0 0, angularVelocity := Vec3 0 0 0\<rparr>"
  by (simp_all add: stopEverything_def)

lemma animate_docks: "isDocked (animate fr s) = (isDocked s \<or> docks fr s)"
  by (auto simp: animate_isDocked docks_def)

lemma animate_clock:
  "paused (animate fr s) = (paused s \<or> docks fr s)"
  "undockTime (animate fr s) = undockTime s"
  "pausedStartTime (animate fr s) = pausedStartTime s"
  "accumulatedPausedTime (animate fr s) = accumulatedPausedTime s"
  "lastDockedTime (animate fr s) =
     (if docks fr s
      then (case pausedStartTime s of Some t \<Rightarrow> t | None \<Rightarrow> now fr)
             - (case undockTime s of Some u \<Rightarrow> u | None \<Rightarrow> 0) - accumulatedPausedTime s
      else lastDockedTime s)"
  "satBody (animate fr s) =
     (if docks fr s
      then (satBody (beforeDocking fr s))\<lparr>velocity := Vec3 0 0 0, angularVelocity := Vec3 0 0 0\<rparr>
      else satBody (beforeDocking fr s))"
  by (auto simp: animate_beforeDocking dockingPhase_def Let_def docks_def allCriteria_def)

lemma coast_fields [simp]: "now (coast t b) = t" "worldStep (coast t b) x = b"
  by (simp_all add: coast_def)

text \<open>
  The example run, state by state: undocked at time 0 and running; outside the box after
  the first frame; back at the reference pose but too fast after the second.
\<close>

lemma state_undocked:
  defines "s \<equiv> step (KeyPause 0) sim0"
  shows "\<not> isDocked s" "\<not> canDock s" "hasLeftDockingBoxOnce s" "\<not> paused s"
    "undockTime s = Some 0" "pausedStartTime s = None" "accumulatedPausedTime s = 0"
    "satBody s = body0" "sameReference s sim0"
  unfolding s_def
  by (simp_all add: keyPause_flags keyPause_clock) (simp_all add: sim0_def)

lemma state_outside:
  defines "s \<equiv> run [KeyPause 0, Frame (coast 60000 bodyOut)] sim0"
  shows "\<not> isDocked s" "canDock s" "hasLeftDockingBoxOnce s" "\<not> paused s"
    "undockTime s = Some 0" "pausedStartTime s = None" "accumulatedPausedTime s = 0"
    "satBody s = bodyOut" "sameReference s sim0"
    "\<not> inBox (isInDockingZone (beforeDocking (coast 60000 bodyOut) (step (KeyPause 0) sim0)))"
proof -
  let ?p = "step (KeyPause 0) sim0"
  let ?b = "beforeDocking (coast 60000 bodyOut) ?p"
  have b: "satBody ?b = bodyOut" "sameReference ?b sim0"
    using state_undocked by (simp_all add: beforeDocking_body)
  then show out: "\<not> inBox (isInDockingZone ?b)"
    using zone_bodyOut by blast
  then have nd: "\<not> docks (coast 60000 bodyOut) ?p"
    by (simp add: docks_def allCriteria_def)
  show "\<not> isDocked s" "canDock s" "hasLeftDockingBoxOnce s" "\<not> paused s"
    "undockTime s = Some 0" "pausedStartTime s = None" "accumulatedPausedTime s = 0"
    "satBody s = bodyOut" "sameReference s sim0"
    unfolding s_def using state_undocked nd out b
    by (simp_all add: animate_docks animate_clock animate_canDock animate_hasLeft)
qed

lemma state_back_fast:
  defines "s \<equiv> run [KeyPause 0, Frame (coast 60000 bodyOut), Frame (coast 120000 bodyFast)] sim0"
  shows "\<not> isDocked s" "canDock s" "hasLeftDockingBoxOnce s" "\<not> paused s"
    "undockTime s = Some 0" "pausedStartTime s = None" "accumulatedPausedTime s = 0"
    "satBody s = bodyFast" "sameReference s sim0"
    "inBox (isInDockingZone (beforeDocking (coast 120000 bodyFast)
       (run [KeyPause 0, Frame (coast 60000 bodyOut)] sim0)))"
proof -
  let ?p = "run [KeyPause 0, Frame (coast 60000 bodyOut)] sim0"
  let ?b = "beforeDocking (coast 120000 bodyFast) ?p"
  have b: "satBody ?b = bodyFast" "sameReference ?b sim0"
    using state_outside by (simp_all add: beforeDocking_body)
  then have z: "inBox (isInDockingZone ?b)" "\<not> allCriteria (isInDockingZone ?b)"
    using zone_bodyFast by blast+
  then show "inBox (isInDockingZone ?b)" by simp
  from z have nd: "\<not> docks (coast 120000 bodyFast) ?p"
    by (simp add: docks_def)
  have s: "s = animate (coast 120000 bodyFast) ?p" by (simp add: s_def)
  show "\<not> isDocked s" "canDock s" "hasLeftDockingBoxOnce s" "\<not> paused s"
    "undockTime s = Some 0" "pausedStartTime s = None" "accumulatedPausedTime s = 0"
    "satBody s = bodyFast" "sameReference s sim0"
    unfolding s using state_outside(1-9) nd b
    by (simp_all add: animate_docks animate_clock animate_canDock animate_hasLeft)
qed

section \<open>The latch \<open>hasLeftDockingBoxOnce\<close>\<close>

lemma step_toggle_flags [simp]:
  "isDocked (step KeyToggleMode s) = isDocked s"
  "canDock (step KeyToggleMode s) = canDock s"
  "hasLeftDockingBoxOnce (step KeyToggleMode s) = hasLeftDockingBoxOnce s"
  "paused (step KeyToggleMode s) = paused s"
  by simp_all

lemma step_desaturate_flags [simp]:
  "isDocked (step KeyDesaturate s) = isDocked s"
  "canDock (step KeyDesaturate s) = canDock s"
  "hasLeftDockingBoxOnce (step KeyDesaturate s) = hasLeftDockingBoxOnce s"
  "paused (step KeyDesaturate s) = paused s"
  by simp_all

declare step.simps(4,5) [simp del]

text \<open>
  Claim C4 as the code has it. The latch is set by every frame that finds the vehicle
  outside the box and by the undocking itself; a reset clears it, and nothing else changes
  it. A frame docks only with the latch set and with \<open>canDock\<close>, which the undocking clears
  and the first frame outside the box sets again.
\<close>

theorem latch_set_and_cleared:
  "hasLeftDockingBoxOnce (step e s) =
     (case e of
        KeyReset \<Rightarrow> False
      | KeyPause t \<Rightarrow> hasLeftDockingBoxOnce s \<or> (isDocked s \<and> paused s)
      | Frame fr \<Rightarrow> hasLeftDockingBoxOnce s \<or> \<not> inBox (isInDockingZone (beforeDocking fr s))
      | _ \<Rightarrow> hasLeftDockingBoxOnce s) \<and>
   (\<not> isDocked s \<and> isDocked (step e s) \<and> e \<noteq> KeyReset \<longrightarrow>
      hasLeftDockingBoxOnce s \<and> canDock s \<and> (\<exists>fr. e = Frame fr)) \<and>
   canDock (step e s) =
     (case e of
        KeyReset \<Rightarrow> False
      | KeyPause t \<Rightarrow> canDock s \<and> \<not> (isDocked s \<and> paused s)
      | Frame fr \<Rightarrow> canDock s \<or> \<not> inBox (isInDockingZone (beforeDocking fr s))
      | _ \<Rightarrow> canDock s)"
proof (cases e)
  case (KeyPause t)
  then show ?thesis by (simp add: keyPause_flags)
next
  case (Frame fr)
  then show ?thesis by (auto simp: animate_hasLeft animate_canDock animate_isDocked)
qed simp_all

text \<open>
  The claim as written fails: undocking from the initial state, where the latch is clear,
  leaves it set.
\<close>

theorem latch_set_by_undock:
  "isDocked sim0 \<and> paused sim0 \<and> \<not> hasLeftDockingBoxOnce sim0 \<and>
   \<not> isDocked (step (KeyPause 0) sim0) \<and> hasLeftDockingBoxOnce (step (KeyPause 0) sim0)"
  by (simp add: keyPause_flags) (simp add: sim0_def)

lemma state_back_fast_docks: "docks (coast 120016 body0)
    (run [KeyPause 0, Frame (coast 60000 bodyOut), Frame (coast 120000 bodyFast)] sim0)"
proof -
  let ?p = "run [KeyPause 0, Frame (coast 60000 bodyOut), Frame (coast 120000 bodyFast)] sim0"
  have "satBody (beforeDocking (coast 120016 body0) ?p) = body0"
    "sameReference (beforeDocking (coast 120016 body0) ?p) sim0"
    using state_back_fast(4,9) by (simp_all add: beforeDocking_body)
  then have "allCriteria (isInDockingZone (beforeDocking (coast 120016 body0) ?p))"
    by (rule zone_body0 [rotated])
  with state_back_fast(1-3) show ?thesis by (simp add: docks_def)
qed

theorem latch_set_and_cleared_witness:
  "\<not> isDocked (run [KeyPause 0, Frame (coast 60000 bodyOut), Frame (coast 120000 bodyFast)] sim0) \<and>
   isDocked (step (Frame (coast 120016 body0))
     (run [KeyPause 0, Frame (coast 60000 bodyOut), Frame (coast 120000 bodyFast)] sim0)) \<and>
   Frame (coast 120016 body0) \<noteq> KeyReset \<and>
   hasLeftDockingBoxOnce
     (run [KeyPause 0, Frame (coast 60000 bodyOut), Frame (coast 120000 bodyFast)] sim0) \<and>
   canDock (run [KeyPause 0, Frame (coast 60000 bodyOut), Frame (coast 120000 bodyFast)] sim0) \<and>
   \<not> hasLeftDockingBoxOnce (step KeyReset
     (run [KeyPause 0, Frame (coast 60000 bodyOut), Frame (coast 120000 bodyFast)] sim0))"
proof -
  let ?p = "run [KeyPause 0, Frame (coast 60000 bodyOut), Frame (coast 120000 bodyFast)] sim0"
  have h: "\<not> isDocked ?p" by (rule state_back_fast(1))
  have d: "isDocked (step (Frame (coast 120016 body0)) ?p)"
    using state_back_fast_docks by (simp add: animate_docks)
  from latch_set_and_cleared [of "Frame (coast 120016 body0)" ?p]
       latch_set_and_cleared [of KeyReset ?p] h d
  show ?thesis by simp
qed

section \<open>Docking needs a trip outside the box\<close>

lemma step_undocked_flags:
  assumes "e \<noteq> KeyReset" "\<not> isDocked s"
  shows "hasLeftDockingBoxOnce s \<longrightarrow> hasLeftDockingBoxOnce (step e s)"
    and "canDock s \<longrightarrow> canDock (step e s)"
  using assms by (cases e; simp add: keyPause_flags animate_hasLeft animate_canDock)+

lemma undocked_run:
  assumes "KeyReset \<notin> set es" "undockedThroughout es s" "hasLeftDockingBoxOnce s"
  shows "hasLeftDockingBoxOnce (run es s) \<and> \<not> isDocked (run es s) \<and>
         (canDock s \<or> \<not> staysInBox es s \<longrightarrow> canDock (run es s))"
  using assms
proof (induction es arbitrary: s)
  case Nil
  then show ?case by simp
next
  case (Cons e es)
  from Cons.prems have e: "e \<noteq> KeyReset" and nr: "KeyReset \<notin> set es"
    and u: "\<not> isDocked s" and ut: "undockedThroughout es (step e s)"
    by auto
  have hl: "hasLeftDockingBoxOnce (step e s)"
    using step_undocked_flags(1) [OF e u] Cons.prems(3) by simp
  note ih = Cons.IH [OF nr ut hl]
  have cd: "canDock (step e s)" if "canDock s \<or> \<not> staysInBox (e # es) s" "staysInBox es (step e s)"
  proof (cases "canDock s")
    case True
    then show ?thesis using step_undocked_flags(2) [OF e u] by simp
  next
    case False
    with that obtain fr where fr: "e = Frame fr"
      and out: "\<not> inBox (isInDockingZone (beforeDocking fr s))"
      by (cases e) auto
    then show ?thesis by (simp add: animate_canDock)
  qed
  show ?case
  proof (intro conjI impI)
    show "hasLeftDockingBoxOnce (run (e # es) s)" using ih by simp
    show "\<not> isDocked (run (e # es) s)" using ih by simp
    assume a: "canDock s \<or> \<not> staysInBox (e # es) s"
    show "canDock (run (e # es) s)"
    proof (cases "staysInBox es (step e s)")
      case True
      from cd [OF a True] ih show ?thesis by simp
    next
      case False
      with ih show ?thesis by simp
    qed
  qed
qed

lemma staysInBox_run:
  assumes "KeyReset \<notin> set es" "\<not> isDocked s" "\<not> canDock s" "staysInBox es s"
  shows "\<not> isDocked (run es s) \<and> \<not> canDock (run es s)"
  using assms
proof (induction es arbitrary: s)
  case Nil
  then show ?case by simp
next
  case (Cons e es)
  from Cons.prems have e: "e \<noteq> KeyReset" and nr: "KeyReset \<notin> set es"
    and st: "staysInBox es (step e s)"
    by auto
  have "\<not> isDocked (step e s) \<and> \<not> canDock (step e s)"
    using Cons.prems e
    by (cases e) (auto simp: keyPause_flags animate_isDocked animate_canDock)
  with Cons.IH [OF nr _ _ st] show ?case by simp
qed

text \<open>
  Claim C5. Start docked (and paused, as a docked vehicle is) and undock. If, with no reset
  and no docking in between, some frame has found the vehicle outside the box, then the
  frame that finds all four criteria met docks the vehicle and zeroes both velocities. If
  every frame so far has found the vehicle inside the box, the vehicle is still undocked,
  whatever the other criteria were.
\<close>

theorem docking_round_trip:
  assumes "isDocked s0" and "paused s0" and "KeyReset \<notin> set es"
  shows "(undockedThroughout es (keyPause t0 s0) \<and> \<not> staysInBox es (keyPause t0 s0) \<and>
          allCriteria (isInDockingZone (beforeDocking fr (run es (keyPause t0 s0)))) \<longrightarrow>
            isDocked (animate fr (run es (keyPause t0 s0))) \<and>
            velocity (satBody (animate fr (run es (keyPause t0 s0)))) = Vec3 0 0 0 \<and>
            angularVelocity (satBody (animate fr (run es (keyPause t0 s0)))) = Vec3 0 0 0) \<and>
         (staysInBox es (keyPause t0 s0) \<longrightarrow> \<not> isDocked (run es (keyPause t0 s0)))"
proof (intro conjI impI)
  let ?s1 = "keyPause t0 s0"
  have s1: "\<not> isDocked ?s1" "hasLeftDockingBoxOnce ?s1" "\<not> canDock ?s1"
    using assms(1,2) by (simp_all add: keyPause_flags)
  {
    assume a: "undockedThroughout es ?s1 \<and> \<not> staysInBox es ?s1 \<and>
          allCriteria (isInDockingZone (beforeDocking fr (run es ?s1)))"
    from undocked_run [OF assms(3) _ s1(2), of] a
    have r: "hasLeftDockingBoxOnce (run es ?s1)" "\<not> isDocked (run es ?s1)" "canDock (run es ?s1)"
      by simp_all
    with a have d: "isDocked (animate fr (run es ?s1))"
      by (simp add: animate_isDocked)
    from animate_docks_velocity [OF r(2) d] d
    show "isDocked (animate fr (run es ?s1))"
      and "velocity (satBody (animate fr (run es ?s1))) = Vec3 0 0 0"
      and "angularVelocity (satBody (animate fr (run es ?s1))) = Vec3 0 0 0"
      by simp_all
  }
  assume "staysInBox es ?s1"
  from staysInBox_run [OF assms(3) s1(1) s1(3) this]
  show "\<not> isDocked (run es ?s1)" by simp
qed

theorem docking_round_trip_witness:
  "isDocked sim0 \<and> paused sim0 \<and> KeyReset \<notin> set roundTrip \<and>
   undockedThroughout roundTrip (keyPause 0 sim0) \<and> \<not> staysInBox roundTrip (keyPause 0 sim0) \<and>
   allCriteria (isInDockingZone (beforeDocking (coast 120016 body0) (run roundTrip (keyPause 0 sim0)))) \<and>
   isDocked (animate (coast 120016 body0) (run roundTrip (keyPause 0 sim0))) \<and>
   velocity (satBody (animate (coast 120016 body0) (run roundTrip (keyPause 0 sim0)))) = Vec3 0 0 0 \<and>
   angularVelocity (satBody (animate (coast 120016 body0) (run roundTrip (keyPause 0 sim0))))
     = Vec3 0 0 0 \<and>
   KeyReset \<notin> set [Frame (coast 16 body0)] \<and>
   staysInBox [Frame (coast 16 body0)] (keyPause 0 sim0) \<and>
   allCriteria (isInDockingZone (beforeDocking (coast 16 body0) (keyPause 0 sim0))) \<and>
   \<not> isDocked (run [Frame (coast 16 body0)] (keyPause 0 sim0))"
proof -
  have h1: "isDocked sim0" and h2: "paused sim0" by (simp_all add: sim0_def)
  have h3: "KeyReset \<notin> set roundTrip" by (simp add: roundTrip_def)
  have u: "undockedThroughout roundTrip (keyPause 0 sim0)"
    using state_undocked(1) state_outside(1) state_back_fast(1) by (simp add: roundTrip_def)
  have o: "\<not> staysInBox roundTrip (keyPause 0 sim0)"
    using state_outside(10) by (simp add: roundTrip_def)
  have c: "allCriteria (isInDockingZone (beforeDocking (coast 120016 body0)
             (run roundTrip (keyPause 0 sim0))))"
    using state_back_fast_docks by (simp add: docks_def roundTrip_def)
  have h3': "KeyReset \<notin> set [Frame (coast 16 body0)]" by simp
  have "satBody (beforeDocking (coast 16 body0) (keyPause 0 sim0)) = body0"
    "sameReference (beforeDocking (coast 16 body0) (keyPause 0 sim0)) sim0"
    using state_undocked(4,9) by (simp_all add: beforeDocking_body)
  then have c': "allCriteria (isInDockingZone (beforeDocking (coast 16 body0) (keyPause 0 sim0)))"
    by (rule zone_body0 [rotated])
  then have i: "staysInBox [Frame (coast 16 body0)] (keyPause 0 sim0)"
    by (simp add: allCriteria_def)
  from docking_round_trip [OF h1 h2 h3, of 0 "coast 120016 body0"]
       docking_round_trip [OF h1 h2 h3', of 0 "coast 120016 body0"]
       h1 h2 h3 u o c h3' i c'
  show ?thesis by blast
qed

section \<open>The clock since undocking\<close>

text \<open>
  What the clock does right. From an undocked, running state, the clock stands still while
  paused, at the value it had when the pause began, and a pause followed by a resume
  leaves the shown time where it was. After an undocking with no pause on record the clock
  shows the time since the undocking.
\<close>

lemma clock_frozen_while_paused:
  assumes "\<not> isDocked s" "\<not> paused s" "undockTime s = Some u"
  shows "elapsedMilliseconds t (keyPause t1 s) = elapsedMilliseconds t1 s"
  using assms
  by (simp add: elapsedMilliseconds_def keyPause_flags keyPause_clock Let_def split: option.splits)

lemma clock_unchanged_by_pause_resume:
  assumes "\<not> isDocked s" "\<not> paused s" "undockTime s = Some u"
  shows "elapsedMilliseconds t2 (keyPause t2 (keyPause t1 s)) = elapsedMilliseconds t1 s"
  using assms
  by (simp add: elapsedMilliseconds_def keyPause_flags keyPause_clock Let_def split: option.splits)

lemma clock_after_undock:
  assumes "isDocked s" "paused s" "pausedStartTime s = None"
  shows "elapsedMilliseconds t (keyPause t0 s) = t - t0"
  using assms
  by (simp add: elapsedMilliseconds_def keyPause_flags keyPause_clock Let_def)

text \<open>The rest of the example run: pause, stop, the frame that docks, and the second undocking.\<close>

lemma state_docked_paused:
  defines "s \<equiv> run (take 6 pausedDockTrace) sim0"
  shows "isDocked s" "paused s" "undockTime s = Some 0" "pausedStartTime s = Some 120008"
    "accumulatedPausedTime s = 0" "lastDockedTime s = 120008"
proof -
  let ?s3 = "run [KeyPause 0, Frame (coast 60000 bodyOut), Frame (coast 120000 bodyFast)] sim0"
  let ?s5 = "stopEverything (keyPause 120008 ?s3)"
  have s5: "\<not> isDocked ?s5" "canDock ?s5" "hasLeftDockingBoxOnce ?s5" "paused ?s5"
    "undockTime ?s5 = Some 0" "pausedStartTime ?s5 = Some 120008" "accumulatedPausedTime ?s5 = 0"
    "sameReference ?s5 sim0"
    using state_back_fast(1-9) by (simp_all add: keyPause_flags keyPause_clock)
  have b5: "satBody ?s5 = body0"
    using state_back_fast(8) by (simp add: keyPause_clock bodyFast_def body0_def)
  have "satBody (beforeDocking (coast 120016 bodyFast) ?s5) = body0"
    "sameReference (beforeDocking (coast 120016 bodyFast) ?s5) sim0"
    using s5(4,8) b5 by (simp_all add: beforeDocking_body)
  then have "allCriteria (isInDockingZone (beforeDocking (coast 120016 bodyFast) ?s5))"
    by (rule zone_body0 [rotated])
  with s5 have d: "docks (coast 120016 bodyFast) ?s5" by (simp add: docks_def)
  have s: "s = animate (coast 120016 bodyFast) ?s5"
    by (simp add: s_def pausedDockTrace_def)
  show "isDocked s" "paused s" "undockTime s = Some 0" "pausedStartTime s = Some 120008"
    "accumulatedPausedTime s = 0" "lastDockedTime s = 120008"
    unfolding s using d s5 by (simp_all add: animate_docks animate_clock)
qed

lemma pausedDockTrace_split:
  "run pausedDockTrace sim0 = keyPause 124008 (run (take 6 pausedDockTrace) sim0)"
  by (simp add: pausedDockTrace_def)

lemma clockFields_minus_3000: "clockFields (- 3000) = (- 1, - 1, - 3, 0)"
proof -
  have c: "\<lceil>- (1 / 1200) :: real\<rceil> = 0" "\<lceil>- (1 / 20) :: real\<rceil> = 0"
    by (rule ceiling_unique; simp)+
  have a: "js_rem (- 3) 3600 = - 3" "js_rem (- 3) 60 = - 3" "js_rem (- 3000) 1000 = 0"
    by (simp_all add: js_rem_def c)
  show ?thesis by (simp add: clockFields_def Let_def a)
qed

text \<open>
  Claim C6 fails on the code. In the example run the vehicle is docked while paused (the
  pause begun at 120008 ms is still on record), and the second undocking, at 124008 ms, first
  sets the pause account to zero and then adds the 4000 ms since that old pause began. One
  second later, with no pause since the undocking, the clock shows \<open>-3000\<close> ms, printed
  as \<open>-1:-1:-3.000\<close>, where the time since undocking less the time paused is 1000 ms.
\<close>

theorem clock_counts_pause_from_before_undock:
  "isDocked (run (take 6 pausedDockTrace) sim0) \<and>
   paused (run (take 6 pausedDockTrace) sim0) \<and>
   pausedStartTime (run (take 6 pausedDockTrace) sim0) = Some 120008 \<and>
   \<not> isDocked (run pausedDockTrace sim0) \<and>
   \<not> paused (run pausedDockTrace sim0) \<and>
   undockTime (run pausedDockTrace sim0) = Some 124008 \<and>
   pausedStartTime (run pausedDockTrace sim0) = None \<and>
   accumulatedPausedTime (run pausedDockTrace sim0) = 4000 \<and>
   elapsedMilliseconds 125008 (run pausedDockTrace sim0) = - 3000 \<and>
   updateClock 125008 (run pausedDockTrace sim0) = (- 1, - 1, - 3, 0)"
proof -
  let ?s = "run pausedDockTrace sim0"
  have f: "\<not> isDocked ?s" "\<not> paused ?s" "undockTime ?s = Some 124008"
    "pausedStartTime ?s = None" "accumulatedPausedTime ?s = 4000"
    unfolding pausedDockTrace_split using state_docked_paused
    by (simp_all add: keyPause_flags keyPause_clock)
  then have e: "elapsedMilliseconds 125008 ?s = - 3000"
    by (simp add: elapsedMilliseconds_def)
  then have "updateClock 125008 ?s = (- 1, - 1, - 3, 0)"
    by (simp add: updateClock_def clockFields_minus_3000)
  with f e state_docked_paused(1,2,4) show ?thesis by simp
qed

section \<open>Automatic key binding\<close>

lemma mem_cond_key:
  "k \<in> set (if c then [if b then x else y] else []) \<longleftrightarrow> c \<and> k = (if b then x else y)"
  by (cases c; cases b; simp)

lemma autoBindKeys_mem:
  "k \<in> set (autoBindKeys p d) \<longleftrightarrow>
     (jsGt (jsAbs (jsDot d (Fin 0, Fin 0, Fin 1))) TRANSLATION_TOLERANCE \<and>
        k = (if jsGt (jz d) (Fin 0) then ''w'' else ''s'')) \<or>
     (jsGt (jsAbs (jsDot d (Fin 1, Fin 0, Fin 0))) TRANSLATION_TOLERANCE \<and>
        k = (if jsGt (jx d) (Fin 0) then ''a'' else ''d'')) \<or>
     (jsGt (jsAbs (jsDot d (Fin 0, Fin 1, Fin 0))) TRANSLATION_TOLERANCE \<and>
        k = (if jsGt (jy d) (Fin 0) then ''e'' else ''q'')) \<or>
     (jsGt (jsAbs (jx (jsCross p d))) (literal (25 / 1000)) \<and>
        k = (if jsGt (jx (jsCross p d)) (Fin 0) then ''k'' else ''i'')) \<or>
     (jsGt (jsAbs (jy (jsCross p d))) (literal (25 / 1000)) \<and>
        k = (if jsGt (jy (jsCross p d)) (Fin 0) then ''j'' else ''l'')) \<or>
     (jsGt (jsAbs (jz (jsCross p d))) (literal (25 / 1000)) \<and>
        k = (if jsGt (jz (jsCross p d)) (Fin 0) then ''o'' else ''u''))"
  by (simp only: autoBindKeys_def Let_def set_append Un_iff mem_cond_key)

lemma autoBindKeys_channels: "set (autoBindKeys p d) \<subseteq> set channelKeys"
proof
  fix k
  assume "k \<in> set (autoBindKeys p d)"
  then have "k \<in> {''w'', ''s'', ''a'', ''d'', ''e'', ''q'', ''k'', ''i'', ''j'', ''l'', ''o'', ''u''}"
    unfolding autoBindKeys_mem by (auto split: if_splits)
  then show "k \<in> set channelKeys"
    by (auto simp: channelKeys_def emptyChannels_def)
qed

lemma autoBindKeys_distinct: "distinct (autoBindKeys p d)"
proof -
  have s: "set (if c then [if b then x else y] else []) \<subseteq> {x, y}" for c b and x y :: string
    by auto
  have d: "distinct (if c then [if b then x else y] else [])" for c b and x y :: string
    by simp
  have app: "distinct (xs @ ys)" if "distinct xs" "distinct ys" "set xs \<subseteq> A" "set ys \<subseteq> B" "A \<inter> B = {}"
    for xs ys :: "string list" and A B
    using that by auto
  have un: "set (xs @ ys) \<subseteq> A \<union> B" if "set xs \<subseteq> A" "set ys \<subseteq> B" for xs ys :: "string list" and A B
    using that by auto
  let ?o = "if jsGt (jsAbs (jz (jsCross p d))) (literal (25 / 1000))
      then [if jsGt (jz (jsCross p d)) (Fin 0) then ''o'' else ''u''] else []"
  let ?j = "if jsGt (jsAbs (jy (jsCross p d))) (literal (25 / 1000))
      then [if jsGt (jy (jsCross p d)) (Fin 0) then ''j'' else ''l''] else []"
  let ?k = "if jsGt (jsAbs (jx (jsCross p d))) (literal (25 / 1000))
      then [if jsGt (jx (jsCross p d)) (Fin 0) then ''k'' else ''i''] else []"
  let ?e = "if jsGt (jsAbs (jsDot d (Fin 0, Fin 1, Fin 0))) TRANSLATION_TOLERANCE
      then [if jsGt (jy d) (Fin 0) then ''e'' else ''q''] else []"
  let ?a = "if jsGt (jsAbs (jsDot d (Fin 1, Fin 0, Fin 0))) TRANSLATION_TOLERANCE
      then [if jsGt (jx d) (Fin 0) then ''a'' else ''d''] else []"
  let ?w = "if jsGt (jsAbs (jsDot d (Fin 0, Fin 0, Fin 1))) TRANSLATION_TOLERANCE
      then [if jsGt (jz d) (Fin 0) then ''w'' else ''s''] else []"
  have 1: "distinct (?j @ ?o)" "set (?j @ ?o) \<subseteq> {''j'', ''l''} \<union> {''o'', ''u''}"
    by (rule app [OF d d s s], simp) (rule un [OF s s])
  have 2: "distinct (?k @ ?j @ ?o)" "set (?k @ ?j @ ?o) \<subseteq> {''k'', ''i''} \<union> ({''j'', ''l''} \<union> {''o'', ''u''})"
    by (rule app [OF d 1(1) s 1(2)], simp) (rule un [OF s 1(2)])
  have 3: "distinct (?e @ ?k @ ?j @ ?o)"
    "set (?e @ ?k @ ?j @ ?o) \<subseteq> {''e'', ''q''} \<union> ({''k'', ''i''} \<union> ({''j'', ''l''} \<union> {''o'', ''u''}))"
    by (rule app [OF d 2(1) s 2(2)], simp) (rule un [OF s 2(2)])
  have 4: "distinct (?a @ ?e @ ?k @ ?j @ ?o)"
    "set (?a @ ?e @ ?k @ ?j @ ?o) \<subseteq>
       {''a'', ''d''} \<union> ({''e'', ''q''} \<union> ({''k'', ''i''} \<union> ({''j'', ''l''} \<union> {''o'', ''u''})))"
    by (rule app [OF d 3(1) s 3(2)], simp) (rule un [OF s 3(2)])
  have "distinct (?w @ ?a @ ?e @ ?k @ ?j @ ?o)"
    by (rule app [OF d 4(1) s 4(2)]) simp
  then show ?thesis
    unfolding autoBindKeys_def Let_def by simp
qed
text \<open>Pushing an index keeps the keys and appends to the first array under the key.\<close>

lemma pushIndex_keys [simp]: "map fst (pushIndex k i m) = map fst m"
  by (induction m) auto

lemma hasKey_pushIndex [simp]: "hasKey (pushIndex k i m) k' = hasKey m k'"
  by (simp add: hasKey_def)

lemma map_of_pushIndex:
  "map_of (pushIndex k i m) k' =
     (if k' = k then map_option (\<lambda>ids. ids @ [i]) (map_of m k') else map_of m k')"
  by (induction m) auto

lemma bindKeys_present:
  assumes "set ks \<subseteq> set (map fst m)"
  shows "fst (bindKeys ks i m) = None \<and> map fst (snd (bindKeys ks i m)) = map fst m \<and>
         (distinct ks \<longrightarrow>
            (\<forall>k. map_of (snd (bindKeys ks i m)) k =
                   map_option (\<lambda>ids. ids @ (if k \<in> set ks then [i] else [])) (map_of m k)))"
  using assms
proof (induction ks arbitrary: m)
  case Nil
  then show ?case by (simp add: option.map_ident)
next
  case (Cons k ks)
  from Cons.prems have hk: "hasKey m k" and sub: "set ks \<subseteq> set (map fst (pushIndex k i m))"
    by (simp_all add: hasKey_def)
  note ih = Cons.IH [OF sub]
  have step: "bindKeys (k # ks) i m = bindKeys ks i (pushIndex k i m)"
    using hk by simp
  show ?case
    unfolding step using ih
    by (auto simp: map_of_pushIndex option.map_comp o_def option.map_ident)
qed

text \<open>
  Claim C8. The direction of a thruster is \<open>unit\<close> of the configured direction and its
  lever arm the configured position less the centre of mass; the tolerance is
  \<open>Math.cos(65 * Math.PI / 180)\<close>. All of these, the dot products and the torque
  \<open>pos \<times> dir\<close> are the doubles the program computes. Under auto-binding the thruster is
  pushed onto \<open>w\<close> or \<open>s\<close> exactly when \<open>|dir \<sqdot> z| > tolerance\<close>, onto \<open>w\<close> when
  \<open>dir.z > 0\<close>; likewise onto \<open>a\<close>/\<open>d\<close> by \<open>x\<close> and \<open>e\<close>/\<open>q\<close> by \<open>y\<close>; and onto
  \<open>k\<close>/\<open>i\<close>, \<open>j\<close>/\<open>l\<close>, \<open>o\<close>/\<open>u\<close> exactly when the \<open>x\<close>, \<open>y\<close>, \<open>z\<close> component of the
  torque exceeds the literal \<open>0.025\<close> in absolute value, the first of each pair when the
  component is positive. On a map that has the twelve channels, binding thruster \<open>i\<close>
  appends \<open>i\<close> to exactly these channels, translation and rotation alike, and throws
  nothing.
\<close>

theorem auto_binding:
  "TRANSLATION_TOLERANCE = jsCos (jsDiv (jsMul (Fin 65) Math_PI) (Fin 180)) \<and>
   thrusterDir t = jsUnit (tc_direction t) \<and>
   tj_dir (makeThruster com i t) = thrusterDir t \<and>
   tj_pos (makeThruster com i t) = thrusterPos com t \<and>
   (''w'' \<in> set (autoBindKeys (thrusterPos com t) (thrusterDir t)) \<longleftrightarrow>
      jsGt (jsAbs (jsDot (thrusterDir t) (Fin 0, Fin 0, Fin 1))) TRANSLATION_TOLERANCE \<and> jsGt (jz (thrusterDir t)) (Fin 0)) \<and>
   (''s'' \<in> set (autoBindKeys (thrusterPos com t) (thrusterDir t)) \<longleftrightarrow>
      jsGt (jsAbs (jsDot (thrusterDir t) (Fin 0, Fin 0, Fin 1))) TRANSLATION_TOLERANCE \<and> \<not> jsGt (jz (thrusterDir t)) (Fin 0)) \<and>
   (''a'' \<in> set (autoBindKeys (thrusterPos com t) (thrusterDir t)) \<longleftrightarrow>
      jsGt (jsAbs (jsDot (thrusterDir t) (Fin 1, Fin 0, Fin 0))) TRANSLATION_TOLERANCE \<and> jsGt (jx (thrusterDir t)) (Fin 0)) \<and>
   (''d'' \<in> set (autoBindKeys (thrusterPos com t) (thrusterDir t)) \<longleftrightarrow>
      jsGt (jsAbs (jsDot (thrusterDir t) (Fin 1, Fin 0, Fin 0))) TRANSLATION_TOLERANCE \<and> \<not> jsGt (jx (thrusterDir t)) (Fin 0)) \<and>
   (''e'' \<in> set (autoBindKeys (thrusterPos com t) (thrusterDir t)) \<longleftrightarrow>
      jsGt (jsAbs (jsDot (thrusterDir t) (Fin 0, Fin 1, Fin 0))) TRANSLATION_TOLERANCE \<and> jsGt (jy (thrusterDir t)) (Fin 0)) \<and>
   (''q'' \<in> set (autoBindKeys (thrusterPos com t) (thrusterDir t)) \<longleftrightarrow>
      jsGt (jsAbs (jsDot (thrusterDir t) (Fin 0, Fin 1, Fin 0))) TRANSLATION_TOLERANCE \<and> \<not> jsGt (jy (thrusterDir t)) (Fin 0)) \<and>
   (''k'' \<in> set (autoBindKeys (thrusterPos com t) (thrusterDir t)) \<longleftrightarrow>
      jsGt (jsAbs (jx (jsCross (thrusterPos com t) (thrusterDir t)))) (literal (25 / 1000)) \<and> jsGt (jx (jsCross (thrusterPos com t) (thrusterDir t))) (Fin 0)) \<and>
   (''i'' \<in> set (autoBindKeys (thrusterPos com t) (thrusterDir t)) \<longleftrightarrow>
      jsGt (jsAbs (jx (jsCross (thrusterPos com t) (thrusterDir t)))) (literal (25 / 1000)) \<and> \<not> jsGt (jx (jsCross (thrusterPos com t) (thrusterDir t))) (Fin 0)) \<and>
   (''j'' \<in> set (autoBindKeys (thrusterPos com t) (thrusterDir t)) \<longleftrightarrow>
      jsGt (jsAbs (jy (jsCross (thrusterPos com t) (thrusterDir t)))) (literal (25 / 1000)) \<and> jsGt (jy (jsCross (thrusterPos com t) (thrusterDir t))) (Fin 0)) \<and>
   (''l'' \<in> set (autoBindKeys (thrusterPos com t) (thrusterDir t)) \<longleftrightarrow>
      jsGt (jsAbs (jy (jsCross (thrusterPos com t) (thrusterDir t)))) (literal (25 / 1000)) \<and> \<not> jsGt (jy (jsCross (thrusterPos com t) (thrusterDir t))) (Fin 0)) \<and>
   (''o'' \<in> set (autoBindKeys (thrusterPos com t) (thrusterDir t)) \<longleftrightarrow>
      jsGt (jsAbs (jz (jsCross (thrusterPos com t) (thrusterDir t)))) (literal (25 / 1000)) \<and> jsGt (jz (jsCross (thrusterPos com t) (thrusterDir t))) (Fin 0)) \<and>
   (''u'' \<in> set (autoBindKeys (thrusterPos com t) (thrusterDir t)) \<longleftrightarrow>
      jsGt (jsAbs (jz (jsCross (thrusterPos com t) (thrusterDir t)))) (literal (25 / 1000)) \<and> \<not> jsGt (jz (jsCross (thrusterPos com t) (thrusterDir t))) (Fin 0)) \<and>
   set (autoBindKeys (thrusterPos com t) (thrusterDir t)) \<subseteq> set channelKeys \<and>
   (tc_autoBind t \<noteq> JBool False \<and> set channelKeys \<subseteq> set (map fst m) \<longrightarrow>
      fst (bindThruster com i t m) = None \<and>
      map fst (snd (bindThruster com i t m)) = map fst m \<and>
      (\<forall>k. map_of (snd (bindThruster com i t m)) k =
             map_option
               (\<lambda>ids. ids @ (if k \<in> set (autoBindKeys (thrusterPos com t) (thrusterDir t))
                              then [i] else []))
               (map_of m k)))"
proof -
  have tol: "TRANSLATION_TOLERANCE = jsCos (jsDiv (jsMul (Fin 65) Math_PI) (Fin 180))"
    by (simp add: TRANSLATION_TOLERANCE_def TRANSLATION_ANGLE_DEGREES_def jsSub_def)
  have geo: "thrusterDir t = jsUnit (tc_direction t)"
    "tj_dir (makeThruster com i t) = thrusterDir t"
    "tj_pos (makeThruster com i t) = thrusterPos com t"
    by (simp_all add: thrusterDir_def makeThruster_def)
  have keys:
    "''w'' \<in> set (autoBindKeys (thrusterPos com t) (thrusterDir t)) \<longleftrightarrow>
        jsGt (jsAbs (jsDot (thrusterDir t) (Fin 0, Fin 0, Fin 1))) TRANSLATION_TOLERANCE \<and> jsGt (jz (thrusterDir t)) (Fin 0)"
    "''s'' \<in> set (autoBindKeys (thrusterPos com t) (thrusterDir t)) \<longleftrightarrow>
        jsGt (jsAbs (jsDot (thrusterDir t) (Fin 0, Fin 0, Fin 1))) TRANSLATION_TOLERANCE \<and> \<not> jsGt (jz (thrusterDir t)) (Fin 0)"
    "''a'' \<in> set (autoBindKeys (thrusterPos com t) (thrusterDir t)) \<longleftrightarrow>
        jsGt (jsAbs (jsDot (thrusterDir t) (Fin 1, Fin 0, Fin 0))) TRANSLATION_TOLERANCE \<and> jsGt (jx (thrusterDir t)) (Fin 0)"
    "''d'' \<in> set (autoBindKeys (thrusterPos com t) (thrusterDir t)) \<longleftrightarrow>
        jsGt (jsAbs (jsDot (thrusterDir t) (Fin 1, Fin 0, Fin 0))) TRANSLATION_TOLERANCE \<and> \<not> jsGt (jx (thrusterDir t)) (Fin 0)"
    "''e'' \<in> set (autoBindKeys (thrusterPos com t) (thrusterDir t)) \<longleftrightarrow>
        jsGt (jsAbs (jsDot (thrusterDir t) (Fin 0, Fin 1, Fin 0))) TRANSLATION_TOLERANCE \<and> jsGt (jy (thrusterDir t)) (Fin 0)"
    "''q'' \<in> set (autoBindKeys (thrusterPos com t) (thrusterDir t)) \<longleftrightarrow>
        jsGt (jsAbs (jsDot (thrusterDir t) (Fin 0, Fin 1, Fin 0))) TRANSLATION_TOLERANCE \<and> \<not> jsGt (jy (thrusterDir t)) (Fin 0)"
    "''k'' \<in> set (autoBindKeys (thrusterPos com t) (thrusterDir t)) \<longleftrightarrow>
        jsGt (jsAbs (jx (jsCross (thrusterPos com t) (thrusterDir t)))) (literal (25 / 1000)) \<and> jsGt (jx (jsCross (thrusterPos com t) (thrusterDir t))) (Fin 0)"
    "''i'' \<in> set (autoBindKeys (thrusterPos com t) (thrusterDir t)) \<longleftrightarrow>
        jsGt (jsAbs (jx (jsCross (thrusterPos com t) (thrusterDir t)))) (literal (25 / 1000)) \<and> \<not> jsGt (jx (jsCross (thrusterPos com t) (thrusterDir t))) (Fin 0)"
    "''j'' \<in> set (autoBindKeys (thrusterPos com t) (thrusterDir t)) \<longleftrightarrow>
        jsGt (jsAbs (jy (jsCross (thrusterPos com t) (thrusterDir t)))) (literal (25 / 1000)) \<and> jsGt (jy (jsCross (thrusterPos com t) (thrusterDir t))) (Fin 0)"
    "''l'' \<in> set (autoBindKeys (thrusterPos com t) (thrusterDir t)) \<longleftrightarrow>
        jsGt (jsAbs (jy (jsCross (thrusterPos com t) (thrusterDir t)))) (literal (25 / 1000)) \<and> \<not> jsGt (jy (jsCross (thrusterPos com t) (thrusterDir t))) (Fin 0)"
    "''o'' \<in> set (autoBindKeys (thrusterPos com t) (thrusterDir t)) \<longleftrightarrow>
        jsGt (jsAbs (jz (jsCross (thrusterPos com t) (thrusterDir t)))) (literal (25 / 1000)) \<and> jsGt (jz (jsCross (thrusterPos com t) (thrusterDir t))) (Fin 0)"
    "''u'' \<in> set (autoBindKeys (thrusterPos com t) (thrusterDir t)) \<longleftrightarrow>
        jsGt (jsAbs (jz (jsCross (thrusterPos com t) (thrusterDir t)))) (literal (25 / 1000)) \<and> \<not> jsGt (jz (jsCross (thrusterPos com t) (thrusterDir t))) (Fin 0)"
    unfolding autoBindKeys_mem by simp_all
  have bind: "fst (bindThruster com i t m) = None \<and>
      map fst (snd (bindThruster com i t m)) = map fst m \<and>
      (\<forall>k. map_of (snd (bindThruster com i t m)) k =
             map_option
               (\<lambda>ids. ids @ (if k \<in> set (autoBindKeys (thrusterPos com t) (thrusterDir t))
                              then [i] else []))
               (map_of m k))"
    if a: "tc_autoBind t \<noteq> JBool False" and k: "set channelKeys \<subseteq> set (map fst m)"
  proof -
    let ?ks = "autoBindKeys (thrusterPos com t) (thrusterDir t)"
    have sub: "set ?ks \<subseteq> set (map fst m)"
      using autoBindKeys_channels k by blast
    have eq: "bindThruster com i t m = bindKeys ?ks i m"
      using a by (simp add: bindThruster_def Let_def)
    show ?thesis
      unfolding eq using bindKeys_present [OF sub, of i] autoBindKeys_distinct [of "thrusterPos com t" "thrusterDir t"]
      by simp
  qed
  then have b: "tc_autoBind t \<noteq> JBool False \<and> set channelKeys \<subseteq> set (map fst m) \<longrightarrow>
      fst (bindThruster com i t m) = None \<and>
      map fst (snd (bindThruster com i t m)) = map fst m \<and>
      (\<forall>k. map_of (snd (bindThruster com i t m)) k =
             map_option
               (\<lambda>ids. ids @ (if k \<in> set (autoBindKeys (thrusterPos com t) (thrusterDir t))
                              then [i] else []))
               (map_of m k))"
    by blast
  have c: "set (autoBindKeys (thrusterPos com t) (thrusterDir t)) \<subseteq> set channelKeys"
    by (rule autoBindKeys_channels)
  from tol geo keys c b show ?thesis by (intro conjI) assumption+
qed


lemma tcfgSkew_dir:
  "thrusterDir tcfgSkew =
     (Fin (1351079888211149 / 2251799813685248), Fin 0, Fin (3602879701896397 / 4503599627370496))"
  by (simp add: thrusterDir_def tcfgSkew_def js_eval round_eval)

lemma tcfgSkew_pos: "thrusterPos noOffset tcfgSkew = (Fin 1, Fin 0, Fin 0)"
  by (simp add: thrusterPos_def tcfgSkew_def noOffset_def js_eval round_eval)

lemma tcfgSkew_keys:
  "autoBindKeys (thrusterPos noOffset tcfgSkew) (thrusterDir tcfgSkew) = [''w'', ''a'', ''l'']"
  unfolding autoBindKeys_def Let_def tcfgSkew_dir tcfgSkew_pos tolerance_eq literal_deadband
  by (simp add: js_eval round_eval)

lemma tcfgSkew_as_configured:
  "autoBindKeys (thrusterPos noOffset tcfgSkew) (tc_direction tcfgSkew) = [''l'']"
  unfolding autoBindKeys_def Let_def tcfgSkew_pos tolerance_eq literal_deadband
  by (simp add: tcfgSkew_def js_eval round_eval)

lemma tcfgEdge_dir:
  "thrusterDir tcfgEdge =
     (Fin (3602879701896397 / 4503599627370496), Fin (1351079888211149 / 2251799813685248), Fin 0)"
  by (simp add: thrusterDir_def tcfgEdge_def js_eval round_eval)

lemma tcfgEdge_pos: "thrusterPos noOffset tcfgEdge = (Fin (1 / 8), Fin (1 / 16), Fin 0)"
  by (simp add: thrusterPos_def tcfgEdge_def noOffset_def js_eval round_eval)

lemma tcfgEdge_torque:
  "jsCross (thrusterPos noOffset tcfgEdge) (thrusterDir tcfgEdge) =
     (Fin 0, Fin 0, Fin (1801439850948199 / 72057594037927936))"
  unfolding tcfgEdge_dir tcfgEdge_pos by (simp add: js_eval round_eval)

lemma tcfgEdge_keys:
  "autoBindKeys (thrusterPos noOffset tcfgEdge) (thrusterDir tcfgEdge) = [''a'', ''e'', ''o'']"
  unfolding autoBindKeys_def Let_def tcfgEdge_torque
  unfolding tcfgEdge_dir tolerance_eq literal_deadband
  by (simp add: js_eval round_eval)

theorem auto_binding_witness:
  "tc_autoBind tcfgSkew \<noteq> JBool False \<and> set channelKeys \<subseteq> set (map fst emptyChannels) \<and>
   tc_direction tcfgSkew = (Fin (3 / 16), Fin 0, Fin (1 / 4)) \<and>
   tj_dir (makeThruster noOffset 0 tcfgSkew) =
     (Fin (1351079888211149 / 2251799813685248), Fin 0, Fin (3602879701896397 / 4503599627370496)) \<and>
   autoBindKeys (thrusterPos noOffset tcfgSkew) (thrusterDir tcfgSkew) = [''w'', ''a'', ''l''] \<and>
   fst (bindThruster noOffset 0 tcfgSkew emptyChannels) = None \<and>
   map_of (snd (bindThruster noOffset 0 tcfgSkew emptyChannels)) ''w'' = Some [0] \<and>
   map_of (snd (bindThruster noOffset 0 tcfgSkew emptyChannels)) ''a'' = Some [0] \<and>
   map_of (snd (bindThruster noOffset 0 tcfgSkew emptyChannels)) ''l'' = Some [0] \<and>
   map_of (snd (bindThruster noOffset 0 tcfgSkew emptyChannels)) ''s'' = Some []"
proof -
  have h: "tc_autoBind tcfgSkew \<noteq> JBool False \<and> set channelKeys \<subseteq> set (map fst emptyChannels)"
    by (simp add: tcfgSkew_def channelKeys_def)
  have g: "tc_direction tcfgSkew = (Fin (3 / 16), Fin 0, Fin (1 / 4))"
    by (simp add: tcfgSkew_def)
  note k = tcfgSkew_keys
  have m: "map_of emptyChannels ''w'' = Some []" "map_of emptyChannels ''a'' = Some []"
    "map_of emptyChannels ''l'' = Some []" "map_of emptyChannels ''s'' = Some []"
    by (simp_all add: emptyChannels_def)
  note inst = auto_binding [of tcfgSkew noOffset 0 emptyChannels]
  have dir: "tj_dir (makeThruster noOffset 0 tcfgSkew) = thrusterDir tcfgSkew"
    using inst by (elim conjE) assumption
  have "tc_autoBind tcfgSkew \<noteq> JBool False \<and> set channelKeys \<subseteq> set (map fst emptyChannels) \<longrightarrow>
      fst (bindThruster noOffset 0 tcfgSkew emptyChannels) = None \<and>
      map fst (snd (bindThruster noOffset 0 tcfgSkew emptyChannels)) = map fst emptyChannels \<and>
      (\<forall>k. map_of (snd (bindThruster noOffset 0 tcfgSkew emptyChannels)) k =
             map_option
               (\<lambda>ids. ids @ (if k \<in> set (autoBindKeys (thrusterPos noOffset tcfgSkew)
                                                (thrusterDir tcfgSkew))
                              then [0] else []))
               (map_of emptyChannels k))"
    using inst by (elim conjE) assumption
  with h have r: "fst (bindThruster noOffset 0 tcfgSkew emptyChannels) = None"
    "\<And>k. map_of (snd (bindThruster noOffset 0 tcfgSkew emptyChannels)) k =
             map_option (\<lambda>ids. ids @ (if k \<in> set [''w'', ''a'', ''l''] then [0] else []))
               (map_of emptyChannels k)"
    unfolding k by simp_all
  from h g k show ?thesis by (simp add: r m dir tcfgSkew_dir)
qed
section \<open>Binding the same configuration again\<close>












section \<open>Defaults after \<open>??\<close> in the loaders\<close>

lemma parseFloat_is_number: "\<exists>n. parseFloat v = JNum n"
  by (cases v) simp_all

lemma nullish_parseFloat [simp]: "nullish (parseFloat v) d = parseFloat v"
  by (cases v) (simp_all add: nullish_def)

lemma nullish_number [simp]: "nullish (JNum n) d = JNum n"
  by (simp add: nullish_def)

lemma takeWhile_Nil_hd: "takeWhile P u = [] \<longleftrightarrow> u = [] \<or> \<not> P (hd u)"
  by (cases u) auto

lemma parseFloatString_NaN: "parseFloatString s = NaN \<longleftrightarrow> \<not> numericPrefix s"
proof -
  obtain sg u where p: "parseSign (dropWhile isStrWhiteSpace s) = (sg, u)"
    by (cases "parseSign (dropWhile isStrWhiteSpace s)")
  show ?thesis
  proof (cases "take 8 u = ''Infinity''")
    case True
    then show ?thesis by (simp add: parseFloatString_def numericPrefix_def p)
  next
    case inf: False
    show ?thesis
    proof (cases "u = [] \<or> \<not> isDigit (hd u)")
      case False
      then have "takeWhile isDigit u \<noteq> []" by (simp add: takeWhile_Nil_hd)
      with False inf show ?thesis
        by (simp add: parseFloatString_def numericPrefix_def p Let_def)
    next
      case True
      then have ip: "takeWhile isDigit u = []" and r1: "dropWhile isDigit u = u"
        by (cases u; simp)+
      show ?thesis
        using True inf
        by (auto simp: parseFloatString_def numericPrefix_def p Let_def ip r1 takeWhile_Nil_hd)
    qed
  qed
qed

lemma nonNumeric_parseFloat: "nonNumeric v \<longleftrightarrow> parseFloat v = JNum NaN"
  by (cases v) (simp_all add: parseFloatString_NaN)

lemma processReactionWheelsConfig_nth:
  assumes "i < length wheels"
  shows "processReactionWheelsConfig com wheels ws ! (length ws + i) = makeWheel com i (wheels ! i)"
  using assms by (simp add: processReactionWheelsConfig_def nth_append)

lemma processCMGsConfig_nth:
  assumes "data_cmgs data = Some a" "i < length a"
  shows "processCMGsConfig data cs ! (length cs + i) = makeCMG i (a ! i)"
  using assms by (auto simp: processCMGsConfig_def Let_def nth_append)

text \<open>
  Where the default does work: the position, whose \<open>??\<close> stands inside \<open>parseFloat\<close>.
  And what the missing orientation leads to: the raw vector is all NaN, and the library's
  \<open>unit\<close> answers the \<open>x\<close> axis.
\<close>

lemma missing_position_defaults:
  "wc_position wheelConfig = None \<Longrightarrow>
   jw_position (makeWheel noOffset i wheelConfig) = (Fin 0, Fin 0, Fin 0)"
  by (simp add: makeWheel_def Let_def noOffset_def js_eval round_eval)

text \<open>A vector with a NaN component has the length NaN, and its \<open>unit\<close> is the \<open>x\<close> axis.\<close>

lemma jsUnit_NaN:
  assumes "x = NaN \<or> y = NaN \<or> z = NaN"
  shows "jsUnit (x, y, z) = (Fin 1, Fin 0, Fin 0)"
proof -
  have m: "jsMul a a = NaN \<longleftrightarrow> a = NaN" for a
    by (cases a) simp_all
  have l: "jsAdd a b = NaN" if "a = NaN \<or> b = NaN" for a b
    using that by (cases a; cases b) simp_all
  have "jsAdd (jsAdd (jsMul x x) (jsMul y y)) (jsMul z z) = NaN"
    using assms by (auto simp: m intro!: l)
  then have "jsLength (x, y, z) = NaN"
    by (simp add: jsLength_def)
  then show ?thesis
    by (simp add: jsUnit_def jsGt_def)
qed

lemma nonNumeric_toNumber: "nonNumeric v \<Longrightarrow> toNumber (parseFloat v) = NaN"
  by (simp add: nonNumeric_parseFloat)

lemma missing_orientation_axis:
  assumes "nonNumeric (optX (wc_orientation wheelConfig)) \<or>
           nonNumeric (optY (wc_orientation wheelConfig)) \<or>
           nonNumeric (optZ (wc_orientation wheelConfig))"
  shows "jw_orientation (makeWheel com i wheelConfig) = (Fin 1, Fin 0, Fin 0)"
proof -
  have "jw_orientation (makeWheel com i wheelConfig) =
      jsUnit (toNumber (parseFloat (optX (wc_orientation wheelConfig))),
              toNumber (parseFloat (optY (wc_orientation wheelConfig))),
              toNumber (parseFloat (optZ (wc_orientation wheelConfig))))"
    by (simp add: makeWheel_def rawOrientation_def Let_def)
  also have "\<dots> = (Fin 1, Fin 0, Fin 0)"
    using assms by (intro jsUnit_NaN) (auto simp: nonNumeric_toNumber)
  finally show ?thesis .
qed

text \<open>
  The claim as written fails for the orientation. The entry \<open>wcfgNoZ\<close> gives \<open>x = 0\<close> and
  \<open>y = 1\<close> and no \<open>z\<close>: the third argument of the vector is NaN and not the default 1,
  but the wheel stores neither; it stores the \<open>unit\<close> of that vector, \<open>(1, 0, 0)\<close>, and
  with it another axis than the one configured.
\<close>

theorem orientation_stored_is_not_NaN:
  "nonNumeric (optZ (wc_orientation wcfgNoZ)) \<and>
   snd (snd (rawOrientation wcfgNoZ)) = JNum NaN \<and>
   jw_orientation (makeWheel noOffset 0 wcfgNoZ) = (Fin 1, Fin 0, Fin 0) \<and>
   jz (jw_orientation (makeWheel noOffset 0 wcfgNoZ)) \<noteq> NaN"
proof -
  have n: "nonNumeric (optZ (wc_orientation wcfgNoZ))"
    by (simp add: wcfgNoZ_def)
  have r: "snd (snd (rawOrientation wcfgNoZ)) = JNum NaN"
    by (simp add: rawOrientation_def wcfgNoZ_def)
  have o: "jw_orientation (makeWheel noOffset 0 wcfgNoZ) = (Fin 1, Fin 0, Fin 0)"
    using n by (intro missing_orientation_axis) simp
  from n r o show ?thesis by simp
qed

text \<open>
  Claim C10 as the code has it. Whatever the entry holds, the wheel's \<open>maxAngularMomentum\<close> and
  \<open>maxTorque\<close>, the CMG's \<open>maxAngularMomentum\<close> and \<open>maxTorque\<close> and the three arguments
  of the raw orientation vector are what \<open>parseFloat\<close> returns, never the value written
  after \<open>??\<close>; for an absent or otherwise non-numeric field that is NaN, not 10, 0.5, 200,
  5, or 0, 0, 1. The limits are stored as they are. The orientation is stored normalised:
  as soon as one of its components is non-numeric the wheel holds \<open>(1, 0, 0)\<close>. Every
  wheel and CMG the loaders push is built this way.
\<close>

theorem nullish_default_unreachable:
  "jw_maxAngularMomentum (makeWheel com i wheelConfig) =
     parseFloat (wc_maxAngularMomentum wheelConfig) \<and>
   jw_maxTorque (makeWheel com i wheelConfig) = parseFloat (wc_maxTorque wheelConfig) \<and>
   jc_maxAngularMomentum (makeCMG i cmgConfig) =
     parseFloat (cc_maxAngularMomentum cmgConfig) \<and>
   jc_maxTorque (makeCMG i cmgConfig) = parseFloat (cc_maxTorque cmgConfig) \<and>
   rawOrientation wheelConfig =
     (parseFloat (optX (wc_orientation wheelConfig)),
      parseFloat (optY (wc_orientation wheelConfig)),
      parseFloat (optZ (wc_orientation wheelConfig))) \<and>
   nonNumeric JUndefined \<and>
   (nonNumeric (wc_maxAngularMomentum wheelConfig) \<longrightarrow>
      jw_maxAngularMomentum (makeWheel com i wheelConfig) = JNum NaN) \<and>
   (nonNumeric (wc_maxTorque wheelConfig) \<longrightarrow>
      jw_maxTorque (makeWheel com i wheelConfig) = JNum NaN) \<and>
   (nonNumeric (cc_maxAngularMomentum cmgConfig) \<longrightarrow>
      jc_maxAngularMomentum (makeCMG i cmgConfig) = JNum NaN) \<and>
   (nonNumeric (cc_maxTorque cmgConfig) \<longrightarrow> jc_maxTorque (makeCMG i cmgConfig) = JNum NaN) \<and>
   (nonNumeric (optX (wc_orientation wheelConfig)) \<longrightarrow>
      fst (rawOrientation wheelConfig) = JNum NaN) \<and>
   (nonNumeric (optY (wc_orientation wheelConfig)) \<longrightarrow>
      fst (snd (rawOrientation wheelConfig)) = JNum NaN) \<and>
   (nonNumeric (optZ (wc_orientation wheelConfig)) \<longrightarrow>
      snd (snd (rawOrientation wheelConfig)) = JNum NaN) \<and>
   (nonNumeric (optX (wc_orientation wheelConfig)) \<or>
    nonNumeric (optY (wc_orientation wheelConfig)) \<or>
    nonNumeric (optZ (wc_orientation wheelConfig)) \<longrightarrow>
      jw_orientation (makeWheel com i wheelConfig) = (Fin 1, Fin 0, Fin 0)) \<and>
   (j < length wheels \<longrightarrow>
      processReactionWheelsConfig com wheels ws ! (length ws + j) = makeWheel com j (wheels ! j)) \<and>
   (data_cmgs data = Some a \<and> j < length a \<longrightarrow>
      processCMGsConfig data cs ! (length cs + j) = makeCMG j (a ! j))"
proof -
  have eqs: "jw_maxAngularMomentum (makeWheel com i wheelConfig) =
       parseFloat (wc_maxAngularMomentum wheelConfig)"
    "jw_maxTorque (makeWheel com i wheelConfig) = parseFloat (wc_maxTorque wheelConfig)"
    "jc_maxAngularMomentum (makeCMG i cmgConfig) = parseFloat (cc_maxAngularMomentum cmgConfig)"
    "jc_maxTorque (makeCMG i cmgConfig) = parseFloat (cc_maxTorque cmgConfig)"
    "rawOrientation wheelConfig =
     (parseFloat (optX (wc_orientation wheelConfig)),
      parseFloat (optY (wc_orientation wheelConfig)),
      parseFloat (optZ (wc_orientation wheelConfig)))"
    by (simp_all add: makeWheel_def makeCMG_def rawOrientation_def Let_def)
  have u: "nonNumeric JUndefined" by simp
  have nan: "nonNumeric (wc_maxAngularMomentum wheelConfig) \<longrightarrow>
      jw_maxAngularMomentum (makeWheel com i wheelConfig) = JNum NaN"
    "nonNumeric (wc_maxTorque wheelConfig) \<longrightarrow>
      jw_maxTorque (makeWheel com i wheelConfig) = JNum NaN"
    "nonNumeric (cc_maxAngularMomentum cmgConfig) \<longrightarrow>
      jc_maxAngularMomentum (makeCMG i cmgConfig) = JNum NaN"
    "nonNumeric (cc_maxTorque cmgConfig) \<longrightarrow> jc_maxTorque (makeCMG i cmgConfig) = JNum NaN"
    "nonNumeric (optX (wc_orientation wheelConfig)) \<longrightarrow>
      fst (rawOrientation wheelConfig) = JNum NaN"
    "nonNumeric (optY (wc_orientation wheelConfig)) \<longrightarrow>
      fst (snd (rawOrientation wheelConfig)) = JNum NaN"
    "nonNumeric (optZ (wc_orientation wheelConfig)) \<longrightarrow>
      snd (snd (rawOrientation wheelConfig)) = JNum NaN"
    unfolding eqs by (simp_all add: nonNumeric_parseFloat)
  have ori: "nonNumeric (optX (wc_orientation wheelConfig)) \<or>
    nonNumeric (optY (wc_orientation wheelConfig)) \<or>
    nonNumeric (optZ (wc_orientation wheelConfig)) \<longrightarrow>
      jw_orientation (makeWheel com i wheelConfig) = (Fin 1, Fin 0, Fin 0)"
    using missing_orientation_axis by blast
  have w: "j < length wheels \<longrightarrow>
      processReactionWheelsConfig com wheels ws ! (length ws + j) = makeWheel com j (wheels ! j)"
    using processReactionWheelsConfig_nth by blast
  have c: "data_cmgs data = Some a \<and> j < length a \<longrightarrow>
      processCMGsConfig data cs ! (length cs + j) = makeCMG j (a ! j)"
    using processCMGsConfig_nth by blast
  from eqs u nan ori w c show ?thesis by (intro conjI) assumption+
qed

lemma parseFloatString_examples:
  "parseFloatString ''abc'' = NaN" "parseFloatString '' n/a'' = NaN"
  "parseFloatString '' 12.5kg'' = Fin (25 / 2)" "parseFloatString ''-3e2'' = Fin (- 300)"
  "parseFloatString ''300'' = Fin 300"
  by (simp_all add: parseFloatString_def isStrWhiteSpace_def isDigit_def digitsVal_def
      parseExponent_def pow10_def round_eval)

theorem nullish_default_unreachable_witness:
  "nonNumeric (wc_maxAngularMomentum wcfgEmpty) \<and> nonNumeric (wc_maxTorque wcfgEmpty) \<and>
   nonNumeric (cc_maxAngularMomentum ccfgEmpty) \<and> nonNumeric (cc_maxTorque ccfgEmpty) \<and>
   nonNumeric (optZ (wc_orientation wcfgEmpty)) \<and>
   jw_maxAngularMomentum (makeWheel noOffset 0 wcfgEmpty) = JNum NaN \<and>
   jw_maxTorque (makeWheel noOffset 0 wcfgEmpty) = JNum NaN \<and>
   jc_maxAngularMomentum (makeCMG 0 ccfgEmpty) = JNum NaN \<and>
   jc_maxTorque (makeCMG 0 ccfgEmpty) = JNum NaN \<and>
   snd (snd (rawOrientation wcfgEmpty)) = JNum NaN \<and>
   jw_orientation (makeWheel noOffset 0 wcfgEmpty) = (Fin 1, Fin 0, Fin 0) \<and>
   jw_maxAngularMomentum (processReactionWheelsConfig noOffset [wcfgEmpty] [] ! 0) = JNum NaN \<and>
   jc_maxTorque
     (processCMGsConfig \<lparr>data_cmgs = Some [ccfgEmpty], data_cmg_cmgs = None\<rparr> [] ! 0) = JNum NaN"
proof -
  have s: "\<not> numericPrefix ''abc''" "\<not> numericPrefix '' n/a''"
    using parseFloatString_examples(1,2) by (simp_all add: parseFloatString_NaN)
  have h: "nonNumeric (wc_maxAngularMomentum wcfgEmpty)" "nonNumeric (wc_maxTorque wcfgEmpty)"
    "nonNumeric (cc_maxAngularMomentum ccfgEmpty)" "nonNumeric (cc_maxTorque ccfgEmpty)"
    "nonNumeric (optX (wc_orientation wcfgEmpty))" "nonNumeric (optY (wc_orientation wcfgEmpty))"
    "nonNumeric (optZ (wc_orientation wcfgEmpty))"
    by (simp_all add: wcfgEmpty_def ccfgEmpty_def s)
  have l: "(0 :: nat) < length [wcfgEmpty]"
    "data_cmgs \<lparr>data_cmgs = Some [ccfgEmpty], data_cmg_cmgs = None\<rparr> = Some [ccfgEmpty] \<and>
     (0 :: nat) < length [ccfgEmpty]"
    by simp_all
  note inst = nullish_default_unreachable [of noOffset 0 wcfgEmpty ccfgEmpty 0 "[wcfgEmpty]" "[]"
      "\<lparr>data_cmgs = Some [ccfgEmpty], data_cmg_cmgs = None\<rparr>" "[ccfgEmpty]" "[]"]
  have r: "jw_maxAngularMomentum (makeWheel noOffset 0 wcfgEmpty) = JNum NaN"
    "jw_maxTorque (makeWheel noOffset 0 wcfgEmpty) = JNum NaN"
    "jc_maxAngularMomentum (makeCMG 0 ccfgEmpty) = JNum NaN"
    "jc_maxTorque (makeCMG 0 ccfgEmpty) = JNum NaN"
    "snd (snd (rawOrientation wcfgEmpty)) = JNum NaN"
    "jw_orientation (makeWheel noOffset 0 wcfgEmpty) = (Fin 1, Fin 0, Fin 0)"
    "processReactionWheelsConfig noOffset [wcfgEmpty] [] ! 0 =
       makeWheel noOffset 0 wcfgEmpty"
    "processCMGsConfig \<lparr>data_cmgs = Some [ccfgEmpty], data_cmg_cmgs = None\<rparr> [] ! 0 =
       makeCMG 0 ccfgEmpty"
    using inst h l
    by (simp_all add: wcfgEmpty_def ccfgEmpty_def parseFloatString_examples)
  from h r show ?thesis by simp
qed

end
